theory Spec2Isabelle
  imports Main "HOL-Library.Sublist"
begin

section \<open>Data model\<close>

text \<open>
  The job envelopes of \<^verbatim>\<open>worker/main.go\<close> and \<^verbatim>\<open>api/main.go\<close> (the two files declare
  the same structs). The \<^verbatim>\<open>Timestamp\<close> field of \<^verbatim>\<open>BinaryJob\<close> is written \<open>BTimestamp\<close>,
  since a record field name is a constant of the theory.
\<close>

record Job =
  PostID :: string
  Title :: string
  Todo :: string
  FilePaths :: "string list"
  Timestamp :: string

record BinaryJob =
  JobID :: string
  FilePath :: string
  BTimestamp :: string

text \<open>A Go \<^verbatim>\<open>error\<close> built by \<^verbatim>\<open>fmt.Errorf\<close> is its message.\<close>

type_synonym error = string

text \<open>
  The rows of the two tables that \<^verbatim>\<open>initDB\<close> creates, keyed by \<^verbatim>\<open>id\<close> and \<^verbatim>\<open>job_id\<close>.
  The timestamp columns are filled by the database clock and read by no claim; they are
  left out. A NULL column is \<open>None\<close>. The table \<^verbatim>\<open>posts\<close> has no status column.
\<close>

record post_row =
  title :: string
  todo :: string
  imageurl :: string

record binary_row =
  status :: string
  image_url :: "string option"
  error_message :: "string option"

text \<open>The SQL statements of the two programs, one constructor for each statement text.\<close>

datatype sql =
    InsertPostPending string string string string
      \<comment> \<open>api: \<^verbatim>\<open>INSERT INTO posts (id, title, todo, imageurl) VALUES ($1, $2, $3, $4)
          ON CONFLICT (id) DO UPDATE SET title = $2, todo = $3\<close>\<close>
  | UpsertPostImages string string string string
      \<comment> \<open>worker: \<^verbatim>\<open>INSERT INTO posts (id, title, todo, imageurl) VALUES ($1, $2, $3, $4)
          ON CONFLICT (id) DO UPDATE SET imageurl = $4\<close>\<close>
  | InsertBinary string string
      \<comment> \<open>api: \<^verbatim>\<open>INSERT INTO binary_uploads (job_id, status) VALUES ($1, $2)\<close>\<close>
  | SetProcessing string
      \<comment> \<open>worker: \<^verbatim>\<open>UPDATE binary_uploads SET status = 'processing', ... WHERE job_id = $1\<close>\<close>
  | SetFailed string string
      \<comment> \<open>worker: \<^verbatim>\<open>UPDATE binary_uploads SET status = 'failed', error_message = $1, ...
          WHERE job_id = $2\<close>\<close>
  | SetCompleted string string
      \<comment> \<open>worker: \<^verbatim>\<open>UPDATE binary_uploads SET status = 'completed', image_url = $1, ...
          WHERE job_id = $2\<close>\<close>

text \<open>
  What a delivery is settled with: \<^verbatim>\<open>msg.Ack(multiple)\<close> or
  \<^verbatim>\<open>msg.Nack(multiple, requeue)\<close>.
\<close>

datatype settle = Ack bool | Nack bool bool

datatype image = Image string

text \<open>The HTTP answers of the producer.\<close>

record UploadResponse =
  Message :: string
  RPostID :: string
  Status :: string
  RFilePaths :: "string list"

record BinaryUploadResponse =
  BMessage :: string
  RJobID :: string
  BStatus :: string

datatype response =
    HttpError nat string
  | UploadOK UploadResponse
  | BinaryUploadOK BinaryUploadResponse

text \<open>
  Every effect of the programs on their collaborators is recorded, in order, as an event:
  a log line, the existence check of a staged file, a database statement with its
  outcome, an upload with its outcome, the removal of a file, the settling of a delivery,
  a publish with its outcome.
\<close>

datatype event =
    Log string
  | Stat string bool
  | DbExec sql "error option"
  | Upload string "error + string"
  | Remove string
  | Settle settle
  | Publish string string "error option"

text \<open>
  The state the programs act on: the files under the staging directory (path to
  contents), the two tables, the two durable queues (the bodies waiting, oldest first),
  the trace of events so far, and the number of calls made so far to a collaborator that
  may answer differently each time.
\<close>

record world =
  files :: "string \<rightharpoonup> string"
  posts :: "string \<rightharpoonup> post_row"
  binary_uploads :: "string \<rightharpoonup> binary_row"
  image_processing :: "string list"
  binary_upload :: "string list"
  trace :: "event list"
  tick :: nat

text \<open>
  The collaborators whose code is not part of the repository are parameters: the
  database's and the broker's availability, Cloudinary, the image codecs of the Go
  standard library, \<^verbatim>\<open>encoding/json\<close>, \<^verbatim>\<open>uuid.New\<close>, the clock, \<^verbatim>\<open>fmt\<close> applied to a
  format string without operands, and the environment variable \<^verbatim>\<open>KEEP_FILES\<close>. An answer
  that may change from call to call takes the call's number.
\<close>

record env =
  db_fault :: "nat \<Rightarrow> error option"
  amqp_fault :: "nat \<Rightarrow> error option"
  cld_Upload :: "nat \<Rightarrow> string \<Rightarrow> string option \<Rightarrow> error + string"
  jpeg_Decode :: "string \<Rightarrow> error + image"
  png_Decode :: "string \<Rightarrow> error + image"
  jpeg_Encode :: "image \<Rightarrow> error + string"
  create_fault :: "nat \<Rightarrow> string \<Rightarrow> error option"
  copy_fault :: "nat \<Rightarrow> string \<Rightarrow> error option"
  json_Unmarshal_Job :: "string \<Rightarrow> error + Job"
  json_Unmarshal_BinaryJob :: "string \<Rightarrow> error + BinaryJob"
  json_Marshal_Job :: "Job \<Rightarrow> error + string"
  json_Marshal_BinaryJob :: "BinaryJob \<Rightarrow> error + string"
  uuid_New :: "nat \<Rightarrow> string"
  time_Now :: "nat \<Rightarrow> string"
  fmt_verbs :: "string \<Rightarrow> string"
  KEEP_FILES :: string
  requeue_at :: "nat \<Rightarrow> nat"

section \<open>Library functions\<close>

text \<open>
  \<^verbatim>\<open>filepath.Ext\<close>: scanning from the end until a separator, the suffix that starts at the
  first dot found; empty when there is none.
\<close>

fun ext_scan :: "string \<Rightarrow> string \<Rightarrow> string" where
  "ext_scan [] acc = []"
| "ext_scan (c # cs) acc =
     (if c = CHR ''/'' then []
      else if c = CHR ''.'' then c # acc
      else ext_scan cs (c # acc))"

definition filepath_Ext :: "string \<Rightarrow> string" where
  "filepath_Ext path = ext_scan (rev path) []"

text \<open>
  \<^verbatim>\<open>strings.ToLower\<close> on the ASCII letters; other bytes are kept. (Go also lowers letters
  beyond ASCII; none of them becomes a letter of \<^verbatim>\<open>.jpg\<close>, \<^verbatim>\<open>.jpeg\<close> or \<^verbatim>\<open>.png\<close>.)
\<close>

definition lower_char :: "char \<Rightarrow> char" where
  "lower_char c =
     (case map_of (zip ''ABCDEFGHIJKLMNOPQRSTUVWXYZ'' ''abcdefghijklmnopqrstuvwxyz'') c of
        Some d \<Rightarrow> d
      | None \<Rightarrow> c)"

definition strings_ToLower :: "string \<Rightarrow> string" where
  "strings_ToLower s = map lower_char s"

fun strings_Contains :: "string \<Rightarrow> string \<Rightarrow> bool" where
  "strings_Contains [] sub = (sub = [])"
| "strings_Contains (c # cs) sub = (prefix sub (c # cs) \<or> strings_Contains cs sub)"

fun strings_Join :: "string list \<Rightarrow> string \<Rightarrow> string" where
  "strings_Join [] sep = []"
| "strings_Join [a] sep = a"
| "strings_Join (a # b # bs) sep = a @ sep @ strings_Join (b # bs) sep"

text \<open>
  \<^verbatim>\<open>filepath.Join(dir, name)\<close> for a clean directory and a file name without separator,
  which is all the producer passes.
\<close>

definition filepath_Join :: "string \<Rightarrow> string \<Rightarrow> string" where
  "filepath_Join dir name = dir @ ''/'' @ name"

section \<open>Effects\<close>

definition emit :: "event \<Rightarrow> world \<Rightarrow> world" where
  "emit e w = w\<lparr>trace := trace w @ [e]\<rparr>"

definition log_Printf :: "string \<Rightarrow> world \<Rightarrow> world" where
  "log_Printf s w = emit (Log s) w"

text \<open>\<^verbatim>\<open>os.Stat\<close> followed by \<^verbatim>\<open>os.IsNotExist\<close>.\<close>

definition os_Stat_IsNotExist :: "world \<Rightarrow> string \<Rightarrow> bool \<times> world" where
  "os_Stat_IsNotExist w path =
     (let missing = (files w path = None) in (missing, emit (Stat path missing) w))"

text \<open>\<^verbatim>\<open>os.Remove\<close>; its error is ignored at every call of the sources.\<close>

definition os_Remove :: "world \<Rightarrow> string \<Rightarrow> world" where
  "os_Remove w path = emit (Remove path) (w\<lparr>files := (files w)(path := None)\<rparr>)"

text \<open>What each statement does to the tables when the database accepts it.\<close>

fun run_sql :: "sql \<Rightarrow> world \<Rightarrow> error + world" where
  "run_sql (InsertPostPending i t d u) w =
     (case posts w i of
        None \<Rightarrow> Inr (w\<lparr>posts := (posts w)(i \<mapsto> \<lparr>title = t, todo = d, imageurl = u\<rparr>)\<rparr>)
      | Some r \<Rightarrow> Inr (w\<lparr>posts := (posts w)(i \<mapsto> r\<lparr>title := t, todo := d\<rparr>)\<rparr>))"
| "run_sql (UpsertPostImages i t d u) w =
     (case posts w i of
        None \<Rightarrow> Inr (w\<lparr>posts := (posts w)(i \<mapsto> \<lparr>title = t, todo = d, imageurl = u\<rparr>)\<rparr>)
      | Some r \<Rightarrow> Inr (w\<lparr>posts := (posts w)(i \<mapsto> r\<lparr>imageurl := u\<rparr>)\<rparr>))"
| "run_sql (InsertBinary j s) w =
     (case binary_uploads w j of
        None \<Rightarrow> Inr (w\<lparr>binary_uploads :=
                  (binary_uploads w)(j \<mapsto> \<lparr>status = s, image_url = None, error_message = None\<rparr>)\<rparr>)
      | Some r \<Rightarrow> Inl ''pq: duplicate key value violates unique constraint'')"
| "run_sql (SetProcessing j) w =
     (case binary_uploads w j of
        None \<Rightarrow> Inr w
      | Some r \<Rightarrow> Inr (w\<lparr>binary_uploads := (binary_uploads w)(j \<mapsto> r\<lparr>status := ''processing''\<rparr>)\<rparr>))"
| "run_sql (SetFailed m j) w =
     (case binary_uploads w j of
        None \<Rightarrow> Inr w
      | Some r \<Rightarrow> Inr (w\<lparr>binary_uploads :=
                  (binary_uploads w)(j \<mapsto> r\<lparr>status := ''failed'', error_message := Some m\<rparr>)\<rparr>))"
| "run_sql (SetCompleted u j) w =
     (case binary_uploads w j of
        None \<Rightarrow> Inr w
      | Some r \<Rightarrow> Inr (w\<lparr>binary_uploads :=
                  (binary_uploads w)(j \<mapsto> r\<lparr>status := ''completed'', image_url := Some u\<rparr>)\<rparr>))"

text \<open>\<^verbatim>\<open>db.Exec\<close>: the statement takes effect unless the database refuses the call.\<close>

definition db_Exec :: "env \<Rightarrow> world \<Rightarrow> sql \<Rightarrow> error option \<times> world" where
  "db_Exec E w q =
     (let w0 = w\<lparr>tick := Suc (tick w)\<rparr> in
      case db_fault E (tick w) of
        Some e \<Rightarrow> (Some e, emit (DbExec q (Some e)) w0)
      | None \<Rightarrow>
          (case run_sql q w0 of
             Inl e \<Rightarrow> (Some e, emit (DbExec q (Some e)) w0)
           | Inr w1 \<Rightarrow> (None, emit (DbExec q None) w1)))"

section \<open>The worker\<close>

text \<open>
  \<^verbatim>\<open>compressImage\<close>. The file is opened first; the decoder is chosen by the lowercased
  extension of the path; the result is written beside the input as JPEG.
\<close>

definition decode_by_ext :: "env \<Rightarrow> string \<Rightarrow> string \<Rightarrow> error + image" where
  "decode_by_ext E ext content =
     (if ext = ''.jpg'' \<or> ext = ''.jpeg'' then
        (case jpeg_Decode E content of
           Inl e \<Rightarrow> Inl (''error decoding JPEG: '' @ e)
         | Inr img \<Rightarrow> Inr img)
      else if ext = ''.png'' then
        (case png_Decode E content of
           Inl e \<Rightarrow> Inl (''error decoding PNG: '' @ e)
         | Inr img \<Rightarrow> Inr img)
      else Inl (''unsupported image format: '' @ ext))"

definition compressImage :: "env \<Rightarrow> world \<Rightarrow> string \<Rightarrow> (error + string) \<times> world" where
  "compressImage E w filePath =
     (case files w filePath of
        None \<Rightarrow>
          (Inl (''error opening file: open '' @ filePath @ '': no such file or directory''), w)
      | Some content \<Rightarrow>
          (case decode_by_ext E (strings_ToLower (filepath_Ext filePath)) content of
             Inl e \<Rightarrow> (Inl e, w)
           | Inr img \<Rightarrow>
               (let compressedPath = filePath @ ''.compressed.jpg'';
                    w0 = w\<lparr>tick := Suc (tick w)\<rparr>
                in case create_fault E (tick w) compressedPath of
                     Some e \<Rightarrow> (Inl (''error creating compressed file: '' @ e), w0)
                   | None \<Rightarrow>
                       (case jpeg_Encode E img of
                          Inl e \<Rightarrow>
                            (Inl (''error encoding compressed image: '' @ e),
                             w0\<lparr>files := (files w0)(compressedPath \<mapsto> [])\<rparr>)
                        | Inr bytes \<Rightarrow>
                            (Inr compressedPath,
                             w0\<lparr>files := (files w0)(compressedPath \<mapsto> bytes)\<rparr>)))))"

definition uploadToCloudinary :: "env \<Rightarrow> world \<Rightarrow> string \<Rightarrow> (error + string) \<times> world" where
  "uploadToCloudinary E w filePath =
     (let r = cld_Upload E (tick w) filePath (files w filePath);
          w1 = emit (Upload filePath r) (w\<lparr>tick := Suc (tick w)\<rparr>)
      in case r of
           Inl e \<Rightarrow> (Inl (''error uploading to Cloudinary: '' @ e), w1)
         | Inr secureURL \<Rightarrow> (Inr secureURL, w1))"

text \<open>
  The compression step shared by both jobs: on an error the path to upload is the
  original one.
\<close>

definition compress_or_original :: "env \<Rightarrow> world \<Rightarrow> string \<Rightarrow> string \<times> world" where
  "compress_or_original E w filePath =
     (case compressImage E w filePath of
        (Inl e, w1) \<Rightarrow>
          (filePath, log_Printf (''Error compressing image '' @ filePath @ '': '' @ e) w1)
      | (Inr compressedPath, w1) \<Rightarrow>
          (compressedPath,
           log_Printf (''Image compressed: '' @ filePath @ '' -> '' @ compressedPath) w1))"

text \<open>The clean-up after a successful upload, unless \<^verbatim>\<open>KEEP_FILES\<close> is set.\<close>

definition cleanup_files :: "env \<Rightarrow> world \<Rightarrow> string \<Rightarrow> string \<Rightarrow> world" where
  "cleanup_files E w filePath compressedPath =
     (if KEEP_FILES E \<noteq> ''true'' \<and> KEEP_FILES E \<noteq> ''1'' then
        (let w1 = os_Remove w filePath
         in if compressedPath \<noteq> filePath then os_Remove w1 compressedPath else w1)
      else log_Printf (''Keeping files for debugging: '' @ filePath @ '', '' @ compressedPath) w)"

text \<open>
  One round of the loop of \<^verbatim>\<open>processJob\<close> (lines 199 to 240): the URL of the input, if
  it got one. The two ends of the round, after a failed and after a successful upload, are
  written apart.
\<close>

definition file_upload_failed :: "world \<Rightarrow> string \<Rightarrow> string \<Rightarrow> error \<Rightarrow> world" where
  "file_upload_failed w filePath compressedPath e =
     (let w1 = log_Printf (''Error uploading to Cloudinary: '' @ e) w
      in if compressedPath \<noteq> filePath then os_Remove w1 compressedPath else w1)"

definition file_upload_done :: "env \<Rightarrow> world \<Rightarrow> string \<Rightarrow> string \<Rightarrow> string \<Rightarrow> world" where
  "file_upload_done E w filePath compressedPath imageURL =
     cleanup_files E (log_Printf (''Uploaded to Cloudinary: '' @ imageURL) w)
       filePath compressedPath"

definition process_file :: "env \<Rightarrow> world \<Rightarrow> string \<Rightarrow> string option \<times> world" where
  "process_file E w filePath =
     (case os_Stat_IsNotExist w filePath of
        (True, w1) \<Rightarrow> (None, log_Printf (''File not found: '' @ filePath) w1)
      | (False, w1) \<Rightarrow>
          (case compress_or_original E w1 filePath of
             (compressedPath, w2) \<Rightarrow>
               (case uploadToCloudinary E w2 compressedPath of
                  (Inl e, w3) \<Rightarrow> (None, file_upload_failed w3 filePath compressedPath e)
                | (Inr imageURL, w3) \<Rightarrow>
                    (Some imageURL, file_upload_done E w3 filePath compressedPath imageURL))))"

fun process_files :: "env \<Rightarrow> world \<Rightarrow> string list \<Rightarrow> string list \<Rightarrow> string list \<times> world" where
  "process_files E w imageURLs [] = (imageURLs, w)"
| "process_files E w imageURLs (filePath # rest) =
     (case process_file E w filePath of
        (None, w1) \<Rightarrow> process_files E w1 imageURLs rest
      | (Some imageURL, w1) \<Rightarrow> process_files E w1 (imageURLs @ [imageURL]) rest)"

text \<open>The end of \<^verbatim>\<open>processJob\<close> (lines 246 to 258): the URLs are joined and stored.\<close>

definition save_post :: "env \<Rightarrow> world \<Rightarrow> Job \<Rightarrow> string list \<Rightarrow> error option \<times> world" where
  "save_post E w job imageURLs =
     (case db_Exec E w
             (UpsertPostImages (PostID job) (Title job) (Todo job)
                (strings_Join imageURLs '','')) of
        (Some e, w1) \<Rightarrow> (Some (''error saving to database: '' @ e), w1)
      | (None, w1) \<Rightarrow> (None, log_Printf (''Job completed successfully: '' @ PostID job) w1))"

definition processJob :: "env \<Rightarrow> world \<Rightarrow> Job \<Rightarrow> error option \<times> world" where
  "processJob E w job =
     (let w0 = log_Printf (''Processing job: '' @ PostID job @ '' (Title: '' @ Title job @ '')'') w
      in case process_files E w0 [] (FilePaths job) of
           (imageURLs, w1) \<Rightarrow>
             if length imageURLs = 0 then (Some ''no images were successfully processed'', w1)
             else save_post E w1 job imageURLs)"

text \<open>
  \<^verbatim>\<open>processBinaryJob\<close>, in the order of the source: the write of \<^verbatim>\<open>processing\<close> (lines 264
  to 269), the missing file (lines 272 to 277), the failed upload (lines 291 to 302) and
  the successful one (lines 304 to 325). The outcome of the two statements that write
  \<^verbatim>\<open>failed\<close> is dropped by the source. \<^verbatim>\<open>fmt.Errorf(errorMsg)\<close> and
  \<^verbatim>\<open>log.Printf(errorMsg)\<close> read the message as a format string.
\<close>

definition mark_processing :: "env \<Rightarrow> world \<Rightarrow> BinaryJob \<Rightarrow> world" where
  "mark_processing E w binaryJob =
     (case db_Exec E w (SetProcessing (JobID binaryJob)) of
        (Some e, w1) \<Rightarrow> log_Printf (''Error updating job status: '' @ e) w1
      | (None, w1) \<Rightarrow> w1)"

definition binary_file_missing :: "env \<Rightarrow> world \<Rightarrow> BinaryJob \<Rightarrow> error option \<times> world" where
  "binary_file_missing E w binaryJob =
     (let errorMsg = ''File not found: '' @ FilePath binaryJob;
          w1 = snd (db_Exec E w (SetFailed errorMsg (JobID binaryJob)))
      in (Some (fmt_verbs E errorMsg), w1))"

definition binary_upload_failed ::
  "env \<Rightarrow> world \<Rightarrow> BinaryJob \<Rightarrow> string \<Rightarrow> error \<Rightarrow> error option \<times> world" where
  "binary_upload_failed E w binaryJob compressedPath e =
     (let errorMsg = ''Error uploading to Cloudinary: '' @ e;
          w1 = log_Printf (fmt_verbs E errorMsg) w;
          w2 = snd (db_Exec E w1 (SetFailed errorMsg (JobID binaryJob)));
          w3 = (if compressedPath \<noteq> FilePath binaryJob then os_Remove w2 compressedPath else w2)
      in (Some (fmt_verbs E errorMsg), w3))"

definition binary_upload_done ::
  "env \<Rightarrow> world \<Rightarrow> BinaryJob \<Rightarrow> string \<Rightarrow> string \<Rightarrow> error option \<times> world" where
  "binary_upload_done E w binaryJob compressedPath imageURL =
     (let w1 = log_Printf (''Uploaded to Cloudinary: '' @ imageURL) w;
          w2 = (case db_Exec E w1 (SetCompleted imageURL (JobID binaryJob)) of
                  (Some e, w') \<Rightarrow> log_Printf (''Error updating job with success: '' @ e) w'
                | (None, w') \<Rightarrow> w');
          w3 = cleanup_files E w2 (FilePath binaryJob) compressedPath
      in (None,
          log_Printf (''Binary upload job completed successfully: '' @ JobID binaryJob) w3))"

definition processBinaryJob :: "env \<Rightarrow> world \<Rightarrow> BinaryJob \<Rightarrow> error option \<times> world" where
  "processBinaryJob E w binaryJob =
     (let w0 = log_Printf (''Processing binary upload job: '' @ JobID binaryJob) w;
          w1 = mark_processing E w0 binaryJob
      in case os_Stat_IsNotExist w1 (FilePath binaryJob) of
           (True, w2) \<Rightarrow> binary_file_missing E w2 binaryJob
         | (False, w2) \<Rightarrow>
             (case compress_or_original E w2 (FilePath binaryJob) of
                (compressedPath, w3) \<Rightarrow>
                  (case uploadToCloudinary E w3 compressedPath of
                     (Inl e, w4) \<Rightarrow> binary_upload_failed E w4 binaryJob compressedPath e
                   | (Inr imageURL, w4) \<Rightarrow>
                       binary_upload_done E w4 binaryJob compressedPath imageURL)))"

text \<open>
  The two loops of \<^verbatim>\<open>main\<close>, for one delivery each: the body is decoded, the job is
  processed, the delivery is settled. The result is how the delivery was settled.
\<close>

definition msg_Settle :: "settle \<Rightarrow> world \<Rightarrow> world" where
  "msg_Settle s w = emit (Settle s) w"

definition handle_post :: "env \<Rightarrow> world \<Rightarrow> string \<Rightarrow> settle \<times> world" where
  "handle_post E w body =
     (case json_Unmarshal_Job E body of
        Inl e \<Rightarrow>
          (Nack False False,
           msg_Settle (Nack False False) (log_Printf (''Error decoding message: '' @ e) w))
      | Inr job \<Rightarrow>
          (case processJob E w job of
             (Some e, w1) \<Rightarrow>
               (Nack False True,
                msg_Settle (Nack False True) (log_Printf (''Error processing job: '' @ e) w1))
           | (None, w1) \<Rightarrow>
               (Ack False,
                log_Printf (''Job processed and acknowledged: '' @ PostID job)
                  (msg_Settle (Ack False) w1))))"

definition handle_binary :: "env \<Rightarrow> world \<Rightarrow> string \<Rightarrow> settle \<times> world" where
  "handle_binary E w body =
     (case json_Unmarshal_BinaryJob E body of
        Inl e \<Rightarrow>
          (Nack False False,
           msg_Settle (Nack False False)
             (log_Printf (''Error decoding binary job message: '' @ e) w))
      | Inr binaryJob \<Rightarrow>
          (case processBinaryJob E w binaryJob of
             (Some e, w1) \<Rightarrow>
               (Nack False True,
                msg_Settle (Nack False True)
                  (log_Printf (''Error processing binary job: '' @ e) w1))
           | (None, w1) \<Rightarrow>
               (Ack False,
                log_Printf (''Binary upload job processed and acknowledged: '' @ JobID binaryJob)
                  (msg_Settle (Ack False) w1))))"

text \<open>
  The broker, as AMQP and section 6 of the specification give it: a delivery leaves the
  queue when it is handed to the consumer; an acknowledgement and a negative
  acknowledgement without requeue drop it; a negative acknowledgement with requeue puts
  its body back, at a place the broker chooses.
\<close>

definition broker_settle :: "env \<Rightarrow> world \<Rightarrow> settle \<Rightarrow> string \<Rightarrow> string list \<Rightarrow> string list" where
  "broker_settle E w s body queue =
     (case s of
        Ack m \<Rightarrow> queue
      | Nack m requeue \<Rightarrow>
          if requeue
          then take (requeue_at E (tick w)) queue @ [body] @ drop (requeue_at E (tick w)) queue
          else queue)"

definition post_loop_step :: "env \<Rightarrow> world \<Rightarrow> world" where
  "post_loop_step E w =
     (case image_processing w of
        [] \<Rightarrow> w
      | body # rest \<Rightarrow>
          (case handle_post E (w\<lparr>image_processing := rest\<rparr>) body of
             (s, w1) \<Rightarrow> w1\<lparr>image_processing := broker_settle E w1 s body (image_processing w1)\<rparr>))"

definition binary_loop_step :: "env \<Rightarrow> world \<Rightarrow> world" where
  "binary_loop_step E w =
     (case binary_upload w of
        [] \<Rightarrow> w
      | body # rest \<Rightarrow>
          (case handle_binary E (w\<lparr>binary_upload := rest\<rparr>) body of
             (s, w1) \<Rightarrow> w1\<lparr>binary_upload := broker_settle E w1 s body (binary_upload w1)\<rparr>))"

section \<open>The producer\<close>

text \<open>
  The requests, after the HTTP layer: the method, the outcome of reading or parsing the
  body, the form fields and the uploaded parts. A part that cannot be opened carries the
  error of \<^verbatim>\<open>fileHeader.Open\<close>.
\<close>

record FileHeader =
  Filename :: string
  Content :: string
  open_error :: "error option"

record upload_request =
  Method :: string
  parse_error :: "error option"
  form_title :: string
  form_todo :: string
  form_images :: "FileHeader list"
  form_files :: "FileHeader list"

record binary_request =
  BMethod :: string
  read_error :: "error option"
  Body :: string
  ContentType :: string

definition tmpDir :: string where
  "tmpDir = ''/tmp''"

text \<open>\<^verbatim>\<open>%d\<close> of a length.\<close>

fun itoa :: "nat \<Rightarrow> string" where
  "itoa n =
     (if n < 10 then [''0123456789'' ! n]
      else itoa (n div 10) @ [''0123456789'' ! (n mod 10)])"

declare itoa.simps [simp del]

text \<open>
  \<^verbatim>\<open>rabbitmqChan.Publish\<close> on the default exchange: the body joins the queue named by the
  routing key, unless the broker refuses the call.
\<close>

definition enqueue :: "string \<Rightarrow> string \<Rightarrow> world \<Rightarrow> world" where
  "enqueue key body w =
     (if key = ''image_processing'' then w\<lparr>image_processing := image_processing w @ [body]\<rparr>
      else if key = ''binary_upload'' then w\<lparr>binary_upload := binary_upload w @ [body]\<rparr>
      else w)"

definition amqp_Publish :: "env \<Rightarrow> world \<Rightarrow> string \<Rightarrow> string \<Rightarrow> error option \<times> world" where
  "amqp_Publish E w key body =
     (let w0 = w\<lparr>tick := Suc (tick w)\<rparr> in
      case amqp_fault E (tick w) of
        Some e \<Rightarrow> (Some e, emit (Publish key body (Some e)) w0)
      | None \<Rightarrow> (None, emit (Publish key body None) (enqueue key body w0)))"

definition publishJob :: "env \<Rightarrow> world \<Rightarrow> Job \<Rightarrow> error option \<times> world" where
  "publishJob E w job =
     (case json_Marshal_Job E job of
        Inl e \<Rightarrow> (Some (''error marshaling job: '' @ e), w)
      | Inr jobJSON \<Rightarrow>
          (case amqp_Publish E w ''image_processing'' jobJSON of
             (Some e, w1) \<Rightarrow> (Some (''error publishing to RabbitMQ: '' @ e), w1)
           | (None, w1) \<Rightarrow>
               (None, log_Printf (''Job published to RabbitMQ: '' @ PostID job) w1)))"

text \<open>
  One round of the staging loop of \<^verbatim>\<open>uploadHandler\<close> (lines 255 to 291): the staged path
  of the part, if it was staged.
\<close>

definition stage_file :: "env \<Rightarrow> world \<Rightarrow> FileHeader \<Rightarrow> string option \<times> world" where
  "stage_file E w fileHeader =
     (case open_error fileHeader of
        Some e \<Rightarrow> (None, log_Printf (''Error opening file: '' @ e) w)
      | None \<Rightarrow>
          (let ext = (if filepath_Ext (Filename fileHeader) = [] then ''.jpg''
                      else filepath_Ext (Filename fileHeader));
               filename = uuid_New E (tick w) @ ext;
               filePath = filepath_Join tmpDir filename;
               w0 = w\<lparr>tick := Suc (Suc (tick w))\<rparr>
           in case create_fault E (Suc (tick w)) filePath of
                Some e \<Rightarrow> (None, log_Printf (''Error creating file: '' @ e) w0)
              | None \<Rightarrow>
                  (case copy_fault E (Suc (tick w)) filePath of
                     Some e \<Rightarrow>
                       (None,
                        os_Remove
                          (log_Printf (''Error saving file: '' @ e)
                             (w0\<lparr>files := (files w0)(filePath \<mapsto> [])\<rparr>))
                          filePath)
                   | None \<Rightarrow>
                       (Some filePath,
                        log_Printf
                          (''File saved temporarily: '' @ filePath @ '' (size: ''
                             @ itoa (length (Content fileHeader)) @ '' bytes)'')
                          (w0\<lparr>files := (files w0)(filePath \<mapsto> Content fileHeader)\<rparr>)))))"

fun stage_files :: "env \<Rightarrow> world \<Rightarrow> string list \<Rightarrow> FileHeader list \<Rightarrow> string list \<times> world" where
  "stage_files E w filePaths [] = (filePaths, w)"
| "stage_files E w filePaths (fileHeader # rest) =
     (case stage_file E w fileHeader of
        (None, w1) \<Rightarrow> stage_files E w1 filePaths rest
      | (Some filePath, w1) \<Rightarrow> stage_files E w1 (filePaths @ [filePath]) rest)"

text \<open>The clean-up loops of \<^verbatim>\<open>uploadHandler\<close>.\<close>

fun remove_all :: "world \<Rightarrow> string list \<Rightarrow> world" where
  "remove_all w [] = w"
| "remove_all w (path # rest) = remove_all (os_Remove w path) rest"

text \<open>
  \<^verbatim>\<open>uploadHandler\<close> from line 298 on, once the parts are staged under the fresh identifier:
  the row is inserted, the job is published, the caller is answered.
\<close>

definition submit_post ::
  "env \<Rightarrow> world \<Rightarrow> string \<Rightarrow> string \<Rightarrow> string \<Rightarrow> string list \<Rightarrow> response \<times> world" where
  "submit_post E w postID ttl tdo filePaths =
     (case db_Exec E w (InsertPostPending postID ttl tdo []) of
        (Some e, w1) \<Rightarrow>
          (HttpError 500 (''Failed to save post: '' @ e),
           remove_all (log_Printf (''Error saving to database: '' @ e) w1) filePaths)
      | (None, w1) \<Rightarrow>
          (let job = \<lparr>PostID = postID, Title = ttl, Todo = tdo, FilePaths = filePaths,
                      Timestamp = time_Now E (tick w1)\<rparr>
           in case publishJob E w1 job of
                (Some e, w2) \<Rightarrow>
                  (HttpError 500 (''Failed to queue job: '' @ e),
                   remove_all (log_Printf (''Error publishing job: '' @ e) w2) filePaths)
              | (None, w2) \<Rightarrow>
                  (UploadOK \<lparr>Message = ''Files uploaded and queued for processing'',
                             RPostID = postID, Status = ''pending'', RFilePaths = filePaths\<rparr>,
                   w2)))"

text \<open>
  \<^verbatim>\<open>uploadHandler\<close>. The staging directory \<^verbatim>\<open>/tmp\<close> is taken to exist, so the source's
  \<^verbatim>\<open>os.MkdirAll\<close> is not reached.
\<close>

definition uploadHandler :: "env \<Rightarrow> world \<Rightarrow> upload_request \<Rightarrow> response \<times> world" where
  "uploadHandler E w r =
     (if Method r \<noteq> ''POST'' then (HttpError 405 ''Method not allowed'', w)
      else case parse_error r of
        Some e \<Rightarrow> (HttpError 400 (''Failed to parse form: '' @ e), w)
      | None \<Rightarrow>
          if form_title r = [] then (HttpError 400 ''Title is required'', w)
          else
            (let files0 = (if length (form_images r) = 0 then form_files r else form_images r)
             in if length files0 = 0
                then (HttpError 400 ''No images provided. Use 'images' or 'files' field'', w)
                else
                  (let postID = uuid_New E (tick w)
                   in case stage_files E (w\<lparr>tick := Suc (tick w)\<rparr>) [] files0 of
                        (filePaths, w1) \<Rightarrow>
                          if length filePaths = 0
                          then (HttpError 400 ''No valid files processed'', w1)
                          else submit_post E w1 postID (form_title r) (form_todo r) filePaths)))"

text \<open>
  \<^verbatim>\<open>uploadBinaryHandler\<close>: the extension chosen from the content type (lines 417 to 428),
  the part from the insert on (lines 442 to 497), and the whole.
\<close>

definition binary_ext :: "string \<Rightarrow> string" where
  "binary_ext contentType =
     (if contentType \<noteq> [] then
        (if strings_Contains contentType ''png'' then ''.png''
         else if strings_Contains contentType ''jpeg'' \<or> strings_Contains contentType ''jpg''
              then ''.jpg''
         else if strings_Contains contentType ''webp'' then ''.webp''
         else ''.jpg'')
      else ''.jpg'')"

definition submit_binary :: "env \<Rightarrow> world \<Rightarrow> string \<Rightarrow> string \<Rightarrow> response \<times> world" where
  "submit_binary E w jobID filePath =
     (case db_Exec E w (InsertBinary jobID ''pending'') of
        (Some e, w1) \<Rightarrow>
          (HttpError 500 (''Failed to save job: '' @ e),
           os_Remove (log_Printf (''Error saving job to database: '' @ e) w1) filePath)
      | (None, w1) \<Rightarrow>
          (let binaryJob = \<lparr>JobID = jobID, FilePath = filePath,
                            BTimestamp = time_Now E (tick w1)\<rparr>
           in case json_Marshal_BinaryJob E binaryJob of
                Inl e \<Rightarrow>
                  (HttpError 500 (''Failed to create job: '' @ e),
                   os_Remove (log_Printf (''Error marshaling job: '' @ e) w1) filePath)
              | Inr jobJSON \<Rightarrow>
                  (case amqp_Publish E w1 ''binary_upload'' jobJSON of
                     (Some e, w2) \<Rightarrow>
                       (HttpError 500 (''Failed to queue job: '' @ e),
                        os_Remove (log_Printf (''Error publishing job: '' @ e) w2) filePath)
                   | (None, w2) \<Rightarrow>
                       (BinaryUploadOK
                          \<lparr>BMessage = ''File uploaded and queued for processing'',
                           RJobID = jobID, BStatus = ''pending''\<rparr>,
                        log_Printf (''Binary upload job published: '' @ jobID) w2))))"

definition uploadBinaryHandler :: "env \<Rightarrow> world \<Rightarrow> binary_request \<Rightarrow> response \<times> world" where
  "uploadBinaryHandler E w r =
     (if BMethod r \<noteq> ''POST'' then (HttpError 405 ''Method not allowed'', w)
      else case read_error r of
        Some e \<Rightarrow> (HttpError 400 (''Failed to read request body: '' @ e), w)
      | None \<Rightarrow>
          if length (Body r) = 0 then (HttpError 400 ''No file data provided'', w)
          else
            (let jobID = uuid_New E (tick w);
                 filename = jobID @ binary_ext (ContentType r);
                 filePath = filepath_Join tmpDir filename;
                 w0 = w\<lparr>tick := Suc (Suc (tick w))\<rparr>
             in case create_fault E (Suc (tick w)) filePath of
                  Some e \<Rightarrow> (HttpError 500 (''Failed to save file: '' @ e), w0)
                | None \<Rightarrow>
                    submit_binary E
                      (log_Printf
                         (''Binary file saved: '' @ filePath @ '' (size: ''
                            @ itoa (length (Body r)) @ '' bytes)'')
                         (w0\<lparr>files := (files w0)(filePath \<mapsto> Body r)\<rparr>))
                      jobID filePath))"

section \<open>Reading a trace\<close>

text \<open>The events a run added to the trace.\<close>

definition new_events :: "world \<Rightarrow> world \<Rightarrow> event list" where
  "new_events w w' = drop (length (trace w)) (trace w')"

text \<open>The URLs of the successful uploads of a trace, and the paths checked, in order.\<close>

fun uploaded_urls :: "event list \<Rightarrow> string list" where
  "uploaded_urls [] = []"
| "uploaded_urls (Upload p (Inr u) # es) = u # uploaded_urls es"
| "uploaded_urls (e # es) = uploaded_urls es"

fun stat_paths :: "event list \<Rightarrow> string list" where
  "stat_paths [] = []"
| "stat_paths (Stat p m # es) = p # stat_paths es"
| "stat_paths (e # es) = stat_paths es"

fun db_stmts :: "event list \<Rightarrow> (sql \<times> error option) list" where
  "db_stmts [] = []"
| "db_stmts (DbExec q r # es) = (q, r) # db_stmts es"
| "db_stmts (e # es) = db_stmts es"

fun settles :: "event list \<Rightarrow> settle list" where
  "settles [] = []"
| "settles (Settle s # es) = s # settles es"
| "settles (e # es) = settles es"

fun publishes :: "event list \<Rightarrow> (string \<times> string \<times> error option) list" where
  "publishes [] = []"
| "publishes (Publish k b r # es) = (k, b, r) # publishes es"
| "publishes (e # es) = publishes es"

text \<open>
  The inputs of a job, each with what its round of the loop returned, the rounds run one
  after the other as the loop runs them.
\<close>

fun file_outcomes :: "env \<Rightarrow> world \<Rightarrow> string list \<Rightarrow> (string \<times> string option) list" where
  "file_outcomes E w [] = []"
| "file_outcomes E w (filePath # rest) =
     (filePath, fst (process_file E w filePath))
       # file_outcomes E (snd (process_file E w filePath)) rest"

text \<open>
  For a Post job: the inputs with what their rounds returned, and the URLs the loop of
  \<^verbatim>\<open>processJob\<close> has collected when it ends. The loop starts after the first log line of
  \<^verbatim>\<open>processJob\<close>.
\<close>

definition job_outcomes :: "env \<Rightarrow> world \<Rightarrow> Job \<Rightarrow> (string \<times> string option) list" where
  "job_outcomes E w job =
     file_outcomes E
       (log_Printf (''Processing job: '' @ PostID job @ '' (Title: '' @ Title job @ '')'') w)
       (FilePaths job)"

definition job_image_urls :: "env \<Rightarrow> world \<Rightarrow> Job \<Rightarrow> string list" where
  "job_image_urls E w job =
     fst (process_files E
            (log_Printf (''Processing job: '' @ PostID job @ '' (Title: '' @ Title job @ '')'') w)
            [] (FilePaths job))"

text \<open>The same for the parts of a submission and the staging loop.\<close>

fun stage_outcomes :: "env \<Rightarrow> world \<Rightarrow> FileHeader list \<Rightarrow> (FileHeader \<times> string option) list" where
  "stage_outcomes E w [] = []"
| "stage_outcomes E w (fileHeader # rest) =
     (fileHeader, fst (stage_file E w fileHeader))
       # stage_outcomes E (snd (stage_file E w fileHeader)) rest"

text \<open>
  For a Binary job whose staged file is there: the path the worker uploads and what
  Cloudinary answers. The compression step runs after the one database call of
  \<^verbatim>\<open>processBinaryJob\<close> before it, and reads only the files and the call number.
\<close>

definition binary_upload_path :: "env \<Rightarrow> world \<Rightarrow> BinaryJob \<Rightarrow> string" where
  "binary_upload_path E w b =
     fst (compress_or_original E (w\<lparr>tick := Suc (tick w)\<rparr>) (FilePath b))"

definition binary_upload_answer :: "env \<Rightarrow> world \<Rightarrow> BinaryJob \<Rightarrow> error + string" where
  "binary_upload_answer E w b =
     (let wc = snd (compress_or_original E (w\<lparr>tick := Suc (tick w)\<rparr>) (FilePath b))
      in cld_Upload E (tick wc) (binary_upload_path E w b) (files wc (binary_upload_path E w b)))"

text \<open>An event that touches neither the tables, nor Cloudinary, nor the broker.\<close>

definition quiet :: "event \<Rightarrow> bool" where
  "quiet e = (case e of Log s \<Rightarrow> True | Remove p \<Rightarrow> True | _ \<Rightarrow> False)"

section \<open>Concrete runs\<close>

text \<open>
  A Post job with two staged files and one that is gone, a Binary job, and a state in
  which both submissions are pending. In \<open>env0\<close> every collaborator works; the other
  environments have the database, Cloudinary or the broker down.
\<close>

definition job1 :: Job where
  "job1 = \<lparr>PostID = ''p1'', Title = ''t'', Todo = [],
            FilePaths = [''/tmp/a.webp'', ''/tmp/gone.png'', ''/tmp/b.webp''],
            Timestamp = ''2024-01-01T00:00:00Z''\<rparr>"

definition bjob1 :: BinaryJob where
  "bjob1 = \<lparr>JobID = ''j1'', FilePath = ''/tmp/j1.webp'',
             BTimestamp = ''2024-01-01T00:00:00Z''\<rparr>"

definition env0 :: env where
  "env0 = \<lparr>db_fault = (\<lambda>t. None),
            amqp_fault = (\<lambda>t. None),
            cld_Upload = (\<lambda>t p c. Inr (''https://cdn'' @ p)),
            jpeg_Decode = (\<lambda>s. Inr (Image s)),
            png_Decode = (\<lambda>s. Inr (Image s)),
            jpeg_Encode = (\<lambda>i. case i of Image s \<Rightarrow> Inr s),
            create_fault = (\<lambda>t p. None),
            copy_fault = (\<lambda>t p. None),
            json_Unmarshal_Job =
              (\<lambda>s. if s = ''post1'' then Inr job1 else Inl ''invalid character''),
            json_Unmarshal_BinaryJob =
              (\<lambda>s. if s = ''bin1'' then Inr bjob1 else Inl ''invalid character''),
            json_Marshal_Job = (\<lambda>j. Inr (''job '' @ PostID j)),
            json_Marshal_BinaryJob = (\<lambda>j. Inr (''bin '' @ JobID j)),
            uuid_New = (\<lambda>t. ''u'' @ itoa t),
            time_Now = (\<lambda>t. ''2024-01-01T00:00:00Z''),
            fmt_verbs = (\<lambda>s. s),
            KEEP_FILES = [],
            requeue_at = (\<lambda>t. 0)\<rparr>"

definition env_db_down :: env where
  "env_db_down = env0\<lparr>db_fault := (\<lambda>t. Some ''connection refused'')\<rparr>"

definition env_cld_down :: env where
  "env_cld_down = env0\<lparr>cld_Upload := (\<lambda>t p c. Inl ''timeout'')\<rparr>"

definition env_amqp_down :: env where
  "env_amqp_down = env0\<lparr>amqp_fault := (\<lambda>t. Some ''channel closed'')\<rparr>"

definition world0 :: world where
  "world0 = \<lparr>files = [''/tmp/a.webp'' \<mapsto> ''A'', ''/tmp/b.webp'' \<mapsto> ''B'',
                      ''/tmp/j1.webp'' \<mapsto> ''J''],
              posts = [''p1'' \<mapsto> \<lparr>title = ''t'', todo = [], imageurl = []\<rparr>],
              binary_uploads =
                [''j1'' \<mapsto> \<lparr>status = ''pending'', image_url = None, error_message = None\<rparr>],
              image_processing = [],
              binary_upload = [],
              trace = [],
              tick = 0\<rparr>"

definition world_empty :: world where
  "world_empty = \<lparr>files = Map.empty, posts = Map.empty, binary_uploads = Map.empty,
                   image_processing = [], binary_upload = [], trace = [], tick = 0\<rparr>"

definition request1 :: upload_request where
  "request1 = \<lparr>Method = ''POST'', parse_error = None, form_title = ''t'', form_todo = [],
                form_images = [\<lparr>Filename = ''a.PNG'', Content = ''A'', open_error = None\<rparr>,
                               \<lparr>Filename = ''b'', Content = ''B'',
                                open_error = Some ''unexpected EOF''\<rparr>,
                               \<lparr>Filename = ''c.webp'', Content = ''C'', open_error = None\<rparr>],
                form_files = []\<rparr>"

definition brequest1 :: binary_request where
  "brequest1 = \<lparr>BMethod = ''POST'', read_error = None, Body = ''J'',
                 ContentType = ''image/webp''\<rparr>"

section \<open>How each operation changes the state\<close>

lemma emit_fields [simp]:
  "trace (emit e w) = trace w @ [e]"
  "files (emit e w) = files w"
  "posts (emit e w) = posts w"
  "binary_uploads (emit e w) = binary_uploads w"
  "image_processing (emit e w) = image_processing w"
  "binary_upload (emit e w) = binary_upload w"
  "tick (emit e w) = tick w"
  by (simp_all add: emit_def)

lemma log_Printf_fields [simp]:
  "trace (log_Printf s w) = trace w @ [Log s]"
  "files (log_Printf s w) = files w"
  "posts (log_Printf s w) = posts w"
  "binary_uploads (log_Printf s w) = binary_uploads w"
  "image_processing (log_Printf s w) = image_processing w"
  "binary_upload (log_Printf s w) = binary_upload w"
  "tick (log_Printf s w) = tick w"
  by (simp_all add: log_Printf_def)

lemma msg_Settle_fields [simp]:
  "trace (msg_Settle s w) = trace w @ [Settle s]"
  "files (msg_Settle s w) = files w"
  "posts (msg_Settle s w) = posts w"
  "binary_uploads (msg_Settle s w) = binary_uploads w"
  "image_processing (msg_Settle s w) = image_processing w"
  "binary_upload (msg_Settle s w) = binary_upload w"
  "tick (msg_Settle s w) = tick w"
  by (simp_all add: msg_Settle_def)

lemma os_Stat_IsNotExist_eq [simp]:
  "os_Stat_IsNotExist w p = (files w p = None, emit (Stat p (files w p = None)) w)"
  by (simp add: os_Stat_IsNotExist_def Let_def)

lemma os_Remove_fields [simp]:
  "trace (os_Remove w p) = trace w @ [Remove p]"
  "files (os_Remove w p) = (files w)(p := None)"
  "posts (os_Remove w p) = posts w"
  "binary_uploads (os_Remove w p) = binary_uploads w"
  "image_processing (os_Remove w p) = image_processing w"
  "binary_upload (os_Remove w p) = binary_upload w"
  "tick (os_Remove w p) = tick w"
  by (simp_all add: os_Remove_def)

lemma run_sql_fields:
  "run_sql q w = Inr w1 \<Longrightarrow>
     trace w1 = trace w \<and> files w1 = files w \<and> tick w1 = tick w \<and>
     image_processing w1 = image_processing w \<and> binary_upload w1 = binary_upload w"
  by (cases q) (auto split: option.splits)

lemma db_Exec_fields [simp]:
  "trace (snd (db_Exec E w q)) = trace w @ [DbExec q (fst (db_Exec E w q))]"
  "files (snd (db_Exec E w q)) = files w"
  "image_processing (snd (db_Exec E w q)) = image_processing w"
  "binary_upload (snd (db_Exec E w q)) = binary_upload w"
  "tick (snd (db_Exec E w q)) = Suc (tick w)"
  by (auto simp: db_Exec_def Let_def dest: run_sql_fields split: option.splits sum.splits)

lemma db_Exec_update_result [simp]:
  "fst (db_Exec E w (SetProcessing j)) = db_fault E (tick w)"
  "fst (db_Exec E w (SetFailed m j)) = db_fault E (tick w)"
  "fst (db_Exec E w (SetCompleted u j)) = db_fault E (tick w)"
  "fst (db_Exec E w (UpsertPostImages i t d u)) = db_fault E (tick w)"
  "fst (db_Exec E w (InsertPostPending i t d u)) = db_fault E (tick w)"
  by (simp_all add: db_Exec_def Let_def split: option.splits)

lemma db_Exec_binary_posts [simp]:
  "posts (snd (db_Exec E w (SetProcessing j))) = posts w"
  "posts (snd (db_Exec E w (SetFailed m j))) = posts w"
  "posts (snd (db_Exec E w (SetCompleted u j))) = posts w"
  "posts (snd (db_Exec E w (InsertBinary j s))) = posts w"
  by (simp_all add: db_Exec_def Let_def split: option.splits)

lemma db_Exec_posts_binary [simp]:
  "binary_uploads (snd (db_Exec E w (UpsertPostImages i t d u))) = binary_uploads w"
  "binary_uploads (snd (db_Exec E w (InsertPostPending i t d u))) = binary_uploads w"
  by (simp_all add: db_Exec_def Let_def split: option.splits)

lemma db_Exec_dom:
  "dom (posts w) \<subseteq> dom (posts (snd (db_Exec E w q)))"
  "dom (binary_uploads w) \<subseteq> dom (binary_uploads (snd (db_Exec E w q)))"
  by (cases q; auto simp: db_Exec_def Let_def split: option.splits)+

lemma compressImage_fields [simp]:
  "trace (snd (compressImage E w p)) = trace w"
  "posts (snd (compressImage E w p)) = posts w"
  "binary_uploads (snd (compressImage E w p)) = binary_uploads w"
  "image_processing (snd (compressImage E w p)) = image_processing w"
  "binary_upload (snd (compressImage E w p)) = binary_upload w"
  by (simp_all add: compressImage_def Let_def split: option.splits sum.splits)

lemma uploadToCloudinary_fields [simp]:
  "trace (snd (uploadToCloudinary E w p)) =
     trace w @ [Upload p (cld_Upload E (tick w) p (files w p))]"
  "files (snd (uploadToCloudinary E w p)) = files w"
  "posts (snd (uploadToCloudinary E w p)) = posts w"
  "binary_uploads (snd (uploadToCloudinary E w p)) = binary_uploads w"
  "image_processing (snd (uploadToCloudinary E w p)) = image_processing w"
  "binary_upload (snd (uploadToCloudinary E w p)) = binary_upload w"
  "tick (snd (uploadToCloudinary E w p)) = Suc (tick w)"
  by (simp_all add: uploadToCloudinary_def Let_def split: sum.splits)

lemma uploadToCloudinary_result:
  "fst (uploadToCloudinary E w p) =
     (case cld_Upload E (tick w) p (files w p) of
        Inl e \<Rightarrow> Inl (''error uploading to Cloudinary: '' @ e)
      | Inr u \<Rightarrow> Inr u)"
  by (simp add: uploadToCloudinary_def Let_def split: sum.splits)

lemma compress_or_original_fields [simp]:
  "posts (snd (compress_or_original E w p)) = posts w"
  "binary_uploads (snd (compress_or_original E w p)) = binary_uploads w"
  "image_processing (snd (compress_or_original E w p)) = image_processing w"
  "binary_upload (snd (compress_or_original E w p)) = binary_upload w"
  by (simp_all add: compress_or_original_def case_prod_beta split: sum.splits)

lemma compress_or_original_trace:
  "\<exists>s. trace (snd (compress_or_original E w p)) = trace w @ [Log s]"
  by (simp add: compress_or_original_def case_prod_beta split: sum.splits)

lemma cleanup_files_fields [simp]:
  "posts (cleanup_files E w p c) = posts w"
  "binary_uploads (cleanup_files E w p c) = binary_uploads w"
  "image_processing (cleanup_files E w p c) = image_processing w"
  "binary_upload (cleanup_files E w p c) = binary_upload w"
  "tick (cleanup_files E w p c) = tick w"
  by (simp_all add: cleanup_files_def Let_def)

section \<open>Traces\<close>

lemma cleanup_files_trace:
  "\<exists>evs. trace (cleanup_files E w p c) = trace w @ evs \<and> list_all quiet evs"
  by (simp add: cleanup_files_def Let_def quiet_def)

lemma new_events_eq: "trace w' = trace w @ evs \<Longrightarrow> new_events w w' = evs"
  by (simp add: new_events_def)

lemma uploaded_urls_append [simp]:
  "uploaded_urls (xs @ ys) = uploaded_urls xs @ uploaded_urls ys"
  by (induction xs rule: uploaded_urls.induct) simp_all

lemma stat_paths_append [simp]:
  "stat_paths (xs @ ys) = stat_paths xs @ stat_paths ys"
  by (induction xs rule: stat_paths.induct) simp_all

lemma mark_processing_fields [simp]:
  "trace (mark_processing E w b) =
     trace w @ DbExec (SetProcessing (JobID b)) (db_fault E (tick w))
       # (case db_fault E (tick w) of
            None \<Rightarrow> []
          | Some e \<Rightarrow> [Log (''Error updating job status: '' @ e)])"
  "files (mark_processing E w b) = files w"
  "posts (mark_processing E w b) = posts w"
  "image_processing (mark_processing E w b) = image_processing w"
  "binary_upload (mark_processing E w b) = binary_upload w"
  "tick (mark_processing E w b) = Suc (tick w)"
  by (simp_all add: mark_processing_def case_prod_beta split: option.splits)

lemma db_stmts_append [simp]: "db_stmts (xs @ ys) = db_stmts xs @ db_stmts ys"
  by (induction xs rule: db_stmts.induct) simp_all

lemma settles_append [simp]: "settles (xs @ ys) = settles xs @ settles ys"
  by (induction xs rule: settles.induct) simp_all

lemma publishes_append [simp]: "publishes (xs @ ys) = publishes xs @ publishes ys"
  by (induction xs rule: publishes.induct) simp_all

lemma quiet_projections:
  "list_all quiet evs \<Longrightarrow>
     uploaded_urls evs = [] \<and> stat_paths evs = [] \<and> db_stmts evs = [] \<and> settles evs = []
       \<and> publishes evs = []"
  by (induction evs) (auto simp: quiet_def split: event.splits)

lemma file_upload_failed_trace:
  "\<exists>evs. trace (file_upload_failed w p c e) = trace w @ evs \<and> list_all quiet evs"
  by (simp add: file_upload_failed_def Let_def quiet_def)

lemma file_upload_done_trace:
  "\<exists>evs. trace (file_upload_done E w p c u) = trace w @ evs \<and> list_all quiet evs"
  using cleanup_files_trace [of E "log_Printf (''Uploaded to Cloudinary: '' @ u) w" p c]
  by (auto simp: file_upload_done_def quiet_def)

text \<open>One round of the loop: what it adds to the trace.\<close>

lemma process_file_trace:
  "\<exists>evs. trace (snd (process_file E w p)) = trace w @ Stat p (files w p = None) # evs
     \<and> stat_paths evs = [] \<and> db_stmts evs = [] \<and> settles evs = [] \<and> publishes evs = []
     \<and> uploaded_urls evs = (case fst (process_file E w p) of None \<Rightarrow> [] | Some u \<Rightarrow> [u])"
proof (cases "files w p")
  case None
  then show ?thesis by (simp add: process_file_def)
next
  case (Some content)
  define w1 where "w1 = emit (Stat p False) w"
  obtain c w2 where co: "compress_or_original E w1 p = (c, w2)"
    by (cases "compress_or_original E w1 p")
  obtain s where t2: "trace w2 = trace w1 @ [Log s]"
    using compress_or_original_trace [of E w1 p] co by auto
  obtain r w3 where up: "uploadToCloudinary E w2 c = (r, w3)"
    by (cases "uploadToCloudinary E w2 c")
  have t3: "trace w3 = trace w2 @ [Upload c (cld_Upload E (tick w2) c (files w2 c))]"
    using uploadToCloudinary_fields(1) [of E w2 c] up by simp
  have r: "r = (case cld_Upload E (tick w2) c (files w2 c) of
                  Inl e \<Rightarrow> Inl (''error uploading to Cloudinary: '' @ e) | Inr u \<Rightarrow> Inr u)"
    using uploadToCloudinary_result [of E w2 c] up by simp
  show ?thesis
  proof (cases r)
    case (Inl e)
    obtain evs where "trace (file_upload_failed w3 p c e) = trace w3 @ evs" "list_all quiet evs"
      using file_upload_failed_trace by blast
    then show ?thesis
      using Some co up Inl t2 t3 r quiet_projections [of evs]
      by (auto simp: process_file_def w1_def split: sum.splits)
  next
    case (Inr u)
    obtain evs where "trace (file_upload_done E w3 p c u) = trace w3 @ evs" "list_all quiet evs"
      using file_upload_done_trace by blast
    then show ?thesis
      using Some co up Inr t2 t3 r quiet_projections [of evs]
      by (auto simp: process_file_def w1_def split: sum.splits)
  qed
qed

lemma process_files_trace:
  "\<exists>evs. trace (snd (process_files E w acc ps)) = trace w @ evs
     \<and> stat_paths evs = ps \<and> db_stmts evs = [] \<and> settles evs = [] \<and> publishes evs = []
     \<and> fst (process_files E w acc ps) = acc @ uploaded_urls evs"
proof (induction ps arbitrary: w acc)
  case Nil
  show ?case by simp
next
  case (Cons p ps)
  obtain r w1 where pf: "process_file E w p = (r, w1)"
    by (cases "process_file E w p")
  obtain evs1 where e1: "trace w1 = trace w @ Stat p (files w p = None) # evs1"
      "stat_paths evs1 = []" "db_stmts evs1 = []" "settles evs1 = []" "publishes evs1 = []"
      "uploaded_urls evs1 = (case r of None \<Rightarrow> [] | Some u \<Rightarrow> [u])"
    using process_file_trace [of E w p] pf by auto
  define acc' where "acc' = (case r of None \<Rightarrow> acc | Some u \<Rightarrow> acc @ [u])"
  have step: "process_files E w acc (p # ps) = process_files E w1 acc' ps"
    using pf by (simp add: acc'_def split: option.splits)
  obtain evs2 where e2: "trace (snd (process_files E w1 acc' ps)) = trace w1 @ evs2"
      "stat_paths evs2 = ps" "db_stmts evs2 = []" "settles evs2 = []" "publishes evs2 = []"
      "fst (process_files E w1 acc' ps) = acc' @ uploaded_urls evs2"
    using Cons.IH [of w1 acc'] by auto
  have "acc' = acc @ uploaded_urls evs1"
    using e1(6) by (simp add: acc'_def split: option.splits)
  then show ?case
    using step e1 e2
    by (intro exI [of _ "Stat p (files w p = None) # evs1 @ evs2"]) simp
qed

lemma process_files_outcomes:
  "fst (process_files E w acc ps) = acc @ List.map_filter snd (file_outcomes E w ps)"
proof (induction ps arbitrary: w acc)
  case Nil
  show ?case by (simp add: List.map_filter_simps)
next
  case (Cons p ps)
  show ?case
    by (cases "process_file E w p") (auto simp: Cons.IH List.map_filter_simps split: option.splits)
qed

lemma file_outcomes_paths: "map fst (file_outcomes E w ps) = ps"
  by (induction ps arbitrary: w) simp_all

lemma compressImage_cong:
  "files w = files w' \<Longrightarrow> tick w = tick w' \<Longrightarrow>
     fst (compressImage E w p) = fst (compressImage E w' p)"
  by (simp add: compressImage_def Let_def split: option.splits sum.splits)

lemma compress_or_original_path:
  "fst (compress_or_original E w p) =
     (case fst (compressImage E w p) of Inl e \<Rightarrow> p | Inr c \<Rightarrow> c)"
  by (simp add: compress_or_original_def case_prod_beta split: sum.splits)

lemma compress_or_original_log:
  "trace (snd (compress_or_original E w p)) =
     trace w @ [Log (case fst (compressImage E w p) of
                       Inl e \<Rightarrow> ''Error compressing image '' @ p @ '': '' @ e
                     | Inr c \<Rightarrow> ''Image compressed: '' @ p @ '' -> '' @ c)]"
  by (simp add: compress_or_original_def case_prod_beta split: sum.splits)

lemma file_upload_fields [simp]:
  "posts (file_upload_failed w p c e) = posts w"
  "binary_uploads (file_upload_failed w p c e) = binary_uploads w"
  "image_processing (file_upload_failed w p c e) = image_processing w"
  "binary_upload (file_upload_failed w p c e) = binary_upload w"
  "posts (file_upload_done E w p c u) = posts w"
  "binary_uploads (file_upload_done E w p c u) = binary_uploads w"
  "image_processing (file_upload_done E w p c u) = image_processing w"
  "binary_upload (file_upload_done E w p c u) = binary_upload w"
  by (simp_all add: file_upload_failed_def file_upload_done_def Let_def)

lemma process_file_fields [simp]:
  "posts (snd (process_file E w p)) = posts w"
  "binary_uploads (snd (process_file E w p)) = binary_uploads w"
  "image_processing (snd (process_file E w p)) = image_processing w"
  "binary_upload (snd (process_file E w p)) = binary_upload w"
  by (simp_all add: process_file_def case_prod_beta split: sum.splits bool.splits)

lemma process_files_posts [simp]:
  "posts (snd (process_files E w acc ps)) = posts w"
proof (induction ps arbitrary: w acc)
  case Nil
  show ?case by simp
next
  case (Cons p ps)
  show ?case
    using Cons.IH [of "snd (process_file E w p)"] process_file_fields(1) [of E w p]
    by (cases "process_file E w p") (auto split: option.splits)
qed

lemma process_files_binary_uploads [simp]:
  "binary_uploads (snd (process_files E w acc ps)) = binary_uploads w"
proof (induction ps arbitrary: w acc)
  case Nil
  show ?case by simp
next
  case (Cons p ps)
  show ?case
    using Cons.IH [of "snd (process_file E w p)"] process_file_fields(2) [of E w p]
    by (cases "process_file E w p") (auto split: option.splits)
qed

lemma process_files_image_processing [simp]:
  "image_processing (snd (process_files E w acc ps)) = image_processing w"
proof (induction ps arbitrary: w acc)
  case Nil
  show ?case by simp
next
  case (Cons p ps)
  show ?case
    using Cons.IH [of "snd (process_file E w p)"] process_file_fields(3) [of E w p]
    by (cases "process_file E w p") (auto split: option.splits)
qed

lemma process_files_binary_upload [simp]:
  "binary_upload (snd (process_files E w acc ps)) = binary_upload w"
proof (induction ps arbitrary: w acc)
  case Nil
  show ?case by simp
next
  case (Cons p ps)
  show ?case
    using Cons.IH [of "snd (process_file E w p)"] process_file_fields(4) [of E w p]
    by (cases "process_file E w p") (auto split: option.splits)
qed

lemma db_Exec_upsert_posts:
  "posts (snd (db_Exec E w (UpsertPostImages i t d u))) =
     (case db_fault E (tick w) of
        Some e \<Rightarrow> posts w
      | None \<Rightarrow>
          (posts w)(i \<mapsto> (case posts w i of
                            None \<Rightarrow> \<lparr>title = t, todo = d, imageurl = u\<rparr>
                          | Some r \<Rightarrow> r\<lparr>imageurl := u\<rparr>)))"
  by (simp add: db_Exec_def Let_def split: option.splits)

text \<open>The whole trace of a decoded Post delivery.\<close>

lemma handle_post_shape:
  assumes dec: "json_Unmarshal_Job E body = Inr job"
  shows "\<exists>evs. stat_paths evs = FilePaths job \<and> db_stmts evs = [] \<and> settles evs = []
     \<and> publishes evs = []
     \<and> uploaded_urls evs = List.map_filter snd (file_outcomes E
           (log_Printf (''Processing job: '' @ PostID job @ '' (Title: '' @ Title job @ '')'') w)
           (FilePaths job))
     \<and> (uploaded_urls evs = [] \<longrightarrow>
          fst (handle_post E w body) = Nack False True
          \<and> posts (snd (handle_post E w body)) = posts w
          \<and> trace (snd (handle_post E w body)) =
              trace w @ Log (''Processing job: '' @ PostID job @ '' (Title: '' @ Title job @ '')'')
                # evs @ [Log ''Error processing job: no images were successfully processed'',
                         Settle (Nack False True)])
     \<and> (uploaded_urls evs \<noteq> [] \<longrightarrow>
          (\<exists>r. trace (snd (handle_post E w body)) =
              trace w @ Log (''Processing job: '' @ PostID job @ '' (Title: '' @ Title job @ '')'')
                # evs
                @ DbExec (UpsertPostImages (PostID job) (Title job) (Todo job)
                            (strings_Join (uploaded_urls evs) '','')) r
                # (case r of
                     Some e \<Rightarrow> [Log (''Error processing job: error saving to database: '' @ e),
                                Settle (Nack False True)]
                   | None \<Rightarrow> [Log (''Job completed successfully: '' @ PostID job),
                              Settle (Ack False),
                              Log (''Job processed and acknowledged: '' @ PostID job)])
             \<and> fst (handle_post E w body) = (case r of Some e \<Rightarrow> Nack False True | None \<Rightarrow> Ack False)
             \<and> posts (snd (handle_post E w body)) =
                 (case r of
                    Some e \<Rightarrow> posts w
                  | None \<Rightarrow>
                      (posts w)(PostID job \<mapsto>
                         (case posts w (PostID job) of
                            None \<Rightarrow> \<lparr>title = Title job, todo = Todo job,
                                      imageurl = strings_Join (uploaded_urls evs) '',''\<rparr>
                          | Some row \<Rightarrow> row\<lparr>imageurl := strings_Join (uploaded_urls evs) '',''\<rparr>)))))"
proof -
  define w0 where
    "w0 = log_Printf (''Processing job: '' @ PostID job @ '' (Title: '' @ Title job @ '')'') w"
  obtain urls w1 where pf: "process_files E w0 [] (FilePaths job) = (urls, w1)"
    by (cases "process_files E w0 [] (FilePaths job)")
  obtain evs where e: "trace w1 = trace w0 @ evs" "stat_paths evs = FilePaths job"
      "db_stmts evs = []" "settles evs = []" "publishes evs = []" "urls = uploaded_urls evs"
    using process_files_trace [of E w0 "[]" "FilePaths job"] pf by auto
  define us where "us = uploaded_urls evs"
  have pf': "process_files E w0 [] (FilePaths job) = (us, w1)"
    using pf e(6) by (simp add: us_def)
  have out: "us = List.map_filter snd (file_outcomes E w0 (FilePaths job))"
    using process_files_outcomes [of E w0 "[]" "FilePaths job"] pf' by simp
  have "posts (snd (process_files E w0 [] (FilePaths job))) = posts w0"
    by simp
  then have p1: "posts w1 = posts w"
    by (simp add: pf') (simp add: w0_def)
  have t1: "trace w1 = trace w
      @ Log (''Processing job: '' @ PostID job @ '' (Title: '' @ Title job @ '')'') # evs"
    using e(1) by (simp add: w0_def)
  have pj: "processJob E w job =
      (if us = [] then (Some ''no images were successfully processed'', w1)
       else save_post E w1 job us)"
    using pf' [unfolded w0_def] by (simp add: processJob_def)
  have goal: "stat_paths evs = FilePaths job \<and> db_stmts evs = [] \<and> settles evs = []
     \<and> publishes evs = []
     \<and> us = List.map_filter snd (file_outcomes E w0 (FilePaths job))
     \<and> (us = [] \<longrightarrow>
          fst (handle_post E w body) = Nack False True
          \<and> posts (snd (handle_post E w body)) = posts w
          \<and> trace (snd (handle_post E w body)) =
              trace w @ Log (''Processing job: '' @ PostID job @ '' (Title: '' @ Title job @ '')'')
                # evs @ [Log ''Error processing job: no images were successfully processed'',
                         Settle (Nack False True)])
     \<and> (us \<noteq> [] \<longrightarrow>
          (\<exists>r. trace (snd (handle_post E w body)) =
              trace w @ Log (''Processing job: '' @ PostID job @ '' (Title: '' @ Title job @ '')'')
                # evs
                @ DbExec (UpsertPostImages (PostID job) (Title job) (Todo job)
                            (strings_Join us '','')) r
                # (case r of
                     Some e \<Rightarrow> [Log (''Error processing job: error saving to database: '' @ e),
                                Settle (Nack False True)]
                   | None \<Rightarrow> [Log (''Job completed successfully: '' @ PostID job),
                              Settle (Ack False),
                              Log (''Job processed and acknowledged: '' @ PostID job)])
             \<and> fst (handle_post E w body) = (case r of Some e \<Rightarrow> Nack False True | None \<Rightarrow> Ack False)
             \<and> posts (snd (handle_post E w body)) =
                 (case r of
                    Some e \<Rightarrow> posts w
                  | None \<Rightarrow>
                      (posts w)(PostID job \<mapsto>
                         (case posts w (PostID job) of
                            None \<Rightarrow> \<lparr>title = Title job, todo = Todo job,
                                      imageurl = strings_Join us '',''\<rparr>
                          | Some row \<Rightarrow> row\<lparr>imageurl := strings_Join us '',''\<rparr>)))))"
  proof (cases "us = []")
    case True
    then show ?thesis
      using dec pj e(2-5) p1 t1 out
      by (simp add: handle_post_def)
  next
    case False
    define q where "q = UpsertPostImages (PostID job) (Title job) (Todo job) (strings_Join us '','')"
    define r where "r = db_fault E (tick w1)"
    have fr: "fst (db_Exec E w1 q) = r"
      by (simp add: q_def r_def)
    then obtain w2 where dx: "db_Exec E w1 q = (r, w2)"
      by (cases "db_Exec E w1 q") auto
    have "trace (snd (db_Exec E w1 q)) = trace w1 @ [DbExec q (fst (db_Exec E w1 q))]"
      by simp
    then have t2: "trace w2 = trace w1 @ [DbExec q r]"
      by (simp add: dx)
    have "posts (snd (db_Exec E w1 q)) = (case r of Some e \<Rightarrow> posts w1
                | None \<Rightarrow> (posts w1)(PostID job \<mapsto> (case posts w1 (PostID job) of
                            None \<Rightarrow> \<lparr>title = Title job, todo = Todo job, imageurl = strings_Join us '',''\<rparr>
                          | Some row \<Rightarrow> row\<lparr>imageurl := strings_Join us '',''\<rparr>)))"
      unfolding q_def r_def by (rule db_Exec_upsert_posts)
    then have p2: "posts w2 = (case r of Some e \<Rightarrow> posts w
                | None \<Rightarrow> (posts w)(PostID job \<mapsto> (case posts w (PostID job) of
                            None \<Rightarrow> \<lparr>title = Title job, todo = Todo job, imageurl = strings_Join us '',''\<rparr>
                          | Some row \<Rightarrow> row\<lparr>imageurl := strings_Join us '',''\<rparr>)))"
      by (simp add: dx p1 split: option.splits)
    have sp: "save_post E w1 job us =
        (case r of Some e \<Rightarrow> (Some (''error saving to database: '' @ e), w2)
         | None \<Rightarrow> (None, log_Printf (''Job completed successfully: '' @ PostID job) w2))"
      using dx by (simp add: save_post_def q_def [symmetric] split: option.splits)
    show ?thesis
    proof (cases r)
      case None
      have hp: "handle_post E w body =
          (Ack False,
           log_Printf (''Job processed and acknowledged: '' @ PostID job)
             (msg_Settle (Ack False)
                (log_Printf (''Job completed successfully: '' @ PostID job) w2)))"
        using dec pj False sp None by (simp add: handle_post_def)
      have "\<exists>r. trace (snd (handle_post E w body)) =
              trace w @ Log (''Processing job: '' @ PostID job @ '' (Title: '' @ Title job @ '')'')
                # evs @ DbExec q r
                # (case r of
                     Some e \<Rightarrow> [Log (''Error processing job: error saving to database: '' @ e),
                                Settle (Nack False True)]
                   | None \<Rightarrow> [Log (''Job completed successfully: '' @ PostID job),
                              Settle (Ack False),
                              Log (''Job processed and acknowledged: '' @ PostID job)])
             \<and> fst (handle_post E w body) = (case r of Some e \<Rightarrow> Nack False True | None \<Rightarrow> Ack False)
             \<and> posts (snd (handle_post E w body)) =
                 (case r of
                    Some e \<Rightarrow> posts w
                  | None \<Rightarrow>
                      (posts w)(PostID job \<mapsto>
                         (case posts w (PostID job) of
                            None \<Rightarrow> \<lparr>title = Title job, todo = Todo job,
                                      imageurl = strings_Join us '',''\<rparr>
                          | Some row \<Rightarrow> row\<lparr>imageurl := strings_Join us '',''\<rparr>)))"
        by (rule exI [of _ None]) (simp add: hp t2 t1 p2 None)
      then show ?thesis
        using False e(2-5) out unfolding q_def by blast
    next
      case (Some err)
      have hp: "handle_post E w body =
          (Nack False True,
           msg_Settle (Nack False True)
             (log_Printf (''Error processing job: '' @ ''error saving to database: '' @ err) w2))"
        using dec pj False sp Some by (simp add: handle_post_def)
      have "\<exists>r. trace (snd (handle_post E w body)) =
              trace w @ Log (''Processing job: '' @ PostID job @ '' (Title: '' @ Title job @ '')'')
                # evs @ DbExec q r
                # (case r of
                     Some e \<Rightarrow> [Log (''Error processing job: error saving to database: '' @ e),
                                Settle (Nack False True)]
                   | None \<Rightarrow> [Log (''Job completed successfully: '' @ PostID job),
                              Settle (Ack False),
                              Log (''Job processed and acknowledged: '' @ PostID job)])
             \<and> fst (handle_post E w body) = (case r of Some e \<Rightarrow> Nack False True | None \<Rightarrow> Ack False)
             \<and> posts (snd (handle_post E w body)) =
                 (case r of
                    Some e \<Rightarrow> posts w
                  | None \<Rightarrow>
                      (posts w)(PostID job \<mapsto>
                         (case posts w (PostID job) of
                            None \<Rightarrow> \<lparr>title = Title job, todo = Todo job,
                                      imageurl = strings_Join us '',''\<rparr>
                          | Some row \<Rightarrow> row\<lparr>imageurl := strings_Join us '',''\<rparr>)))"
        by (rule exI [of _ "Some err"]) (simp add: hp t2 t1 p2 Some)
      then show ?thesis
        using False e(2-5) out unfolding q_def by blast
    qed
  qed
  show ?thesis
    by (rule exI [of _ evs]) (rule goal [unfolded us_def w0_def])
qed

lemma db_Exec_row_kept:
  "binary_uploads w j = Some row \<Longrightarrow> \<exists>row'. binary_uploads (snd (db_Exec E w q)) j = Some row'"
  using db_Exec_dom(2) [of w E q] by (auto simp: dom_def)

lemma db_Exec_SetProcessing_row:
  "db_fault E (tick w) = None \<Longrightarrow> binary_uploads w j = Some row \<Longrightarrow>
     binary_uploads (snd (db_Exec E w (SetProcessing j))) j = Some (row\<lparr>status := ''processing''\<rparr>)"
  by (simp add: db_Exec_def Let_def)

lemma db_Exec_SetFailed_row:
  "db_fault E (tick w) = None \<Longrightarrow> binary_uploads w j = Some row \<Longrightarrow>
     binary_uploads (snd (db_Exec E w (SetFailed m j))) j =
       Some (row\<lparr>status := ''failed'', error_message := Some m\<rparr>)"
  by (simp add: db_Exec_def Let_def)

lemma db_Exec_SetCompleted_row:
  "db_fault E (tick w) = None \<Longrightarrow> binary_uploads w j = Some row \<Longrightarrow>
     binary_uploads (snd (db_Exec E w (SetCompleted u j))) j =
       Some (row\<lparr>status := ''completed'', image_url := Some u\<rparr>)"
  by (simp add: db_Exec_def Let_def)

lemma mark_processing_row_kept:
  "binary_uploads w j = Some row \<Longrightarrow> \<exists>row'. binary_uploads (mark_processing E w b) j = Some row'"
  using db_Exec_row_kept [of w j row E "SetProcessing (JobID b)"]
  by (auto simp: mark_processing_def case_prod_beta split: option.splits)

lemma mark_processing_row:
  "db_fault E (tick w) = None \<Longrightarrow> binary_uploads w (JobID b) = Some row \<Longrightarrow>
     binary_uploads (mark_processing E w b) (JobID b) = Some (row\<lparr>status := ''processing''\<rparr>)"
  using db_Exec_SetProcessing_row [of E w "JobID b" row]
  by (simp add: mark_processing_def case_prod_beta)

lemma binary_file_missing_shape:
  "fst (binary_file_missing E w b) = Some (fmt_verbs E (''File not found: '' @ FilePath b))"
  "trace (snd (binary_file_missing E w b)) =
     trace w @ [DbExec (SetFailed (''File not found: '' @ FilePath b) (JobID b))
                  (db_fault E (tick w))]"
  "db_fault E (tick w) = None \<Longrightarrow> binary_uploads w (JobID b) = Some row \<Longrightarrow>
     binary_uploads (snd (binary_file_missing E w b)) (JobID b) =
       Some (row\<lparr>status := ''failed'',
                 error_message := Some (''File not found: '' @ FilePath b)\<rparr>)"
  using db_Exec_SetFailed_row [of E w "JobID b" row "''File not found: '' @ FilePath b"]
  by (simp_all add: binary_file_missing_def Let_def)

lemma binary_upload_failed_shape:
  "fst (binary_upload_failed E w b c e) =
     Some (fmt_verbs E (''Error uploading to Cloudinary: '' @ e))"
  "trace (snd (binary_upload_failed E w b c e)) =
     trace w @ [Log (fmt_verbs E (''Error uploading to Cloudinary: '' @ e)),
                DbExec (SetFailed (''Error uploading to Cloudinary: '' @ e) (JobID b))
                  (db_fault E (tick w))]
       @ (if c \<noteq> FilePath b then [Remove c] else [])"
  "db_fault E (tick w) = None \<Longrightarrow> binary_uploads w (JobID b) = Some row \<Longrightarrow>
     binary_uploads (snd (binary_upload_failed E w b c e)) (JobID b) =
       Some (row\<lparr>status := ''failed'',
                 error_message := Some (''Error uploading to Cloudinary: '' @ e)\<rparr>)"
  using db_Exec_SetFailed_row
          [of E "log_Printf (fmt_verbs E (''Error uploading to Cloudinary: '' @ e)) w"
              "JobID b" row "''Error uploading to Cloudinary: '' @ e"]
  by (simp_all add: binary_upload_failed_def Let_def)

lemma binary_upload_done_result:
  "fst (binary_upload_done E w b c u) = None"
  by (simp add: binary_upload_done_def Let_def)

lemma binary_upload_done_trace:
  "\<exists>qs. trace (snd (binary_upload_done E w b c u)) =
     trace w @ [Log (''Uploaded to Cloudinary: '' @ u),
                DbExec (SetCompleted u (JobID b)) (db_fault E (tick w))] @ qs
     \<and> list_all quiet qs"
proof -
  define w1 where "w1 = log_Printf (''Uploaded to Cloudinary: '' @ u) w"
  define w2 where "w2 = (case db_Exec E w1 (SetCompleted u (JobID b)) of
                  (Some e, w') \<Rightarrow> log_Printf (''Error updating job with success: '' @ e) w'
                | (None, w') \<Rightarrow> w')"
  have t2: "\<exists>qs. trace w2 = trace w @ [Log (''Uploaded to Cloudinary: '' @ u),
                DbExec (SetCompleted u (JobID b)) (db_fault E (tick w))] @ qs \<and> list_all quiet qs"
    by (simp add: w2_def w1_def case_prod_beta quiet_def split: option.splits)
  obtain qs2 where c: "trace (cleanup_files E w2 (FilePath b) c) = trace w2 @ qs2"
      "list_all quiet qs2"
    using cleanup_files_trace by blast
  have "snd (binary_upload_done E w b c u) =
      log_Printf (''Binary upload job completed successfully: '' @ JobID b)
        (cleanup_files E w2 (FilePath b) c)"
    by (simp add: binary_upload_done_def Let_def w2_def w1_def)
  then show ?thesis
    using t2 c by (auto simp: quiet_def)
qed

lemma binary_upload_done_row:
  assumes "db_fault E (tick w) = None" "binary_uploads w (JobID b) = Some row"
  shows "binary_uploads (snd (binary_upload_done E w b c u)) (JobID b) =
       Some (row\<lparr>status := ''completed'', image_url := Some u\<rparr>)"
  using db_Exec_SetCompleted_row
          [of E "log_Printf (''Uploaded to Cloudinary: '' @ u) w" "JobID b" row u] assms
  by (simp add: binary_upload_done_def Let_def case_prod_beta)

lemma compress_or_original_cong:
  "files w = files w' \<Longrightarrow> tick w = tick w' \<Longrightarrow>
     fst (compress_or_original E w p) = fst (compress_or_original E w' p)"
  using compressImage_cong [of w w' E p] by (simp add: compress_or_original_path)

text \<open>The start of a Binary job, up to the existence check.\<close>

lemma processBinaryJob_head:
  "\<exists>w1. trace w1 = trace w @ (Log (''Processing binary upload job: '' @ JobID b)
              # DbExec (SetProcessing (JobID b)) (db_fault E (tick w))
              # (case db_fault E (tick w) of
                   None \<Rightarrow> []
                 | Some e \<Rightarrow> [Log (''Error updating job status: '' @ e)]))
              @ [Stat (FilePath b) (files w (FilePath b) = None)]
     \<and> files w1 = files w \<and> tick w1 = Suc (tick w)
     \<and> (binary_uploads w (JobID b) \<noteq> None \<longrightarrow> binary_uploads w1 (JobID b) \<noteq> None)
     \<and> processBinaryJob E w b =
         (if files w (FilePath b) = None then binary_file_missing E w1 b
          else case compress_or_original E w1 (FilePath b) of
                 (cp, w3) \<Rightarrow>
                   (case uploadToCloudinary E w3 cp of
                      (Inl e, w4) \<Rightarrow> binary_upload_failed E w4 b cp e
                    | (Inr u, w4) \<Rightarrow> binary_upload_done E w4 b cp u))"
proof -
  define w0 where "w0 = log_Printf (''Processing binary upload job: '' @ JobID b) w"
  define w1 where "w1 = emit (Stat (FilePath b) (files w (FilePath b) = None))
                          (mark_processing E w0 b)"
  have row: "binary_uploads w (JobID b) \<noteq> None \<longrightarrow> binary_uploads w1 (JobID b) \<noteq> None"
    using mark_processing_row_kept [of w0 "JobID b" _ E b] by (auto simp: w1_def w0_def)
  have "trace w1 = trace w @ (Log (''Processing binary upload job: '' @ JobID b)
              # DbExec (SetProcessing (JobID b)) (db_fault E (tick w))
              # (case db_fault E (tick w) of
                   None \<Rightarrow> []
                 | Some e \<Rightarrow> [Log (''Error updating job status: '' @ e)]))
              @ [Stat (FilePath b) (files w (FilePath b) = None)]"
    by (simp add: w1_def w0_def)
  moreover have "files w1 = files w" "tick w1 = Suc (tick w)"
    by (simp_all add: w1_def w0_def)
  moreover have "processBinaryJob E w b =
         (if files w (FilePath b) = None then binary_file_missing E w1 b
          else case compress_or_original E w1 (FilePath b) of
                 (cp, w3) \<Rightarrow>
                   (case uploadToCloudinary E w3 cp of
                      (Inl e, w4) \<Rightarrow> binary_upload_failed E w4 b cp e
                    | (Inr u, w4) \<Rightarrow> binary_upload_done E w4 b cp u))"
    by (simp add: processBinaryJob_def Let_def w1_def w0_def bool.case_eq_if)
  ultimately show ?thesis
    using row by blast
qed

text \<open>A decoded Binary delivery whose staged file is missing.\<close>

lemma handle_binary_missing:
  assumes dec: "json_Unmarshal_BinaryJob E body = Inr b"
    and miss: "files w (FilePath b) = None"
  shows "\<exists>r. fst (handle_binary E w body) = Nack False True
        \<and> trace (snd (handle_binary E w body)) =
            trace w @ Log (''Processing binary upload job: '' @ JobID b)
              # DbExec (SetProcessing (JobID b)) (db_fault E (tick w))
              # (case db_fault E (tick w) of
                   None \<Rightarrow> []
                 | Some e \<Rightarrow> [Log (''Error updating job status: '' @ e)])
              @ [Stat (FilePath b) True,
                 DbExec (SetFailed (''File not found: '' @ FilePath b) (JobID b)) r,
                 Log (''Error processing binary job: ''
                        @ fmt_verbs E (''File not found: '' @ FilePath b)),
                 Settle (Nack False True)]
        \<and> (r = None \<longrightarrow> binary_uploads w (JobID b) \<noteq> None \<longrightarrow>
             (\<exists>row. binary_uploads (snd (handle_binary E w body)) (JobID b) = Some row
                \<and> status row = ''failed''
                \<and> error_message row = Some (''File not found: '' @ FilePath b)))"
proof -
  obtain w1 where t1: "trace w1 = trace w @ (Log (''Processing binary upload job: '' @ JobID b)
              # DbExec (SetProcessing (JobID b)) (db_fault E (tick w))
              # (case db_fault E (tick w) of
                   None \<Rightarrow> []
                 | Some e \<Rightarrow> [Log (''Error updating job status: '' @ e)]))
              @ [Stat (FilePath b) (files w (FilePath b) = None)]"
     and row1: "binary_uploads w (JobID b) \<noteq> None \<longrightarrow> binary_uploads w1 (JobID b) \<noteq> None"
     and pb: "processBinaryJob E w b =
         (if files w (FilePath b) = None then binary_file_missing E w1 b
          else case compress_or_original E w1 (FilePath b) of
                 (cp, w3) \<Rightarrow>
                   (case uploadToCloudinary E w3 cp of
                      (Inl e, w4) \<Rightarrow> binary_upload_failed E w4 b cp e
                    | (Inr u, w4) \<Rightarrow> binary_upload_done E w4 b cp u))"
    using processBinaryJob_head [of w b E] by blast
  define r where "r = db_fault E (tick w1)"
  have pb1: "processBinaryJob E w b = binary_file_missing E w1 b"
    using pb miss by simp
  have "fst (processBinaryJob E w b) = Some (fmt_verbs E (''File not found: '' @ FilePath b))"
    by (simp add: pb1 binary_file_missing_shape(1))
  then obtain wf where pr: "processBinaryJob E w b =
      (Some (fmt_verbs E (''File not found: '' @ FilePath b)), wf)"
    by (cases "processBinaryJob E w b") auto
  have bm: "binary_file_missing E w1 b =
      (Some (fmt_verbs E (''File not found: '' @ FilePath b)), wf)"
    using pr unfolding pb1 .
  have "trace (snd (binary_file_missing E w1 b)) =
     trace w1 @ [DbExec (SetFailed (''File not found: '' @ FilePath b) (JobID b)) r]"
    unfolding r_def by (rule binary_file_missing_shape(2))
  then have tf: "trace wf = trace w1
      @ [DbExec (SetFailed (''File not found: '' @ FilePath b) (JobID b)) r]"
    by (simp add: bm)
  have rowf: "r = None \<longrightarrow> binary_uploads w (JobID b) \<noteq> None \<longrightarrow>
        (\<exists>row. binary_uploads wf (JobID b) = Some row
          \<and> status row = ''failed''
          \<and> error_message row = Some (''File not found: '' @ FilePath b))"
  proof (intro impI)
    assume a: "r = None" "binary_uploads w (JobID b) \<noteq> None"
    then obtain row where "binary_uploads w1 (JobID b) = Some row"
      using row1 by auto
    then have "binary_uploads (snd (binary_file_missing E w1 b)) (JobID b) =
       Some (row\<lparr>status := ''failed'',
               error_message := Some (''File not found: '' @ FilePath b)\<rparr>)"
      using a(1) by (intro binary_file_missing_shape(3)) (simp_all add: r_def)
    then show "\<exists>row. binary_uploads wf (JobID b) = Some row
          \<and> status row = ''failed''
          \<and> error_message row = Some (''File not found: '' @ FilePath b)"
      by (simp add: bm)
  qed
  have hb: "handle_binary E w body =
      (Nack False True,
       msg_Settle (Nack False True)
         (log_Printf (''Error processing binary job: ''
                        @ fmt_verbs E (''File not found: '' @ FilePath b)) wf))"
    using dec pr by (simp add: handle_binary_def)
  show ?thesis
    using rowf by (intro exI [of _ r]) (simp add: hb tf t1 miss)
qed

lemma compressImage_state_cong:
  "files w = files w' \<Longrightarrow> tick w = tick w' \<Longrightarrow>
     files (snd (compressImage E w p)) = files (snd (compressImage E w' p))
     \<and> tick (snd (compressImage E w p)) = tick (snd (compressImage E w' p))"
  by (simp add: compressImage_def Let_def split: option.splits sum.splits)

lemma compress_or_original_state_cong:
  "files w = files w' \<Longrightarrow> tick w = tick w' \<Longrightarrow>
     files (snd (compress_or_original E w p)) = files (snd (compress_or_original E w' p))
     \<and> tick (snd (compress_or_original E w p)) = tick (snd (compress_or_original E w' p))"
  using compressImage_state_cong [of w w' E p]
  by (simp add: compress_or_original_def case_prod_beta split: sum.splits)

text \<open>A decoded Binary delivery whose staged file is there.\<close>

lemma handle_binary_present:
  assumes dec: "json_Unmarshal_BinaryJob E body = Inr b"
    and pres: "files w (FilePath b) \<noteq> None"
  shows "\<exists>s r.
     (case binary_upload_answer E w b of
        Inl e \<Rightarrow>
          fst (handle_binary E w body) = Nack False True
          \<and> trace (snd (handle_binary E w body)) =
              trace w @ (Log (''Processing binary upload job: '' @ JobID b)
                # DbExec (SetProcessing (JobID b)) (db_fault E (tick w))
                # (case db_fault E (tick w) of
                     None \<Rightarrow> []
                   | Some e \<Rightarrow> [Log (''Error updating job status: '' @ e)]))
                @ [Stat (FilePath b) False, Log s,
                   Upload (binary_upload_path E w b)
                     (Inl e),
                   Log (fmt_verbs E (''Error uploading to Cloudinary: ''
                          @ ''error uploading to Cloudinary: '' @ e)),
                   DbExec (SetFailed (''Error uploading to Cloudinary: ''
                             @ ''error uploading to Cloudinary: '' @ e) (JobID b)) r]
                @ (if binary_upload_path E w b
                        \<noteq> FilePath b
                   then [Remove (binary_upload_path E w b)]
                   else [])
                @ [Log (''Error processing binary job: ''
                          @ fmt_verbs E (''Error uploading to Cloudinary: ''
                              @ ''error uploading to Cloudinary: '' @ e)),
                   Settle (Nack False True)]
          \<and> (r = None \<longrightarrow> binary_uploads w (JobID b) \<noteq> None \<longrightarrow>
               (\<exists>row. binary_uploads (snd (handle_binary E w body)) (JobID b) = Some row
                  \<and> status row = ''failed''
                  \<and> error_message row = Some (''Error uploading to Cloudinary: ''
                             @ ''error uploading to Cloudinary: '' @ e)))
      | Inr u \<Rightarrow>
          fst (handle_binary E w body) = Ack False
          \<and> (\<exists>qs. list_all quiet qs
               \<and> trace (snd (handle_binary E w body)) =
              trace w @ (Log (''Processing binary upload job: '' @ JobID b)
                # DbExec (SetProcessing (JobID b)) (db_fault E (tick w))
                # (case db_fault E (tick w) of
                     None \<Rightarrow> []
                   | Some e \<Rightarrow> [Log (''Error updating job status: '' @ e)]))
                @ [Stat (FilePath b) False, Log s,
                   Upload (binary_upload_path E w b)
                     (Inr u),
                   Log (''Uploaded to Cloudinary: '' @ u),
                   DbExec (SetCompleted u (JobID b)) r]
                @ qs
                @ [Settle (Ack False),
                   Log (''Binary upload job processed and acknowledged: '' @ JobID b)])
          \<and> (r = None \<longrightarrow> binary_uploads w (JobID b) \<noteq> None \<longrightarrow>
               (\<exists>row. binary_uploads (snd (handle_binary E w body)) (JobID b) = Some row
                  \<and> status row = ''completed''
                  \<and> image_url row = Some u)))"
proof -
  let ?hd = "Log (''Processing binary upload job: '' @ JobID b)
              # DbExec (SetProcessing (JobID b)) (db_fault E (tick w))
              # (case db_fault E (tick w) of
                   None \<Rightarrow> []
                 | Some e \<Rightarrow> [Log (''Error updating job status: '' @ e)])"
  let ?c = "binary_upload_path E w b"
  let ?wc = "snd (compress_or_original E (w\<lparr>tick := Suc (tick w)\<rparr>) (FilePath b))"
  obtain w1 where t1: "trace w1 = trace w @ ?hd
              @ [Stat (FilePath b) (files w (FilePath b) = None)]"
     and f1: "files w1 = files w" and k1: "tick w1 = Suc (tick w)"
     and row1: "binary_uploads w (JobID b) \<noteq> None \<longrightarrow> binary_uploads w1 (JobID b) \<noteq> None"
     and pb: "processBinaryJob E w b =
         (if files w (FilePath b) = None then binary_file_missing E w1 b
          else case compress_or_original E w1 (FilePath b) of
                 (cp, w3) \<Rightarrow>
                   (case uploadToCloudinary E w3 cp of
                      (Inl e, w4) \<Rightarrow> binary_upload_failed E w4 b cp e
                    | (Inr u, w4) \<Rightarrow> binary_upload_done E w4 b cp u))"
    using processBinaryJob_head [of w b E] by blast
  obtain cp w3 where co: "compress_or_original E w1 (FilePath b) = (cp, w3)"
    by (cases "compress_or_original E w1 (FilePath b)")
  have "fst (compress_or_original E w1 (FilePath b)) = ?c"
    unfolding binary_upload_path_def
    by (rule compress_or_original_cong) (simp_all add: f1 k1)
  then have cp: "cp = ?c"
    by (simp add: co)
  obtain s where "trace (snd (compress_or_original E w1 (FilePath b))) = trace w1 @ [Log s]"
    using compress_or_original_trace by blast
  then have t3: "trace w3 = trace w @ ?hd @ [Stat (FilePath b) False, Log s]"
    using pres by (simp add: co t1)
  have "binary_uploads (snd (compress_or_original E w1 (FilePath b))) = binary_uploads w1"
    by simp
  then have b3: "binary_uploads w3 = binary_uploads w1"
    by (simp add: co)
  have "files (snd (compress_or_original E w1 (FilePath b))) = files ?wc
        \<and> tick (snd (compress_or_original E w1 (FilePath b))) = tick ?wc"
    by (rule compress_or_original_state_cong) (simp_all add: f1 k1)
  then have fk3: "files w3 = files ?wc" "tick w3 = tick ?wc"
    by (simp_all add: co)
  define ur where "ur = binary_upload_answer E w b"
  have ur3: "cld_Upload E (tick w3) ?c (files w3 ?c) = ur"
    by (simp add: ur_def binary_upload_answer_def Let_def fk3)
  obtain r4 w4 where up: "uploadToCloudinary E w3 ?c = (r4, w4)"
    by (cases "uploadToCloudinary E w3 ?c")
  have "trace (snd (uploadToCloudinary E w3 ?c)) = trace w3 @ [Upload ?c ur]"
    by (simp add: ur3)
  then have t4: "trace w4 = trace w @ ?hd @ [Stat (FilePath b) False, Log s, Upload ?c ur]"
    by (simp add: up t3)
  have "binary_uploads (snd (uploadToCloudinary E w3 ?c)) = binary_uploads w3"
    by simp
  then have b4: "binary_uploads w4 = binary_uploads w1"
    by (simp add: up b3)
  have r4: "r4 = (case ur of Inl e \<Rightarrow> Inl (''error uploading to Cloudinary: '' @ e)
                   | Inr u \<Rightarrow> Inr u)"
    using uploadToCloudinary_result [of E w3 ?c] up by (simp add: ur3)
  define r where "r = db_fault E (tick w4)"
  have pb2: "processBinaryJob E w b =
      (case r4 of Inl e \<Rightarrow> binary_upload_failed E w4 b ?c e
       | Inr u \<Rightarrow> binary_upload_done E w4 b ?c u)"
  proof -
    have "processBinaryJob E w b =
        (case compress_or_original E w1 (FilePath b) of
           (cp, w3) \<Rightarrow>
             (case uploadToCloudinary E w3 cp of
                (Inl e, w4) \<Rightarrow> binary_upload_failed E w4 b cp e
              | (Inr u, w4) \<Rightarrow> binary_upload_done E w4 b cp u))"
      by (simp only: pb pres if_False)
    also have "\<dots> =
        (case uploadToCloudinary E w3 cp of
           (Inl e, w4) \<Rightarrow> binary_upload_failed E w4 b cp e
         | (Inr u, w4) \<Rightarrow> binary_upload_done E w4 b cp u)"
      by (simp only: co prod.case)
    also have "\<dots> =
        (case r4 of Inl e \<Rightarrow> binary_upload_failed E w4 b cp e
         | Inr u \<Rightarrow> binary_upload_done E w4 b cp u)"
      using up by (simp only: cp prod.case)
    finally show ?thesis
      by (simp only: cp)
  qed
  have main: "case ur of
        Inl e \<Rightarrow>
          fst (handle_binary E w body) = Nack False True
          \<and> trace (snd (handle_binary E w body)) =
              trace w @ ?hd
                @ [Stat (FilePath b) False, Log s, Upload ?c (Inl e),
                   Log (fmt_verbs E (''Error uploading to Cloudinary: ''
                          @ ''error uploading to Cloudinary: '' @ e)),
                   DbExec (SetFailed (''Error uploading to Cloudinary: ''
                             @ ''error uploading to Cloudinary: '' @ e) (JobID b)) r]
                @ (if ?c \<noteq> FilePath b then [Remove ?c] else [])
                @ [Log (''Error processing binary job: ''
                          @ fmt_verbs E (''Error uploading to Cloudinary: ''
                              @ ''error uploading to Cloudinary: '' @ e)),
                   Settle (Nack False True)]
          \<and> (r = None \<longrightarrow> binary_uploads w (JobID b) \<noteq> None \<longrightarrow>
               (\<exists>row. binary_uploads (snd (handle_binary E w body)) (JobID b) = Some row
                  \<and> status row = ''failed''
                  \<and> error_message row = Some (''Error uploading to Cloudinary: ''
                             @ ''error uploading to Cloudinary: '' @ e)))
      | Inr u \<Rightarrow>
          fst (handle_binary E w body) = Ack False
          \<and> (\<exists>qs. list_all quiet qs
               \<and> trace (snd (handle_binary E w body)) =
              trace w @ ?hd
                @ [Stat (FilePath b) False, Log s, Upload ?c (Inr u),
                   Log (''Uploaded to Cloudinary: '' @ u),
                   DbExec (SetCompleted u (JobID b)) r]
                @ qs
                @ [Settle (Ack False),
                   Log (''Binary upload job processed and acknowledged: '' @ JobID b)])
          \<and> (r = None \<longrightarrow> binary_uploads w (JobID b) \<noteq> None \<longrightarrow>
               (\<exists>row. binary_uploads (snd (handle_binary E w body)) (JobID b) = Some row
                  \<and> status row = ''completed''
                  \<and> image_url row = Some u))"
  proof (cases ur)
    case (Inl e)
    define e' where "e' = ''error uploading to Cloudinary: '' @ e"
    have pb3: "processBinaryJob E w b = binary_upload_failed E w4 b ?c e'"
      using pb2 r4 Inl by (simp add: e'_def)
    have "fst (processBinaryJob E w b) =
        Some (fmt_verbs E (''Error uploading to Cloudinary: '' @ e'))"
      by (simp add: pb3 binary_upload_failed_shape(1))
    then obtain wf where pr: "processBinaryJob E w b =
        (Some (fmt_verbs E (''Error uploading to Cloudinary: '' @ e')), wf)"
      by (cases "processBinaryJob E w b") auto
    have bm: "binary_upload_failed E w4 b ?c e' =
        (Some (fmt_verbs E (''Error uploading to Cloudinary: '' @ e')), wf)"
      using pr unfolding pb3 .
    have "trace (snd (binary_upload_failed E w4 b ?c e')) =
       trace w4 @ [Log (fmt_verbs E (''Error uploading to Cloudinary: '' @ e')),
                DbExec (SetFailed (''Error uploading to Cloudinary: '' @ e') (JobID b)) r]
       @ (if ?c \<noteq> FilePath b then [Remove ?c] else [])"
      unfolding r_def by (rule binary_upload_failed_shape(2))
    then have tf: "trace wf = trace w4
       @ [Log (fmt_verbs E (''Error uploading to Cloudinary: '' @ e')),
                DbExec (SetFailed (''Error uploading to Cloudinary: '' @ e') (JobID b)) r]
       @ (if ?c \<noteq> FilePath b then [Remove ?c] else [])"
      by (simp add: bm)
    have rowf: "r = None \<longrightarrow> binary_uploads w (JobID b) \<noteq> None \<longrightarrow>
        (\<exists>row. binary_uploads wf (JobID b) = Some row
          \<and> status row = ''failed''
          \<and> error_message row = Some (''Error uploading to Cloudinary: '' @ e'))"
    proof (intro impI)
      assume a: "r = None" "binary_uploads w (JobID b) \<noteq> None"
      then obtain row where "binary_uploads w4 (JobID b) = Some row"
        using row1 b4 by auto
      then have "binary_uploads (snd (binary_upload_failed E w4 b ?c e')) (JobID b) =
         Some (row\<lparr>status := ''failed'',
                 error_message := Some (''Error uploading to Cloudinary: '' @ e')\<rparr>)"
        using a(1) by (intro binary_upload_failed_shape(3)) (simp_all add: r_def)
      then show "\<exists>row. binary_uploads wf (JobID b) = Some row
          \<and> status row = ''failed''
          \<and> error_message row = Some (''Error uploading to Cloudinary: '' @ e')"
        by (simp add: bm)
    qed
    have hb: "handle_binary E w body =
        (Nack False True,
         msg_Settle (Nack False True)
           (log_Printf (''Error processing binary job: ''
                          @ fmt_verbs E (''Error uploading to Cloudinary: '' @ e')) wf))"
      using dec pr by (simp add: handle_binary_def)
    have A: "fst (handle_binary E w body) = Nack False True"
      by (simp add: hb)
    have B: "trace (snd (handle_binary E w body)) =
              trace w @ ?hd
                @ [Stat (FilePath b) False, Log s, Upload ?c (Inl e),
                   Log (fmt_verbs E (''Error uploading to Cloudinary: ''
                          @ ''error uploading to Cloudinary: '' @ e)),
                   DbExec (SetFailed (''Error uploading to Cloudinary: ''
                             @ ''error uploading to Cloudinary: '' @ e) (JobID b)) r]
                @ (if ?c \<noteq> FilePath b then [Remove ?c] else [])
                @ [Log (''Error processing binary job: ''
                          @ fmt_verbs E (''Error uploading to Cloudinary: ''
                              @ ''error uploading to Cloudinary: '' @ e)),
                   Settle (Nack False True)]"
      by (simp add: hb tf t4 Inl e'_def)
    have C: "r = None \<longrightarrow> binary_uploads w (JobID b) \<noteq> None \<longrightarrow>
               (\<exists>row. binary_uploads (snd (handle_binary E w body)) (JobID b) = Some row
                  \<and> status row = ''failed''
                  \<and> error_message row = Some (''Error uploading to Cloudinary: ''
                             @ ''error uploading to Cloudinary: '' @ e))"
      using rowf by (simp add: hb e'_def)
    show ?thesis
      unfolding Inl sum.case by (intro conjI A B C)
  next
    case (Inr u)
    have pb3: "processBinaryJob E w b = binary_upload_done E w4 b ?c u"
      using pb2 r4 Inr by simp
    have "fst (processBinaryJob E w b) = None"
      by (simp add: pb3 binary_upload_done_result)
    then obtain wf where pr: "processBinaryJob E w b = (None, wf)"
      by (cases "processBinaryJob E w b") auto
    have bm: "binary_upload_done E w4 b ?c u = (None, wf)"
      using pr unfolding pb3 .
    obtain qs where "trace (snd (binary_upload_done E w4 b ?c u)) =
        trace w4 @ [Log (''Uploaded to Cloudinary: '' @ u),
                DbExec (SetCompleted u (JobID b)) r] @ qs"
        and q: "list_all quiet qs"
      using binary_upload_done_trace [of E w4 b ?c u] unfolding r_def by blast
    then have tf: "trace wf = trace w4 @ [Log (''Uploaded to Cloudinary: '' @ u),
                DbExec (SetCompleted u (JobID b)) r] @ qs"
      by (simp add: bm)
    have rowf: "r = None \<longrightarrow> binary_uploads w (JobID b) \<noteq> None \<longrightarrow>
        (\<exists>row. binary_uploads wf (JobID b) = Some row
          \<and> status row = ''completed'' \<and> image_url row = Some u)"
    proof (intro impI)
      assume a: "r = None" "binary_uploads w (JobID b) \<noteq> None"
      then obtain row where "binary_uploads w4 (JobID b) = Some row"
        using row1 b4 by auto
      then have "binary_uploads (snd (binary_upload_done E w4 b ?c u)) (JobID b) =
         Some (row\<lparr>status := ''completed'', image_url := Some u\<rparr>)"
        using a(1) by (intro binary_upload_done_row) (simp_all add: r_def)
      then show "\<exists>row. binary_uploads wf (JobID b) = Some row
          \<and> status row = ''completed'' \<and> image_url row = Some u"
        by (simp add: bm)
    qed
    have hb: "handle_binary E w body =
        (Ack False,
         log_Printf (''Binary upload job processed and acknowledged: '' @ JobID b)
           (msg_Settle (Ack False) wf))"
      using dec pr by (simp add: handle_binary_def)
    have A: "fst (handle_binary E w body) = Ack False"
      by (simp add: hb)
    have C: "r = None \<longrightarrow> binary_uploads w (JobID b) \<noteq> None \<longrightarrow>
               (\<exists>row. binary_uploads (snd (handle_binary E w body)) (JobID b) = Some row
                  \<and> status row = ''completed''
                  \<and> image_url row = Some u)"
      using rowf by (simp add: hb)
    have D: "list_all quiet qs \<and> trace (snd (handle_binary E w body)) =
              trace w @ ?hd
                @ [Stat (FilePath b) False, Log s, Upload ?c (Inr u),
                   Log (''Uploaded to Cloudinary: '' @ u),
                   DbExec (SetCompleted u (JobID b)) r]
                @ qs
                @ [Settle (Ack False),
                   Log (''Binary upload job processed and acknowledged: '' @ JobID b)]"
      using q by (simp add: hb tf t4 Inr)
    have B: "\<exists>qs. list_all quiet qs \<and> trace (snd (handle_binary E w body)) =
              trace w @ ?hd
                @ [Stat (FilePath b) False, Log s, Upload ?c (Inr u),
                   Log (''Uploaded to Cloudinary: '' @ u),
                   DbExec (SetCompleted u (JobID b)) r]
                @ qs
                @ [Settle (Ack False),
                   Log (''Binary upload job processed and acknowledged: '' @ JobID b)]"
      by (rule exI [of _ qs]) (rule D)
    show ?thesis
      unfolding Inr sum.case by (intro conjI A B C)
  qed
  show ?thesis
    by (rule exI [of _ s], rule exI [of _ r]) (rule main [unfolded ur_def])
qed

text \<open>The two outcomes of the upload of a Binary job, each on its own.\<close>

lemma handle_binary_upload_failed:
  assumes dec: "json_Unmarshal_BinaryJob E body = Inr b"
    and pres: "files w (FilePath b) \<noteq> None"
    and ans: "binary_upload_answer E w b = Inl e"
  shows "\<exists>s r.
          fst (handle_binary E w body) = Nack False True
          \<and> trace (snd (handle_binary E w body)) =
              trace w @ (Log (''Processing binary upload job: '' @ JobID b)
                # DbExec (SetProcessing (JobID b)) (db_fault E (tick w))
                # (case db_fault E (tick w) of
                     None \<Rightarrow> []
                   | Some e \<Rightarrow> [Log (''Error updating job status: '' @ e)]))
                @ [Stat (FilePath b) False, Log s,
                   Upload (binary_upload_path E w b)
                     (Inl e),
                   Log (fmt_verbs E (''Error uploading to Cloudinary: ''
                          @ ''error uploading to Cloudinary: '' @ e)),
                   DbExec (SetFailed (''Error uploading to Cloudinary: ''
                             @ ''error uploading to Cloudinary: '' @ e) (JobID b)) r]
                @ (if binary_upload_path E w b
                        \<noteq> FilePath b
                   then [Remove (binary_upload_path E w b)]
                   else [])
                @ [Log (''Error processing binary job: ''
                          @ fmt_verbs E (''Error uploading to Cloudinary: ''
                              @ ''error uploading to Cloudinary: '' @ e)),
                   Settle (Nack False True)]
          \<and> (r = None \<longrightarrow> binary_uploads w (JobID b) \<noteq> None \<longrightarrow>
               (\<exists>row. binary_uploads (snd (handle_binary E w body)) (JobID b) = Some row
                  \<and> status row = ''failed''
                  \<and> error_message row = Some (''Error uploading to Cloudinary: ''
                             @ ''error uploading to Cloudinary: '' @ e)))"
  using handle_binary_present [OF dec pres] by (simp add: ans)

lemma handle_binary_upload_done:
  assumes dec: "json_Unmarshal_BinaryJob E body = Inr b"
    and pres: "files w (FilePath b) \<noteq> None"
    and ans: "binary_upload_answer E w b = Inr u"
  shows "\<exists>s r.
          fst (handle_binary E w body) = Ack False
          \<and> (\<exists>qs. list_all quiet qs
               \<and> trace (snd (handle_binary E w body)) =
              trace w @ (Log (''Processing binary upload job: '' @ JobID b)
                # DbExec (SetProcessing (JobID b)) (db_fault E (tick w))
                # (case db_fault E (tick w) of
                     None \<Rightarrow> []
                   | Some e \<Rightarrow> [Log (''Error updating job status: '' @ e)]))
                @ [Stat (FilePath b) False, Log s,
                   Upload (binary_upload_path E w b)
                     (Inr u),
                   Log (''Uploaded to Cloudinary: '' @ u),
                   DbExec (SetCompleted u (JobID b)) r]
                @ qs
                @ [Settle (Ack False),
                   Log (''Binary upload job processed and acknowledged: '' @ JobID b)])
          \<and> (r = None \<longrightarrow> binary_uploads w (JobID b) \<noteq> None \<longrightarrow>
               (\<exists>row. binary_uploads (snd (handle_binary E w body)) (JobID b) = Some row
                  \<and> status row = ''completed''
                  \<and> image_url row = Some u))"
  using handle_binary_present [OF dec pres] by (simp add: ans)

lemma new_events_self [simp]: "new_events w w = []"
  by (simp add: new_events_def)

lemmas run_defs =
  handle_post_def handle_binary_def env0_def world0_def job1_def bjob1_def processJob_def
  processBinaryJob_def mark_processing_def binary_file_missing_def binary_upload_failed_def
  binary_upload_done_def process_file_def
  compress_or_original_def compressImage_def decode_by_ext_def filepath_Ext_def
  strings_ToLower_def lower_char_def uploadToCloudinary_def file_upload_done_def
  file_upload_failed_def cleanup_files_def save_post_def db_Exec_def Let_def
  log_Printf_def emit_def os_Remove_def msg_Settle_def new_events_def
  env_db_down_def env_cld_down_def binary_upload_path_def binary_upload_answer_def

text \<open>The database statements of a Post delivery: none, or the one upsert of the URLs.\<close>

lemma handle_post_db_stmts:
  "db_stmts (new_events w (snd (handle_post E w body))) = []
   \<or> (\<exists>(job::Job) us r. db_stmts (new_events w (snd (handle_post E w body))) =
         [(UpsertPostImages (PostID job) (Title job) (Todo job) (strings_Join us '',''), r)])"
proof (cases "json_Unmarshal_Job E body")
  case (Inl e)
  then show ?thesis
    by (simp add: handle_post_def new_events_def)
next
  case (Inr job)
  obtain evs where e: "db_stmts evs = []"
    and a: "uploaded_urls evs = [] \<longrightarrow>
          trace (snd (handle_post E w body)) =
              trace w @ Log (''Processing job: '' @ PostID job @ '' (Title: '' @ Title job @ '')'')
                # evs @ [Log ''Error processing job: no images were successfully processed'',
                         Settle (Nack False True)]"
    and b: "uploaded_urls evs \<noteq> [] \<longrightarrow>
          (\<exists>r. trace (snd (handle_post E w body)) =
              trace w @ Log (''Processing job: '' @ PostID job @ '' (Title: '' @ Title job @ '')'')
                # evs
                @ DbExec (UpsertPostImages (PostID job) (Title job) (Todo job)
                            (strings_Join (uploaded_urls evs) '','')) r
                # (case r of
                     Some e \<Rightarrow> [Log (''Error processing job: error saving to database: '' @ e),
                                Settle (Nack False True)]
                   | None \<Rightarrow> [Log (''Job completed successfully: '' @ PostID job),
                              Settle (Ack False),
                              Log (''Job processed and acknowledged: '' @ PostID job)]))"
    using handle_post_shape [OF Inr, where w = w] by auto
  show ?thesis
  proof (cases "uploaded_urls evs = []")
    case True
    then have "db_stmts (new_events w (snd (handle_post E w body))) = []"
      using a e by (simp add: new_events_def)
    then show ?thesis ..
  next
    case False
    then obtain r where "trace (snd (handle_post E w body)) =
              trace w @ Log (''Processing job: '' @ PostID job @ '' (Title: '' @ Title job @ '')'')
                # evs
                @ DbExec (UpsertPostImages (PostID job) (Title job) (Todo job)
                            (strings_Join (uploaded_urls evs) '','')) r
                # (case r of
                     Some e \<Rightarrow> [Log (''Error processing job: error saving to database: '' @ e),
                                Settle (Nack False True)]
                   | None \<Rightarrow> [Log (''Job completed successfully: '' @ PostID job),
                              Settle (Ack False),
                              Log (''Job processed and acknowledged: '' @ PostID job)])"
      using b by auto
    then have F: "db_stmts (new_events w (snd (handle_post E w body))) =
         [(UpsertPostImages (PostID job) (Title job) (Todo job)
             (strings_Join (uploaded_urls evs) '',''), r)]"
      using e by (simp add: new_events_def split: option.splits)
    show ?thesis
      by (rule disjI2, rule exI [of _ job], rule exI [of _ "uploaded_urls evs"],
          rule exI [of _ r]) (rule F)
  qed
qed

text \<open>The start of the trace of a decoded Binary delivery.\<close>

lemma handle_binary_start:
  assumes dec: "json_Unmarshal_BinaryJob E body = Inr b"
  shows "\<exists>rest. new_events w (snd (handle_binary E w body)) =
        [Log (''Processing binary upload job: '' @ JobID b),
         DbExec (SetProcessing (JobID b)) (db_fault E (tick w))]
        @ (case db_fault E (tick w) of
             None \<Rightarrow> []
           | Some e \<Rightarrow> [Log (''Error updating job status: '' @ e)])
        @ Stat (FilePath b) (files w (FilePath b) = None) # rest"
proof (cases "files w (FilePath b)")
  case None
  show ?thesis
    using handle_binary_missing [OF dec None] None
    by (auto simp: new_events_def)
next
  case (Some content0)
  then have pres: "files w (FilePath b) \<noteq> None"
    by simp
  show ?thesis
  proof (cases "binary_upload_answer E w b")
    case (Inl e)
    show ?thesis
      using handle_binary_upload_failed [OF dec pres Inl] Some
      by (auto simp: new_events_def)
  next
    case (Inr u)
    show ?thesis
      using handle_binary_upload_done [OF dec pres Inr] Some
      by (auto simp: new_events_def)
  qed
qed

text \<open>The events of a decoded delivery, read off the trace lemmas.\<close>

lemma job_image_urls_outcomes:
  "job_image_urls E w job = List.map_filter snd (job_outcomes E w job)"
  by (simp add: job_image_urls_def job_outcomes_def process_files_outcomes)

lemma job_outcomes_paths: "map fst (job_outcomes E w job) = FilePaths job"
  by (simp add: job_outcomes_def file_outcomes_paths)

lemma handle_post_events:
  assumes dec: "json_Unmarshal_Job E body = Inr job"
  shows "\<exists>evs. stat_paths evs = FilePaths job \<and> db_stmts evs = [] \<and> settles evs = []
     \<and> publishes evs = []
     \<and> uploaded_urls evs = job_image_urls E w job
     \<and> (job_image_urls E w job = [] \<longrightarrow>
          fst (handle_post E w body) = Nack False True
          \<and> posts (snd (handle_post E w body)) = posts w
          \<and> new_events w (snd (handle_post E w body)) =
              Log (''Processing job: '' @ PostID job @ '' (Title: '' @ Title job @ '')'')
                # evs @ [Log ''Error processing job: no images were successfully processed'',
                         Settle (Nack False True)])
     \<and> (job_image_urls E w job \<noteq> [] \<longrightarrow>
          (\<exists>r. new_events w (snd (handle_post E w body)) =
              Log (''Processing job: '' @ PostID job @ '' (Title: '' @ Title job @ '')'')
                # evs
                @ DbExec (UpsertPostImages (PostID job) (Title job) (Todo job)
                            (strings_Join (job_image_urls E w job) '','')) r
                # (case r of
                     Some e \<Rightarrow> [Log (''Error processing job: error saving to database: '' @ e),
                                Settle (Nack False True)]
                   | None \<Rightarrow> [Log (''Job completed successfully: '' @ PostID job),
                              Settle (Ack False),
                              Log (''Job processed and acknowledged: '' @ PostID job)])
             \<and> fst (handle_post E w body) = (case r of Some e \<Rightarrow> Nack False True | None \<Rightarrow> Ack False)
             \<and> posts (snd (handle_post E w body)) =
                 (case r of
                    Some e \<Rightarrow> posts w
                  | None \<Rightarrow>
                      (posts w)(PostID job \<mapsto>
                         (case posts w (PostID job) of
                            None \<Rightarrow> \<lparr>title = Title job, todo = Todo job,
                                      imageurl = strings_Join (job_image_urls E w job) '',''\<rparr>
                          | Some row \<Rightarrow> row\<lparr>imageurl := strings_Join (job_image_urls E w job) '',''\<rparr>)))))"
proof -
  have u: "job_image_urls E w job = List.map_filter snd (file_outcomes E
           (log_Printf (''Processing job: '' @ PostID job @ '' (Title: '' @ Title job @ '')'') w)
           (FilePaths job))"
    by (simp add: job_image_urls_def process_files_outcomes)
  obtain evs where a: "stat_paths evs = FilePaths job" "db_stmts evs = []" "settles evs = []"
      "publishes evs = []"
    and v: "uploaded_urls evs = job_image_urls E w job"
    and e: "uploaded_urls evs = [] \<longrightarrow>
          fst (handle_post E w body) = Nack False True
          \<and> posts (snd (handle_post E w body)) = posts w
          \<and> trace (snd (handle_post E w body)) =
              trace w @ Log (''Processing job: '' @ PostID job @ '' (Title: '' @ Title job @ '')'')
                # evs @ [Log ''Error processing job: no images were successfully processed'',
                         Settle (Nack False True)]"
    and n: "uploaded_urls evs \<noteq> [] \<longrightarrow>
          (\<exists>r. trace (snd (handle_post E w body)) =
              trace w @ Log (''Processing job: '' @ PostID job @ '' (Title: '' @ Title job @ '')'')
                # evs
                @ DbExec (UpsertPostImages (PostID job) (Title job) (Todo job)
                            (strings_Join (uploaded_urls evs) '','')) r
                # (case r of
                     Some e \<Rightarrow> [Log (''Error processing job: error saving to database: '' @ e),
                                Settle (Nack False True)]
                   | None \<Rightarrow> [Log (''Job completed successfully: '' @ PostID job),
                              Settle (Ack False),
                              Log (''Job processed and acknowledged: '' @ PostID job)])
             \<and> fst (handle_post E w body) = (case r of Some e \<Rightarrow> Nack False True | None \<Rightarrow> Ack False)
             \<and> posts (snd (handle_post E w body)) =
                 (case r of
                    Some e \<Rightarrow> posts w
                  | None \<Rightarrow>
                      (posts w)(PostID job \<mapsto>
                         (case posts w (PostID job) of
                            None \<Rightarrow> \<lparr>title = Title job, todo = Todo job,
                                      imageurl = strings_Join (uploaded_urls evs) '',''\<rparr>
                          | Some row \<Rightarrow> row\<lparr>imageurl := strings_Join (uploaded_urls evs) '',''\<rparr>))))"
    using handle_post_shape [OF dec, where w = w] unfolding u [symmetric]
    by (elim exE conjE) (rule that, assumption+)
  have e': "job_image_urls E w job = [] \<longrightarrow>
          fst (handle_post E w body) = Nack False True
          \<and> posts (snd (handle_post E w body)) = posts w
          \<and> new_events w (snd (handle_post E w body)) =
              Log (''Processing job: '' @ PostID job @ '' (Title: '' @ Title job @ '')'')
                # evs @ [Log ''Error processing job: no images were successfully processed'',
                         Settle (Nack False True)]"
    using e unfolding v by (simp add: new_events_def)
  have n': "job_image_urls E w job \<noteq> [] \<longrightarrow>
          (\<exists>r. new_events w (snd (handle_post E w body)) =
              Log (''Processing job: '' @ PostID job @ '' (Title: '' @ Title job @ '')'')
                # evs
                @ DbExec (UpsertPostImages (PostID job) (Title job) (Todo job)
                            (strings_Join (job_image_urls E w job) '','')) r
                # (case r of
                     Some e \<Rightarrow> [Log (''Error processing job: error saving to database: '' @ e),
                                Settle (Nack False True)]
                   | None \<Rightarrow> [Log (''Job completed successfully: '' @ PostID job),
                              Settle (Ack False),
                              Log (''Job processed and acknowledged: '' @ PostID job)])
             \<and> fst (handle_post E w body) = (case r of Some e \<Rightarrow> Nack False True | None \<Rightarrow> Ack False)
             \<and> posts (snd (handle_post E w body)) =
                 (case r of
                    Some e \<Rightarrow> posts w
                  | None \<Rightarrow>
                      (posts w)(PostID job \<mapsto>
                         (case posts w (PostID job) of
                            None \<Rightarrow> \<lparr>title = Title job, todo = Todo job,
                                      imageurl = strings_Join (job_image_urls E w job) '',''\<rparr>
                          | Some row \<Rightarrow> row\<lparr>imageurl := strings_Join (job_image_urls E w job) '',''\<rparr>))))"
  proof
    assume "job_image_urls E w job \<noteq> []"
    then have "uploaded_urls evs \<noteq> []"
      by (simp add: v)
    with n obtain r where R: "trace (snd (handle_post E w body)) =
              trace w @ Log (''Processing job: '' @ PostID job @ '' (Title: '' @ Title job @ '')'')
                # evs
                @ DbExec (UpsertPostImages (PostID job) (Title job) (Todo job)
                            (strings_Join (uploaded_urls evs) '','')) r
                # (case r of
                     Some e \<Rightarrow> [Log (''Error processing job: error saving to database: '' @ e),
                                Settle (Nack False True)]
                   | None \<Rightarrow> [Log (''Job completed successfully: '' @ PostID job),
                              Settle (Ack False),
                              Log (''Job processed and acknowledged: '' @ PostID job)])
             \<and> fst (handle_post E w body) = (case r of Some e \<Rightarrow> Nack False True | None \<Rightarrow> Ack False)
             \<and> posts (snd (handle_post E w body)) =
                 (case r of
                    Some e \<Rightarrow> posts w
                  | None \<Rightarrow>
                      (posts w)(PostID job \<mapsto>
                         (case posts w (PostID job) of
                            None \<Rightarrow> \<lparr>title = Title job, todo = Todo job,
                                      imageurl = strings_Join (uploaded_urls evs) '',''\<rparr>
                          | Some row \<Rightarrow> row\<lparr>imageurl := strings_Join (uploaded_urls evs) '',''\<rparr>)))"
      by auto
    have R': "new_events w (snd (handle_post E w body)) =
              Log (''Processing job: '' @ PostID job @ '' (Title: '' @ Title job @ '')'')
                # evs
                @ DbExec (UpsertPostImages (PostID job) (Title job) (Todo job)
                            (strings_Join (job_image_urls E w job) '','')) r
                # (case r of
                     Some e \<Rightarrow> [Log (''Error processing job: error saving to database: '' @ e),
                                Settle (Nack False True)]
                   | None \<Rightarrow> [Log (''Job completed successfully: '' @ PostID job),
                              Settle (Ack False),
                              Log (''Job processed and acknowledged: '' @ PostID job)])
             \<and> fst (handle_post E w body) = (case r of Some e \<Rightarrow> Nack False True | None \<Rightarrow> Ack False)
             \<and> posts (snd (handle_post E w body)) =
                 (case r of
                    Some e \<Rightarrow> posts w
                  | None \<Rightarrow>
                      (posts w)(PostID job \<mapsto>
                         (case posts w (PostID job) of
                            None \<Rightarrow> \<lparr>title = Title job, todo = Todo job,
                                      imageurl = strings_Join (job_image_urls E w job) '',''\<rparr>
                          | Some row \<Rightarrow> row\<lparr>imageurl := strings_Join (job_image_urls E w job) '',''\<rparr>)))"
      using R unfolding v by (simp add: new_events_def)
    show "\<exists>r. new_events w (snd (handle_post E w body)) =
              Log (''Processing job: '' @ PostID job @ '' (Title: '' @ Title job @ '')'')
                # evs
                @ DbExec (UpsertPostImages (PostID job) (Title job) (Todo job)
                            (strings_Join (job_image_urls E w job) '','')) r
                # (case r of
                     Some e \<Rightarrow> [Log (''Error processing job: error saving to database: '' @ e),
                                Settle (Nack False True)]
                   | None \<Rightarrow> [Log (''Job completed successfully: '' @ PostID job),
                              Settle (Ack False),
                              Log (''Job processed and acknowledged: '' @ PostID job)])
             \<and> fst (handle_post E w body) = (case r of Some e \<Rightarrow> Nack False True | None \<Rightarrow> Ack False)
             \<and> posts (snd (handle_post E w body)) =
                 (case r of
                    Some e \<Rightarrow> posts w
                  | None \<Rightarrow>
                      (posts w)(PostID job \<mapsto>
                         (case posts w (PostID job) of
                            None \<Rightarrow> \<lparr>title = Title job, todo = Todo job,
                                      imageurl = strings_Join (job_image_urls E w job) '',''\<rparr>
                          | Some row \<Rightarrow> row\<lparr>imageurl := strings_Join (job_image_urls E w job) '',''\<rparr>)))"
      by (rule exI [of _ r]) (rule R')
  qed
  show ?thesis
    by (rule exI [of _ evs]) (intro conjI a v e' n')
qed

lemma handle_post_projections:
  assumes dec: "json_Unmarshal_Job E body = Inr job"
  shows "stat_paths (new_events w (snd (handle_post E w body))) = FilePaths job"
    and "uploaded_urls (new_events w (snd (handle_post E w body))) = job_image_urls E w job"
proof -
  obtain evs where a: "stat_paths evs = FilePaths job"
    and v: "uploaded_urls evs = job_image_urls E w job"
    and e: "job_image_urls E w job = [] \<longrightarrow>
          new_events w (snd (handle_post E w body)) =
              Log (''Processing job: '' @ PostID job @ '' (Title: '' @ Title job @ '')'')
                # evs @ [Log ''Error processing job: no images were successfully processed'',
                         Settle (Nack False True)]"
    and n: "job_image_urls E w job \<noteq> [] \<longrightarrow>
          (\<exists>r. new_events w (snd (handle_post E w body)) =
              Log (''Processing job: '' @ PostID job @ '' (Title: '' @ Title job @ '')'')
                # evs
                @ DbExec (UpsertPostImages (PostID job) (Title job) (Todo job)
                            (strings_Join (job_image_urls E w job) '','')) r
                # (case r of
                     Some e \<Rightarrow> [Log (''Error processing job: error saving to database: '' @ e),
                                Settle (Nack False True)]
                   | None \<Rightarrow> [Log (''Job completed successfully: '' @ PostID job),
                              Settle (Ack False),
                              Log (''Job processed and acknowledged: '' @ PostID job)]))"
    using handle_post_events [OF dec, where w = w] by auto
  show "stat_paths (new_events w (snd (handle_post E w body))) = FilePaths job"
  proof (cases "job_image_urls E w job = []")
    case True
    then show ?thesis
      using e a by (simp add: stat_paths_append)
  next
    case False
    then show ?thesis
      using n a by (auto simp: stat_paths_append split: option.splits)
  qed
  show "uploaded_urls (new_events w (snd (handle_post E w body))) = job_image_urls E w job"
  proof (cases "job_image_urls E w job = []")
    case True
    then show ?thesis
      using e v by (simp add: uploaded_urls_append)
  next
    case False
    then show ?thesis
      using n v by (auto simp: uploaded_urls_append split: option.splits)
  qed
qed

lemma handle_post_none:
  assumes dec: "json_Unmarshal_Job E body = Inr job"
    and emp: "job_image_urls E w job = []"
  shows "fst (handle_post E w body) = Nack False True"
    and "posts (snd (handle_post E w body)) = posts w"
    and "db_stmts (new_events w (snd (handle_post E w body))) = []"
    and "settles (new_events w (snd (handle_post E w body))) = [Nack False True]"
proof -
  obtain evs where a: "db_stmts evs = []" "settles evs = []"
    and e: "job_image_urls E w job = [] \<longrightarrow>
          fst (handle_post E w body) = Nack False True
          \<and> posts (snd (handle_post E w body)) = posts w
          \<and> new_events w (snd (handle_post E w body)) =
              Log (''Processing job: '' @ PostID job @ '' (Title: '' @ Title job @ '')'')
                # evs @ [Log ''Error processing job: no images were successfully processed'',
                         Settle (Nack False True)]"
    using handle_post_events [OF dec, where w = w] by auto
  show "fst (handle_post E w body) = Nack False True"
    using e emp by simp
  show "posts (snd (handle_post E w body)) = posts w"
    using e emp by simp
  show "db_stmts (new_events w (snd (handle_post E w body))) = []"
    using e emp a by (simp add: db_stmts_append)
  show "settles (new_events w (snd (handle_post E w body))) = [Nack False True]"
    using e emp a by (simp add: settles_append)
qed

lemma handle_post_done:
  assumes dec: "json_Unmarshal_Job E body = Inr job"
    and ne: "job_image_urls E w job \<noteq> []"
  shows "\<exists>pre r post.
      new_events w (snd (handle_post E w body)) =
        pre @ DbExec (UpsertPostImages (PostID job) (Title job) (Todo job)
                        (strings_Join (job_image_urls E w job) '','')) r # post
      \<and> stat_paths pre = FilePaths job \<and> uploaded_urls pre = job_image_urls E w job
      \<and> db_stmts pre = [] \<and> settles pre = [] \<and> db_stmts post = []
      \<and> uploaded_urls post = []
      \<and> settles post = [case r of None \<Rightarrow> Ack False | Some e \<Rightarrow> Nack False True]
      \<and> fst (handle_post E w body) = (case r of None \<Rightarrow> Ack False | Some e \<Rightarrow> Nack False True)
      \<and> (r = None \<longrightarrow>
           (\<exists>row. posts (snd (handle_post E w body)) (PostID job) = Some row
              \<and> imageurl row = strings_Join (job_image_urls E w job) '',''))
      \<and> (r \<noteq> None \<longrightarrow> posts (snd (handle_post E w body)) = posts w)"
proof -
  obtain evs where a: "db_stmts evs = []" "settles evs = []"
    and b: "stat_paths evs = FilePaths job" "uploaded_urls evs = job_image_urls E w job"
    and n: "job_image_urls E w job \<noteq> [] \<longrightarrow>
          (\<exists>r. new_events w (snd (handle_post E w body)) =
              Log (''Processing job: '' @ PostID job @ '' (Title: '' @ Title job @ '')'')
                # evs
                @ DbExec (UpsertPostImages (PostID job) (Title job) (Todo job)
                            (strings_Join (job_image_urls E w job) '','')) r
                # (case r of
                     Some e \<Rightarrow> [Log (''Error processing job: error saving to database: '' @ e),
                                Settle (Nack False True)]
                   | None \<Rightarrow> [Log (''Job completed successfully: '' @ PostID job),
                              Settle (Ack False),
                              Log (''Job processed and acknowledged: '' @ PostID job)])
             \<and> fst (handle_post E w body) = (case r of Some e \<Rightarrow> Nack False True | None \<Rightarrow> Ack False)
             \<and> posts (snd (handle_post E w body)) =
                 (case r of
                    Some e \<Rightarrow> posts w
                  | None \<Rightarrow>
                      (posts w)(PostID job \<mapsto>
                         (case posts w (PostID job) of
                            None \<Rightarrow> \<lparr>title = Title job, todo = Todo job,
                                      imageurl = strings_Join (job_image_urls E w job) '',''\<rparr>
                          | Some row \<Rightarrow> row\<lparr>imageurl := strings_Join (job_image_urls E w job) '',''\<rparr>))))"
    using handle_post_events [OF dec, where w = w] by auto
  from n ne obtain r where
    t: "new_events w (snd (handle_post E w body)) =
              (Log (''Processing job: '' @ PostID job @ '' (Title: '' @ Title job @ '')'')
                # evs)
                @ DbExec (UpsertPostImages (PostID job) (Title job) (Todo job)
                            (strings_Join (job_image_urls E w job) '','')) r
                # (case r of
                     Some e \<Rightarrow> [Log (''Error processing job: error saving to database: '' @ e),
                                Settle (Nack False True)]
                   | None \<Rightarrow> [Log (''Job completed successfully: '' @ PostID job),
                              Settle (Ack False),
                              Log (''Job processed and acknowledged: '' @ PostID job)])"
    and s: "fst (handle_post E w body) = (case r of Some e \<Rightarrow> Nack False True | None \<Rightarrow> Ack False)"
    and p: "posts (snd (handle_post E w body)) =
                 (case r of
                    Some e \<Rightarrow> posts w
                  | None \<Rightarrow>
                      (posts w)(PostID job \<mapsto>
                         (case posts w (PostID job) of
                            None \<Rightarrow> \<lparr>title = Title job, todo = Todo job,
                                      imageurl = strings_Join (job_image_urls E w job) '',''\<rparr>
                          | Some row \<Rightarrow> row\<lparr>imageurl := strings_Join (job_image_urls E w job) '',''\<rparr>)))"
    by auto
  have 1: "db_stmts (Log (''Processing job: '' @ PostID job @ '' (Title: '' @ Title job @ '')'')
                # evs) = []"
    and 2: "settles (Log (''Processing job: '' @ PostID job @ '' (Title: '' @ Title job @ '')'')
                # evs) = []"
    using a by simp_all
  have 8: "stat_paths (Log (''Processing job: '' @ PostID job @ '' (Title: '' @ Title job @ '')'')
                # evs) = FilePaths job"
    and 9: "uploaded_urls (Log (''Processing job: '' @ PostID job @ '' (Title: '' @ Title job @ '')'')
                # evs) = job_image_urls E w job"
    using b by simp_all
  have 10: "uploaded_urls (case r of
                     Some e \<Rightarrow> [Log (''Error processing job: error saving to database: '' @ e),
                                Settle (Nack False True)]
                   | None \<Rightarrow> [Log (''Job completed successfully: '' @ PostID job),
                              Settle (Ack False),
                              Log (''Job processed and acknowledged: '' @ PostID job)]) = []"
    by (simp split: option.splits)
  have 3: "db_stmts (case r of
                     Some e \<Rightarrow> [Log (''Error processing job: error saving to database: '' @ e),
                                Settle (Nack False True)]
                   | None \<Rightarrow> [Log (''Job completed successfully: '' @ PostID job),
                              Settle (Ack False),
                              Log (''Job processed and acknowledged: '' @ PostID job)]) = []"
    by (simp split: option.splits)
  have 4: "settles (case r of
                     Some e \<Rightarrow> [Log (''Error processing job: error saving to database: '' @ e),
                                Settle (Nack False True)]
                   | None \<Rightarrow> [Log (''Job completed successfully: '' @ PostID job),
                              Settle (Ack False),
                              Log (''Job processed and acknowledged: '' @ PostID job)])
            = [case r of None \<Rightarrow> Ack False | Some e \<Rightarrow> Nack False True]"
    by (simp split: option.splits)
  have 5: "fst (handle_post E w body) = (case r of None \<Rightarrow> Ack False | Some e \<Rightarrow> Nack False True)"
    using s by (simp split: option.splits)
  have 6: "r = None \<longrightarrow>
           (\<exists>row. posts (snd (handle_post E w body)) (PostID job) = Some row
              \<and> imageurl row = strings_Join (job_image_urls E w job) '','')"
    using p by (simp split: option.splits)
  have 7: "r \<noteq> None \<longrightarrow> posts (snd (handle_post E w body)) = posts w"
    using p by (auto split: option.splits)
  show ?thesis
    by (rule exI [of _ "Log (''Processing job: '' @ PostID job @ '' (Title: '' @ Title job @ '')'')
                # evs"], rule exI [of _ r],
        rule exI [of _ "case r of
                     Some e \<Rightarrow> [Log (''Error processing job: error saving to database: '' @ e),
                                Settle (Nack False True)]
                   | None \<Rightarrow> [Log (''Job completed successfully: '' @ PostID job),
                              Settle (Ack False),
                              Log (''Job processed and acknowledged: '' @ PostID job)]"])
       (intro conjI t 1 2 3 4 5 6 7 8 9 10)
qed

text \<open>The events of a decoded Binary delivery, in each of its three outcomes.\<close>

lemma handle_binary_missing_events:
  assumes dec: "json_Unmarshal_BinaryJob E body = Inr b"
    and miss: "files w (FilePath b) = None"
  shows "\<exists>r. fst (handle_binary E w body) = Nack False True
        \<and> new_events w (snd (handle_binary E w body)) =
            Log (''Processing binary upload job: '' @ JobID b)
              # DbExec (SetProcessing (JobID b)) (db_fault E (tick w))
              # (case db_fault E (tick w) of
                   None \<Rightarrow> []
                 | Some e \<Rightarrow> [Log (''Error updating job status: '' @ e)])
              @ [Stat (FilePath b) True,
                 DbExec (SetFailed (''File not found: '' @ FilePath b) (JobID b)) r,
                 Log (''Error processing binary job: ''
                        @ fmt_verbs E (''File not found: '' @ FilePath b)),
                 Settle (Nack False True)]
        \<and> (r = None \<longrightarrow> binary_uploads w (JobID b) \<noteq> None \<longrightarrow>
             (\<exists>row. binary_uploads (snd (handle_binary E w body)) (JobID b) = Some row
                \<and> status row = ''failed''
                \<and> error_message row = Some (''File not found: '' @ FilePath b)))"
  using handle_binary_missing [OF dec miss]
  by (elim exE conjE) (intro exI conjI new_events_eq; assumption)

lemma handle_binary_failed_events:
  assumes dec: "json_Unmarshal_BinaryJob E body = Inr b"
    and pres: "files w (FilePath b) \<noteq> None"
    and ans: "binary_upload_answer E w b = Inl e"
  shows "\<exists>s r.
          fst (handle_binary E w body) = Nack False True
          \<and> new_events w (snd (handle_binary E w body)) =
              (Log (''Processing binary upload job: '' @ JobID b)
                # DbExec (SetProcessing (JobID b)) (db_fault E (tick w))
                # (case db_fault E (tick w) of
                     None \<Rightarrow> []
                   | Some e \<Rightarrow> [Log (''Error updating job status: '' @ e)]))
                @ [Stat (FilePath b) False, Log s,
                   Upload (binary_upload_path E w b)
                     (Inl e),
                   Log (fmt_verbs E (''Error uploading to Cloudinary: ''
                          @ ''error uploading to Cloudinary: '' @ e)),
                   DbExec (SetFailed (''Error uploading to Cloudinary: ''
                             @ ''error uploading to Cloudinary: '' @ e) (JobID b)) r]
                @ (if binary_upload_path E w b
                        \<noteq> FilePath b
                   then [Remove (binary_upload_path E w b)]
                   else [])
                @ [Log (''Error processing binary job: ''
                          @ fmt_verbs E (''Error uploading to Cloudinary: ''
                              @ ''error uploading to Cloudinary: '' @ e)),
                   Settle (Nack False True)]
          \<and> (r = None \<longrightarrow> binary_uploads w (JobID b) \<noteq> None \<longrightarrow>
               (\<exists>row. binary_uploads (snd (handle_binary E w body)) (JobID b) = Some row
                  \<and> status row = ''failed''
                  \<and> error_message row = Some (''Error uploading to Cloudinary: ''
                             @ ''error uploading to Cloudinary: '' @ e)))"
  using handle_binary_upload_failed [OF dec pres ans]
  by (elim exE conjE) (intro exI conjI new_events_eq; assumption)

lemma handle_binary_done_events:
  assumes dec: "json_Unmarshal_BinaryJob E body = Inr b"
    and pres: "files w (FilePath b) \<noteq> None"
    and ans: "binary_upload_answer E w b = Inr u"
  shows "\<exists>s r qs.
          fst (handle_binary E w body) = Ack False
          \<and> list_all quiet qs
          \<and> new_events w (snd (handle_binary E w body)) =
              (Log (''Processing binary upload job: '' @ JobID b)
                # DbExec (SetProcessing (JobID b)) (db_fault E (tick w))
                # (case db_fault E (tick w) of
                     None \<Rightarrow> []
                   | Some e \<Rightarrow> [Log (''Error updating job status: '' @ e)]))
                @ [Stat (FilePath b) False, Log s,
                   Upload (binary_upload_path E w b)
                     (Inr u),
                   Log (''Uploaded to Cloudinary: '' @ u),
                   DbExec (SetCompleted u (JobID b)) r]
                @ qs
                @ [Settle (Ack False),
                   Log (''Binary upload job processed and acknowledged: '' @ JobID b)]
          \<and> (r = None \<longrightarrow> binary_uploads w (JobID b) \<noteq> None \<longrightarrow>
               (\<exists>row. binary_uploads (snd (handle_binary E w body)) (JobID b) = Some row
                  \<and> status row = ''completed''
                  \<and> image_url row = Some u))"
  using handle_binary_upload_done [OF dec pres ans]
  by (elim exE conjE) (intro exI conjI new_events_eq; assumption)



lemma handle_binary_done_stmts:
  assumes dec: "json_Unmarshal_BinaryJob E body = Inr b"
    and pres: "files w (FilePath b) \<noteq> None"
    and ans: "binary_upload_answer E w b = Inr u"
  shows "\<exists>r. db_stmts (new_events w (snd (handle_binary E w body))) =
           [(SetProcessing (JobID b), db_fault E (tick w)), (SetCompleted u (JobID b), r)]
         \<and> settles (new_events w (snd (handle_binary E w body))) = [Ack False]
         \<and> uploaded_urls (new_events w (snd (handle_binary E w body))) = [u]"
  using handle_binary_done_events [OF dec pres ans]
  apply (elim exE conjE)
  subgoal for s r qs
    by (rule exI [of _ r]) (simp add: quiet_projections split: option.splits)
  done

text \<open>What the concrete runs compute.\<close>

lemma run_decode:
  "json_Unmarshal_BinaryJob env0 ''bin1'' = Inr bjob1"
  "json_Unmarshal_BinaryJob env_cld_down ''bin1'' = Inr bjob1"
  "json_Unmarshal_BinaryJob env_db_down ''bin1'' = Inr bjob1"
  "json_Unmarshal_Job env0 ''post1'' = Inr job1"
  "json_Unmarshal_Job env_cld_down ''post1'' = Inr job1"
  "json_Unmarshal_Job env_db_down ''post1'' = Inr job1"
  "json_Unmarshal_Job env0 ''{'' = Inl ''invalid character''"
  by (simp_all add: env0_def env_cld_down_def env_db_down_def)

lemma run_world0:
  "files world0 (FilePath bjob1) = Some ''J''"
  "files (world0\<lparr>files := Map.empty\<rparr>) (FilePath bjob1) = None"
  "binary_uploads world0 (JobID bjob1) =
     Some \<lparr>status = ''pending'', image_url = None, error_message = None\<rparr>"
  "tick world0 = 0"
  "db_fault env0 0 = None"
  "db_fault env_cld_down 0 = None"
  "db_fault env_db_down 0 = Some ''connection refused''"
  by (simp_all add: world0_def bjob1_def env0_def env_cld_down_def env_db_down_def)

lemma run_binary_answer:
  "binary_upload_answer env0 world0 bjob1 = Inr ''https://cdn/tmp/j1.webp''"
  "binary_upload_answer env_db_down world0 bjob1 = Inr ''https://cdn/tmp/j1.webp''"
  "binary_upload_answer env_cld_down world0 bjob1 = Inl ''timeout''"
  "binary_upload_path env0 world0 bjob1 = ''/tmp/j1.webp''"
  "binary_upload_path env_db_down world0 bjob1 = ''/tmp/j1.webp''"
  "binary_upload_path env_cld_down world0 bjob1 = ''/tmp/j1.webp''"
  by (simp_all add: run_defs)

lemma run_job_image_urls:
  "job_image_urls env0 world0 job1 = [''https://cdn/tmp/a.webp'', ''https://cdn/tmp/b.webp'']"
  "job_image_urls env_db_down world0 job1 =
     [''https://cdn/tmp/a.webp'', ''https://cdn/tmp/b.webp'']"
  "job_image_urls env_cld_down world0 job1 = []"
  by (simp_all add: run_defs job_image_urls_def)

text \<open>The queues through one delivery.\<close>

lemma handle_post_queues:
  "image_processing (snd (handle_post E w body)) = image_processing w"
  "binary_upload (snd (handle_post E w body)) = binary_upload w"
  by (simp_all add: handle_post_def processJob_def save_post_def case_prod_beta Let_def
        split: sum.splits option.splits)

lemma processBinaryJob_queues:
  "image_processing (snd (processBinaryJob E w b)) = image_processing w"
  "binary_upload (snd (processBinaryJob E w b)) = binary_upload w"
  by (simp_all add: processBinaryJob_def binary_file_missing_def binary_upload_failed_def
        binary_upload_done_def case_prod_beta Let_def bool.case_eq_if
        split: sum.splits option.splits)

lemma handle_binary_queues:
  "image_processing (snd (handle_binary E w body)) = image_processing w"
  "binary_upload (snd (handle_binary E w body)) = binary_upload w"
  by (simp_all add: handle_binary_def processBinaryJob_queues case_prod_beta
        split: sum.splits option.splits)

lemma post_loop_step_requeue:
  assumes "image_processing w = body # rest"
    and "fst (handle_post E (w\<lparr>image_processing := rest\<rparr>) body) = Nack m True"
  shows "\<exists>n. image_processing (post_loop_step E w) = take n rest @ [body] @ drop n rest"
  using assms handle_post_queues(1) [of E "w\<lparr>image_processing := rest\<rparr>" body]
  by (auto simp: post_loop_step_def broker_settle_def case_prod_beta)

lemma binary_loop_step_requeue:
  assumes "binary_upload w = body # rest"
    and "fst (handle_binary E (w\<lparr>binary_upload := rest\<rparr>) body) = Nack m True"
  shows "\<exists>n. binary_upload (binary_loop_step E w) = take n rest @ [body] @ drop n rest"
  using assms handle_binary_queues(2) [of E "w\<lparr>binary_upload := rest\<rparr>" body]
  by (auto simp: binary_loop_step_def broker_settle_def case_prod_beta)

lemma post_loop_step_requeued:
  assumes "fst (handle_post E w body) = Nack m True"
  shows "\<exists>n. image_processing
              (post_loop_step E (w\<lparr>image_processing := body # image_processing w\<rparr>)) =
            take n (image_processing w) @ [body] @ drop n (image_processing w)"
  using post_loop_step_requeue
    [of "w\<lparr>image_processing := body # image_processing w\<rparr>" body "image_processing w" E m]
    assms
  by simp

lemma binary_loop_step_requeued:
  assumes "fst (handle_binary E w body) = Nack m True"
  shows "\<exists>n. binary_upload
              (binary_loop_step E (w\<lparr>binary_upload := body # binary_upload w\<rparr>)) =
            take n (binary_upload w) @ [body] @ drop n (binary_upload w)"
  using binary_loop_step_requeue
    [of "w\<lparr>binary_upload := body # binary_upload w\<rparr>" body "binary_upload w" E m]
    assms
  by simp

text \<open>The one statement of a Post delivery that collected a URL.\<close>

lemma handle_post_done_stmts:
  assumes dec: "json_Unmarshal_Job E body = Inr job"
    and ne: "job_image_urls E w job \<noteq> []"
  shows "\<exists>r. db_stmts (new_events w (snd (handle_post E w body))) =
              [(UpsertPostImages (PostID job) (Title job) (Todo job)
                  (strings_Join (job_image_urls E w job) '',''), r)]
           \<and> settles (new_events w (snd (handle_post E w body))) =
              [case r of None \<Rightarrow> Ack False | Some e \<Rightarrow> Nack False True]"
  using handle_post_done [OF dec ne]
  apply (elim exE conjE)
  subgoal for pre r post
    by (rule exI [of _ r]) simp
  done

lemma run_job_outcomes:
  "job_outcomes env0 world0 job1 =
     [(''/tmp/a.webp'', Some ''https://cdn/tmp/a.webp''), (''/tmp/gone.png'', None),
      (''/tmp/b.webp'', Some ''https://cdn/tmp/b.webp'')]"
  by (simp add: run_defs job_outcomes_def)

lemma run_jobs:
  "PostID job1 = ''p1''" "Title job1 = ''t''" "Todo job1 = []"
  "FilePaths job1 = [''/tmp/a.webp'', ''/tmp/gone.png'', ''/tmp/b.webp'']"
  "JobID bjob1 = ''j1''" "FilePath bjob1 = ''/tmp/j1.webp''"
  by (simp_all add: job1_def bjob1_def)

text \<open>The compression step leaves the input where it is.\<close>

lemma compressImage_keeps_input:
  "files (snd (compressImage E w p)) p = files w p"
  by (simp add: compressImage_def Let_def split: option.splits sum.splits)

lemma compress_or_original_keeps_input:
  "files (snd (compress_or_original E w p)) p = files w p"
  using compressImage_keeps_input [of E w p]
  by (simp add: compress_or_original_def case_prod_beta split: sum.splits)

lemma compress_or_original_tick:
  "tick (snd (compress_or_original E w p)) = tick (snd (compressImage E w p))"
  by (simp add: compress_or_original_def case_prod_beta split: sum.splits)

lemma compress_or_original_failed:
  assumes "fst (compressImage E w p) = Inl e"
  shows "fst (compress_or_original E w p) = p"
    and "trace (snd (compress_or_original E w p)) =
           trace w @ [Log (''Error compressing image '' @ p @ '': '' @ e)]"
  using assms by (simp_all add: compress_or_original_path compress_or_original_log)

text \<open>One round of the loop of a Post job when the compression fails.\<close>

lemma process_file_fallback:
  assumes pres: "files w p = Some content"
    and fail: "fst (compressImage E w p) = Inl e"
  shows "\<exists>t evs. list_all quiet evs
      \<and> new_events w (snd (process_file E w p)) =
          Stat p False # Log (''Error compressing image '' @ p @ '': '' @ e)
            # Upload p (cld_Upload E t p (Some content)) # evs
      \<and> fst (process_file E w p) =
          (case cld_Upload E t p (Some content) of Inl x \<Rightarrow> None | Inr u \<Rightarrow> Some u)"
proof -
  define w1 where "w1 = emit (Stat p False) w"
  have f1: "files w1 = files w" and k1: "tick w1 = tick w" and t1: "trace w1 = trace w @ [Stat p False]"
    by (simp_all add: w1_def)
  have fail1: "fst (compressImage E w1 p) = Inl e"
    using compressImage_cong [of w1 w E p] f1 k1 fail by simp
  define w2 where "w2 = snd (compress_or_original E w1 p)"
  define t where "t = tick w2"
  have co: "compress_or_original E w1 p = (p, w2)"
    using compress_or_original_failed(1) [OF fail1] by (simp add: w2_def prod_eq_iff)
  have t2: "trace w2 = trace w @ [Stat p False, Log (''Error compressing image '' @ p @ '': '' @ e)]"
    using compress_or_original_failed(2) [OF fail1] t1 by (simp add: w2_def)
  have f2: "files w2 p = Some content"
    using compress_or_original_keeps_input [of E w1 p] f1 pres by (simp add: w2_def)
  define a where "a = cld_Upload E t p (Some content)"
  define w3 where "w3 = snd (uploadToCloudinary E w2 p)"
  have t3: "trace w3 = trace w @ [Stat p False, Log (''Error compressing image '' @ p @ '': '' @ e),
                Upload p a]"
    using t2 f2 by (simp add: w3_def a_def t_def)
  have r3: "fst (uploadToCloudinary E w2 p) =
      (case a of Inl x \<Rightarrow> Inl (''error uploading to Cloudinary: '' @ x) | Inr u \<Rightarrow> Inr u)"
    using f2 by (simp add: uploadToCloudinary_result a_def t_def)
  have pf: "process_file E w p =
      (case fst (uploadToCloudinary E w2 p) of
         Inl x \<Rightarrow> (None, file_upload_failed w3 p p x)
       | Inr u \<Rightarrow> (Some u, file_upload_done E w3 p p u))"
    using pres co
    by (simp add: process_file_def w1_def w3_def case_prod_beta split: sum.splits)
  show ?thesis
  proof (cases a)
    case (Inl x)
    obtain evs where q: "list_all quiet evs"
      and tr: "trace (file_upload_failed w3 p p (''error uploading to Cloudinary: '' @ x)) =
                 trace w3 @ evs"
      using file_upload_failed_trace [of w3 p p "''error uploading to Cloudinary: '' @ x"]
      by (elim exE conjE)
    have A: "new_events w (snd (process_file E w p)) =
          Stat p False # Log (''Error compressing image '' @ p @ '': '' @ e)
            # Upload p (cld_Upload E t p (Some content)) # evs"
      using tr t3 r3 Inl by (simp add: pf new_events_def a_def)
    have B: "fst (process_file E w p) =
          (case cld_Upload E t p (Some content) of Inl x \<Rightarrow> None | Inr u \<Rightarrow> Some u)"
      using r3 Inl by (simp add: pf a_def)
    show ?thesis
      by (rule exI [of _ t], rule exI [of _ evs]) (intro conjI q A B)
  next
    case (Inr u)
    obtain evs where q: "list_all quiet evs"
      and tr: "trace (file_upload_done E w3 p p u) = trace w3 @ evs"
      using file_upload_done_trace [of E w3 p p u] by (elim exE conjE)
    have A: "new_events w (snd (process_file E w p)) =
          Stat p False # Log (''Error compressing image '' @ p @ '': '' @ e)
            # Upload p (cld_Upload E t p (Some content)) # evs"
      using tr t3 r3 Inr by (simp add: pf new_events_def a_def)
    have B: "fst (process_file E w p) =
          (case cld_Upload E t p (Some content) of Inl x \<Rightarrow> None | Inr u \<Rightarrow> Some u)"
      using r3 Inr by (simp add: pf a_def)
    show ?thesis
      by (rule exI [of _ t], rule exI [of _ evs]) (intro conjI q A B)
  qed
qed

text \<open>The same for a Binary job: what is uploaded is the staged file.\<close>

lemma binary_fallback:
  assumes pres: "files w (FilePath b) = Some content"
    and fail: "fst (compressImage E (w\<lparr>tick := Suc (tick w)\<rparr>) (FilePath b)) = Inl e"
  shows "binary_upload_path E w b = FilePath b"
    and "\<exists>t. binary_upload_answer E w b = cld_Upload E t (FilePath b) (Some content)"
proof -
  show p: "binary_upload_path E w b = FilePath b"
    using fail by (simp add: binary_upload_path_def compress_or_original_path)
  have "files (snd (compress_or_original E (w\<lparr>tick := Suc (tick w)\<rparr>) (FilePath b))) (FilePath b)
          = Some content"
    using compress_or_original_keeps_input [of E "w\<lparr>tick := Suc (tick w)\<rparr>" "FilePath b"] pres
    by simp
  then have "binary_upload_answer E w b =
      cld_Upload E (tick (snd (compress_or_original E (w\<lparr>tick := Suc (tick w)\<rparr>) (FilePath b))))
        (FilePath b) (Some content)"
    by (simp add: binary_upload_answer_def Let_def p)
  then show "\<exists>t. binary_upload_answer E w b = cld_Upload E t (FilePath b) (Some content)" ..
qed

lemma run_compress:
  "files world0 ''/tmp/a.webp'' = Some ''A''"
  "fst (compressImage env0 world0 ''/tmp/a.webp'') = Inl ''unsupported image format: .webp''"
  "fst (compressImage env0 (world0\<lparr>tick := Suc (tick world0)\<rparr>) (FilePath bjob1)) =
     Inl ''unsupported image format: .webp''"
  "cld_Upload env0 t p c = Inr (''https://cdn'' @ p)"
  by (simp_all add: run_defs)

text \<open>A Binary delivery whose compression fails.\<close>

lemma handle_binary_fallback:
  assumes dec: "json_Unmarshal_BinaryJob E body = Inr b"
    and pres: "files w (FilePath b) = Some content"
    and fail: "fst (compressImage E (w\<lparr>tick := Suc (tick w)\<rparr>) (FilePath b)) = Inl e"
  shows "\<exists>t. binary_upload_answer E w b = cld_Upload E t (FilePath b) (Some content)
        \<and> (case cld_Upload E t (FilePath b) (Some content) of
             Inr u \<Rightarrow>
               (\<exists>s r qs.
                  fst (handle_binary E w body) = Ack False
                  \<and> list_all quiet qs
                  \<and> new_events w (snd (handle_binary E w body)) =
                      (Log (''Processing binary upload job: '' @ JobID b)
                        # DbExec (SetProcessing (JobID b)) (db_fault E (tick w))
                        # (case db_fault E (tick w) of
                             None \<Rightarrow> []
                           | Some e \<Rightarrow> [Log (''Error updating job status: '' @ e)]))
                        @ [Stat (FilePath b) False, Log s,
                           Upload (FilePath b) (Inr u),
                           Log (''Uploaded to Cloudinary: '' @ u),
                           DbExec (SetCompleted u (JobID b)) r]
                        @ qs
                        @ [Settle (Ack False),
                           Log (''Binary upload job processed and acknowledged: '' @ JobID b)])
           | Inl x \<Rightarrow>
               (\<exists>s r.
                  fst (handle_binary E w body) = Nack False True
                  \<and> new_events w (snd (handle_binary E w body)) =
                      (Log (''Processing binary upload job: '' @ JobID b)
                        # DbExec (SetProcessing (JobID b)) (db_fault E (tick w))
                        # (case db_fault E (tick w) of
                             None \<Rightarrow> []
                           | Some e \<Rightarrow> [Log (''Error updating job status: '' @ e)]))
                        @ [Stat (FilePath b) False, Log s,
                           Upload (FilePath b) (Inl x),
                           Log (fmt_verbs E (''Error uploading to Cloudinary: ''
                                  @ ''error uploading to Cloudinary: '' @ x)),
                           DbExec (SetFailed (''Error uploading to Cloudinary: ''
                                     @ ''error uploading to Cloudinary: '' @ x) (JobID b)) r,
                           Log (''Error processing binary job: ''
                                  @ fmt_verbs E (''Error uploading to Cloudinary: ''
                                      @ ''error uploading to Cloudinary: '' @ x)),
                           Settle (Nack False True)]))"
proof -
  have pres': "files w (FilePath b) \<noteq> None"
    using pres by simp
  have path: "binary_upload_path E w b = FilePath b"
    using pres fail by (rule binary_fallback)
  obtain t where ans: "binary_upload_answer E w b = cld_Upload E t (FilePath b) (Some content)"
    using binary_fallback(2) [OF pres fail] by (elim exE)
  have "case cld_Upload E t (FilePath b) (Some content) of
             Inr u \<Rightarrow>
               (\<exists>s r qs.
                  fst (handle_binary E w body) = Ack False
                  \<and> list_all quiet qs
                  \<and> new_events w (snd (handle_binary E w body)) =
                      (Log (''Processing binary upload job: '' @ JobID b)
                        # DbExec (SetProcessing (JobID b)) (db_fault E (tick w))
                        # (case db_fault E (tick w) of
                             None \<Rightarrow> []
                           | Some e \<Rightarrow> [Log (''Error updating job status: '' @ e)]))
                        @ [Stat (FilePath b) False, Log s,
                           Upload (FilePath b) (Inr u),
                           Log (''Uploaded to Cloudinary: '' @ u),
                           DbExec (SetCompleted u (JobID b)) r]
                        @ qs
                        @ [Settle (Ack False),
                           Log (''Binary upload job processed and acknowledged: '' @ JobID b)])
           | Inl x \<Rightarrow>
               (\<exists>s r.
                  fst (handle_binary E w body) = Nack False True
                  \<and> new_events w (snd (handle_binary E w body)) =
                      (Log (''Processing binary upload job: '' @ JobID b)
                        # DbExec (SetProcessing (JobID b)) (db_fault E (tick w))
                        # (case db_fault E (tick w) of
                             None \<Rightarrow> []
                           | Some e \<Rightarrow> [Log (''Error updating job status: '' @ e)]))
                        @ [Stat (FilePath b) False, Log s,
                           Upload (FilePath b) (Inl x),
                           Log (fmt_verbs E (''Error uploading to Cloudinary: ''
                                  @ ''error uploading to Cloudinary: '' @ x)),
                           DbExec (SetFailed (''Error uploading to Cloudinary: ''
                                     @ ''error uploading to Cloudinary: '' @ x) (JobID b)) r,
                           Log (''Error processing binary job: ''
                                  @ fmt_verbs E (''Error uploading to Cloudinary: ''
                                      @ ''error uploading to Cloudinary: '' @ x)),
                           Settle (Nack False True)])"
  proof (cases "cld_Upload E t (FilePath b) (Some content)")
    case (Inl x)
    then have a: "binary_upload_answer E w b = Inl x"
      using ans by simp
    show ?thesis
      using handle_binary_failed_events [OF dec pres' a]
      apply (simp only: Inl sum.case path)
      apply (elim exE conjE)
      subgoal for s r
        by (rule exI [of _ s], rule exI [of _ r]) simp
      done
  next
    case (Inr u)
    then have a: "binary_upload_answer E w b = Inr u"
      using ans by simp
    show ?thesis
      using handle_binary_done_events [OF dec pres' a]
      apply (simp only: Inr sum.case path)
      apply (elim exE conjE)
      subgoal for s r qs
        by (rule exI [of _ s], rule exI [of _ r], rule exI [of _ qs]) simp
      done
  qed
  with ans show ?thesis
    by (intro exI [of _ t] conjI)
qed

text \<open>The choice of the decoder, and the extension of the paths the producer stages.\<close>

lemma decode_by_ext_unsupported:
  "ext \<noteq> ''.jpg'' \<Longrightarrow> ext \<noteq> ''.jpeg'' \<Longrightarrow> ext \<noteq> ''.png'' \<Longrightarrow>
     decode_by_ext E ext content = Inl (''unsupported image format: '' @ ext)"
  by (simp add: decode_by_ext_def)

lemma compressImage_decode_failed:
  "files w p = Some content \<Longrightarrow>
   decode_by_ext E (strings_ToLower (filepath_Ext p)) content = Inl e \<Longrightarrow>
     compressImage E w p = (Inl e, w)"
  by (simp add: compressImage_def)

lemma compressImage_unsupported:
  assumes "files w p = Some content"
    and "strings_ToLower (filepath_Ext p) \<noteq> ''.jpg''"
    and "strings_ToLower (filepath_Ext p) \<noteq> ''.jpeg''"
    and "strings_ToLower (filepath_Ext p) \<noteq> ''.png''"
  shows "compressImage E w p =
           (Inl (''unsupported image format: '' @ strings_ToLower (filepath_Ext p)), w)"
  using assms by (simp add: compressImage_decode_failed decode_by_ext_unsupported)

lemma filepath_Ext_webp: "filepath_Ext (xs @ ''.webp'') = ''.webp''"
  by (simp add: filepath_Ext_def)

lemma strings_ToLower_webp: "strings_ToLower ''.webp'' = ''.webp''"
  by (simp add: strings_ToLower_def lower_char_def)

lemma staged_webp_ext:
  "binary_ext ct = ''.webp'' \<Longrightarrow>
     strings_ToLower (filepath_Ext (filepath_Join tmpDir (jobID @ binary_ext ct))) = ''.webp''"
  using filepath_Ext_webp [of "tmpDir @ ''/'' @ jobID"]
  by (simp add: filepath_Join_def strings_ToLower_webp)

lemma run_binary_ext: "binary_ext ''image/webp'' = ''.webp''"
  by (simp add: binary_ext_def)

text \<open>An input whose extension has no decoder is uploaded as it was staged.\<close>

lemma process_file_unsupported:
  assumes pres: "files w p = Some content"
    and "strings_ToLower (filepath_Ext p) \<noteq> ''.jpg''"
    and "strings_ToLower (filepath_Ext p) \<noteq> ''.jpeg''"
    and "strings_ToLower (filepath_Ext p) \<noteq> ''.png''"
  shows "\<exists>t evs. list_all quiet evs
        \<and> new_events w (snd (process_file E w p)) =
            Stat p False
              # Log (''Error compressing image '' @ p @ '': ''
                     @ ''unsupported image format: '' @ strings_ToLower (filepath_Ext p))
              # Upload p (cld_Upload E t p (Some content)) # evs
        \<and> fst (process_file E w p) =
            (case cld_Upload E t p (Some content) of Inl x \<Rightarrow> None | Inr u \<Rightarrow> Some u)"
proof -
  have "fst (compressImage E w p) =
          Inl (''unsupported image format: '' @ strings_ToLower (filepath_Ext p))"
    using compressImage_unsupported [OF assms] by simp
  from process_file_fallback [OF pres this] show ?thesis
    by simp
qed

lemma handle_binary_unsupported:
  assumes dec: "json_Unmarshal_BinaryJob E body = Inr b"
    and pres: "files w (FilePath b) = Some content"
    and "strings_ToLower (filepath_Ext (FilePath b)) \<noteq> ''.jpg''"
    and "strings_ToLower (filepath_Ext (FilePath b)) \<noteq> ''.jpeg''"
    and "strings_ToLower (filepath_Ext (FilePath b)) \<noteq> ''.png''"
  shows "\<exists>t. binary_upload_answer E w b = cld_Upload E t (FilePath b) (Some content)
        \<and> (case cld_Upload E t (FilePath b) (Some content) of
             Inr u \<Rightarrow>
               (\<exists>s r qs.
                  fst (handle_binary E w body) = Ack False
                  \<and> list_all quiet qs
                  \<and> new_events w (snd (handle_binary E w body)) =
                      (Log (''Processing binary upload job: '' @ JobID b)
                        # DbExec (SetProcessing (JobID b)) (db_fault E (tick w))
                        # (case db_fault E (tick w) of
                             None \<Rightarrow> []
                           | Some e \<Rightarrow> [Log (''Error updating job status: '' @ e)]))
                        @ [Stat (FilePath b) False, Log s,
                           Upload (FilePath b) (Inr u),
                           Log (''Uploaded to Cloudinary: '' @ u),
                           DbExec (SetCompleted u (JobID b)) r]
                        @ qs
                        @ [Settle (Ack False),
                           Log (''Binary upload job processed and acknowledged: '' @ JobID b)])
           | Inl x \<Rightarrow>
               (\<exists>s r.
                  fst (handle_binary E w body) = Nack False True
                  \<and> new_events w (snd (handle_binary E w body)) =
                      (Log (''Processing binary upload job: '' @ JobID b)
                        # DbExec (SetProcessing (JobID b)) (db_fault E (tick w))
                        # (case db_fault E (tick w) of
                             None \<Rightarrow> []
                           | Some e \<Rightarrow> [Log (''Error updating job status: '' @ e)]))
                        @ [Stat (FilePath b) False, Log s,
                           Upload (FilePath b) (Inl x),
                           Log (fmt_verbs E (''Error uploading to Cloudinary: ''
                                  @ ''error uploading to Cloudinary: '' @ x)),
                           DbExec (SetFailed (''Error uploading to Cloudinary: ''
                                     @ ''error uploading to Cloudinary: '' @ x) (JobID b)) r,
                           Log (''Error processing binary job: ''
                                  @ fmt_verbs E (''Error uploading to Cloudinary: ''
                                      @ ''error uploading to Cloudinary: '' @ x)),
                           Settle (Nack False True)]))"
proof -
  have "files (w\<lparr>tick := Suc (tick w)\<rparr>) (FilePath b) = Some content"
    using pres by simp
  then have "fst (compressImage E (w\<lparr>tick := Suc (tick w)\<rparr>) (FilePath b)) =
          Inl (''unsupported image format: '' @ strings_ToLower (filepath_Ext (FilePath b)))"
    using compressImage_unsupported [of "w\<lparr>tick := Suc (tick w)\<rparr>" "FilePath b" content E]
      assms(3-5)
    by simp
  with dec pres show ?thesis
    by (rule handle_binary_fallback)
qed

lemma run_ext:
  "strings_ToLower (filepath_Ext ''/tmp/a.webp'') = ''.webp''"
  "strings_ToLower (filepath_Ext (FilePath bjob1)) = ''.webp''"
  "jpeg_Decode env0 c = Inr (Image c)"
  "png_Decode env0 c = Inr (Image c)"
  by (simp_all add: filepath_Ext_def strings_ToLower_def lower_char_def bjob1_def env0_def)

section \<open>Claims\<close>

text \<open>
  C1, for the Binary variant only. A decoded Binary delivery starts with the statement that
  sets the status of its job to \<^verbatim>\<open>processing\<close>; when the statement succeeds the row of the
  job has status \<^verbatim>\<open>processing\<close>; when it fails the error is logged and nothing else changes:
  whatever the outcome \<open>db_fault E (tick w)\<close> of that statement, the job goes on to the
  existence check of its file, to the upload, to the write of \<^verbatim>\<open>failed\<close> or \<^verbatim>\<open>completed\<close>,
  and is settled by what the file and Cloudinary give. A Post delivery never writes
  \<^verbatim>\<open>processing\<close>: when it has collected no URL, or does not decode, it issues no statement,
  and otherwise its one statement is the upsert of the post of the envelope with the URLs
  collected, joined by commas; the posts table has no status.
\<close>

theorem processing_write_binary_only:
  "(json_Unmarshal_BinaryJob E body = Inr b \<longrightarrow> files w (FilePath b) = None \<longrightarrow>
      (\<exists>r. fst (handle_binary E w body) = Nack False True
        \<and> new_events w (snd (handle_binary E w body)) =
            Log (''Processing binary upload job: '' @ JobID b)
              # DbExec (SetProcessing (JobID b)) (db_fault E (tick w))
              # (case db_fault E (tick w) of
                   None \<Rightarrow> []
                 | Some e \<Rightarrow> [Log (''Error updating job status: '' @ e)])
              @ [Stat (FilePath b) True,
                 DbExec (SetFailed (''File not found: '' @ FilePath b) (JobID b)) r,
                 Log (''Error processing binary job: ''
                        @ fmt_verbs E (''File not found: '' @ FilePath b)),
                 Settle (Nack False True)]))
   \<and> (json_Unmarshal_BinaryJob E body = Inr b \<longrightarrow> files w (FilePath b) \<noteq> None \<longrightarrow>
      binary_upload_answer E w b = Inl e \<longrightarrow>
      (\<exists>s r. fst (handle_binary E w body) = Nack False True
        \<and> new_events w (snd (handle_binary E w body)) =
            (Log (''Processing binary upload job: '' @ JobID b)
              # DbExec (SetProcessing (JobID b)) (db_fault E (tick w))
              # (case db_fault E (tick w) of
                   None \<Rightarrow> []
                 | Some e \<Rightarrow> [Log (''Error updating job status: '' @ e)]))
              @ [Stat (FilePath b) False, Log s,
                 Upload (binary_upload_path E w b) (Inl e),
                 Log (fmt_verbs E (''Error uploading to Cloudinary: ''
                        @ ''error uploading to Cloudinary: '' @ e)),
                 DbExec (SetFailed (''Error uploading to Cloudinary: ''
                           @ ''error uploading to Cloudinary: '' @ e) (JobID b)) r]
              @ (if binary_upload_path E w b \<noteq> FilePath b
                 then [Remove (binary_upload_path E w b)]
                 else [])
              @ [Log (''Error processing binary job: ''
                        @ fmt_verbs E (''Error uploading to Cloudinary: ''
                            @ ''error uploading to Cloudinary: '' @ e)),
                 Settle (Nack False True)]))
   \<and> (json_Unmarshal_BinaryJob E body = Inr b \<longrightarrow> files w (FilePath b) \<noteq> None \<longrightarrow>
      binary_upload_answer E w b = Inr u \<longrightarrow>
      (\<exists>s r qs. fst (handle_binary E w body) = Ack False
        \<and> list_all quiet qs
        \<and> new_events w (snd (handle_binary E w body)) =
            (Log (''Processing binary upload job: '' @ JobID b)
              # DbExec (SetProcessing (JobID b)) (db_fault E (tick w))
              # (case db_fault E (tick w) of
                   None \<Rightarrow> []
                 | Some e \<Rightarrow> [Log (''Error updating job status: '' @ e)]))
              @ [Stat (FilePath b) False, Log s,
                 Upload (binary_upload_path E w b) (Inr u),
                 Log (''Uploaded to Cloudinary: '' @ u),
                 DbExec (SetCompleted u (JobID b)) r]
              @ qs
              @ [Settle (Ack False),
                 Log (''Binary upload job processed and acknowledged: '' @ JobID b)]))
   \<and> (db_fault E (tick w) = None \<longrightarrow> binary_uploads w (JobID b) = Some row \<longrightarrow>
        binary_uploads
          (mark_processing E (log_Printf (''Processing binary upload job: '' @ JobID b) w) b)
          (JobID b) = Some (row\<lparr>status := ''processing''\<rparr>))
   \<and> (json_Unmarshal_Job E pbody = Inr job \<longrightarrow> job_image_urls E w job \<noteq> [] \<longrightarrow>
        (\<exists>r. db_stmts (new_events w (snd (handle_post E w pbody))) =
              [(UpsertPostImages (PostID job) (Title job) (Todo job)
                  (strings_Join (job_image_urls E w job) '',''), r)]))
   \<and> (json_Unmarshal_Job E pbody = Inr job \<longrightarrow> job_image_urls E w job = [] \<longrightarrow>
        db_stmts (new_events w (snd (handle_post E w pbody))) = [])
   \<and> (json_Unmarshal_Job E pbody = Inl perr \<longrightarrow>
        db_stmts (new_events w (snd (handle_post E w pbody))) = [])"
proof (intro conjI impI)
  assume "json_Unmarshal_BinaryJob E body = Inr b" and "files w (FilePath b) = None"
  from handle_binary_missing_events [OF this]
  show "\<exists>r. fst (handle_binary E w body) = Nack False True
        \<and> new_events w (snd (handle_binary E w body)) =
            Log (''Processing binary upload job: '' @ JobID b)
              # DbExec (SetProcessing (JobID b)) (db_fault E (tick w))
              # (case db_fault E (tick w) of
                   None \<Rightarrow> []
                 | Some e \<Rightarrow> [Log (''Error updating job status: '' @ e)])
              @ [Stat (FilePath b) True,
                 DbExec (SetFailed (''File not found: '' @ FilePath b) (JobID b)) r,
                 Log (''Error processing binary job: ''
                        @ fmt_verbs E (''File not found: '' @ FilePath b)),
                 Settle (Nack False True)]"
    by (elim exE conjE) (intro exI conjI; assumption)
next
  assume "json_Unmarshal_BinaryJob E body = Inr b" and "files w (FilePath b) \<noteq> None"
    and "binary_upload_answer E w b = Inl e"
  from handle_binary_failed_events [OF this]
  show "\<exists>s r. fst (handle_binary E w body) = Nack False True
        \<and> new_events w (snd (handle_binary E w body)) =
            (Log (''Processing binary upload job: '' @ JobID b)
              # DbExec (SetProcessing (JobID b)) (db_fault E (tick w))
              # (case db_fault E (tick w) of
                   None \<Rightarrow> []
                 | Some e \<Rightarrow> [Log (''Error updating job status: '' @ e)]))
              @ [Stat (FilePath b) False, Log s,
                 Upload (binary_upload_path E w b) (Inl e),
                 Log (fmt_verbs E (''Error uploading to Cloudinary: ''
                        @ ''error uploading to Cloudinary: '' @ e)),
                 DbExec (SetFailed (''Error uploading to Cloudinary: ''
                           @ ''error uploading to Cloudinary: '' @ e) (JobID b)) r]
              @ (if binary_upload_path E w b \<noteq> FilePath b
                 then [Remove (binary_upload_path E w b)]
                 else [])
              @ [Log (''Error processing binary job: ''
                        @ fmt_verbs E (''Error uploading to Cloudinary: ''
                            @ ''error uploading to Cloudinary: '' @ e)),
                 Settle (Nack False True)]"
    by (elim exE conjE) (intro exI conjI; assumption)
next
  assume "json_Unmarshal_BinaryJob E body = Inr b" and "files w (FilePath b) \<noteq> None"
    and "binary_upload_answer E w b = Inr u"
  from handle_binary_done_events [OF this]
  show "\<exists>s r qs. fst (handle_binary E w body) = Ack False
        \<and> list_all quiet qs
        \<and> new_events w (snd (handle_binary E w body)) =
            (Log (''Processing binary upload job: '' @ JobID b)
              # DbExec (SetProcessing (JobID b)) (db_fault E (tick w))
              # (case db_fault E (tick w) of
                   None \<Rightarrow> []
                 | Some e \<Rightarrow> [Log (''Error updating job status: '' @ e)]))
              @ [Stat (FilePath b) False, Log s,
                 Upload (binary_upload_path E w b) (Inr u),
                 Log (''Uploaded to Cloudinary: '' @ u),
                 DbExec (SetCompleted u (JobID b)) r]
              @ qs
              @ [Settle (Ack False),
                 Log (''Binary upload job processed and acknowledged: '' @ JobID b)]"
    by (elim exE conjE) (intro exI conjI; assumption)
next
  assume "db_fault E (tick w) = None" and "binary_uploads w (JobID b) = Some row"
  then show "binary_uploads
          (mark_processing E (log_Printf (''Processing binary upload job: '' @ JobID b) w) b)
          (JobID b) = Some (row\<lparr>status := ''processing''\<rparr>)"
    using mark_processing_row
      [of E "log_Printf (''Processing binary upload job: '' @ JobID b) w" b row]
    by (simp add: log_Printf_fields)
next
  assume dec: "json_Unmarshal_Job E pbody = Inr job" and ne: "job_image_urls E w job \<noteq> []"
  from handle_post_done [OF dec ne] obtain pre r post where
    t: "new_events w (snd (handle_post E w pbody)) =
        pre @ DbExec (UpsertPostImages (PostID job) (Title job) (Todo job)
                        (strings_Join (job_image_urls E w job) '','')) r # post"
    and p: "db_stmts pre = []" "db_stmts post = []"
    by (elim exE conjE)
  have "db_stmts (new_events w (snd (handle_post E w pbody))) =
              [(UpsertPostImages (PostID job) (Title job) (Todo job)
                  (strings_Join (job_image_urls E w job) '',''), r)]"
    unfolding t using p by (simp add: db_stmts_append)
  then show "\<exists>r. db_stmts (new_events w (snd (handle_post E w pbody))) =
              [(UpsertPostImages (PostID job) (Title job) (Todo job)
                  (strings_Join (job_image_urls E w job) '',''), r)]" ..
next
  assume "json_Unmarshal_Job E pbody = Inr job" and "job_image_urls E w job = []"
  then show "db_stmts (new_events w (snd (handle_post E w pbody))) = []"
    by (rule handle_post_none)
next
  assume "json_Unmarshal_Job E pbody = Inl perr"
  then show "db_stmts (new_events w (snd (handle_post E w pbody))) = []"
    by (simp add: handle_post_def new_events_def)
qed

theorem processing_write_binary_only_witness:
  "json_Unmarshal_BinaryJob env0 ''bin1'' = Inr bjob1
   \<and> files world0 (FilePath bjob1) \<noteq> None
   \<and> binary_upload_answer env0 world0 bjob1 = Inr ''https://cdn/tmp/j1.webp''
   \<and> db_fault env0 (tick world0) = None
   \<and> binary_uploads world0 (JobID bjob1) =
       Some \<lparr>status = ''pending'', image_url = None, error_message = None\<rparr>
   \<and> fst (handle_binary env0 world0 ''bin1'') = Ack False
   \<and> binary_uploads
        (mark_processing env0
           (log_Printf (''Processing binary upload job: '' @ JobID bjob1) world0) bjob1)
        (JobID bjob1) =
       Some \<lparr>status = ''processing'', image_url = None, error_message = None\<rparr>
   \<and> json_Unmarshal_Job env0 ''post1'' = Inr job1
   \<and> job_image_urls env0 world0 job1 = [''https://cdn/tmp/a.webp'', ''https://cdn/tmp/b.webp'']
   \<and> (\<exists>r. db_stmts (new_events world0 (snd (handle_post env0 world0 ''post1''))) =
          [(UpsertPostImages (PostID job1) (Title job1) (Todo job1)
              (strings_Join [''https://cdn/tmp/a.webp'', ''https://cdn/tmp/b.webp''] '',''), r)])
   \<and> binary_upload_answer env_cld_down world0 bjob1 = Inl ''timeout''
   \<and> fst (handle_binary env_cld_down world0 ''bin1'') = Nack False True
   \<and> job_image_urls env_cld_down world0 job1 = []
   \<and> db_stmts (new_events world0 (snd (handle_post env_cld_down world0 ''post1''))) = []
   \<and> files (world0\<lparr>files := Map.empty\<rparr>) (FilePath bjob1) = None
   \<and> fst (handle_binary env0 (world0\<lparr>files := Map.empty\<rparr>) ''bin1'') = Nack False True
   \<and> json_Unmarshal_Job env0 ''{'' = Inl ''invalid character''
   \<and> db_stmts (new_events (world0\<lparr>files := Map.empty\<rparr>)
        (snd (handle_post env0 (world0\<lparr>files := Map.empty\<rparr>) ''{''))) = []"
  using processing_write_binary_only
    [where E = env0 and body = "''bin1''" and b = bjob1 and w = world0
       and u = "''https://cdn/tmp/j1.webp''"
       and row = "\<lparr>status = ''pending'', image_url = None, error_message = None\<rparr>"
       and pbody = "''post1''" and job = job1]
    processing_write_binary_only
    [where E = env_cld_down and body = "''bin1''" and b = bjob1 and w = world0
       and e = "''timeout''" and pbody = "''post1''" and job = job1]
    processing_write_binary_only
    [where E = env0 and body = "''bin1''" and b = bjob1
       and w = "world0\<lparr>files := Map.empty\<rparr>"
       and pbody = "''{''" and perr = "''invalid character''"]
  by (simp add: run_decode run_world0 run_binary_answer run_job_image_urls)

text \<open>
  The Post delivery of the concrete run uploads both of its files and is acknowledged; the
  one statement it issues is the upsert of the URLs.
\<close>

theorem post_writes_no_processing:
  "fst (handle_post env0 world0 ''post1'') = Ack False
   \<and> db_stmts (new_events world0 (snd (handle_post env0 world0 ''post1''))) =
       [(UpsertPostImages ''p1'' ''t'' []
           ''https://cdn/tmp/a.webp,https://cdn/tmp/b.webp'', None)]"
  by (simp add: run_defs)




text \<open>
  C3. A decoded Post delivery whose loop collected no URL issues no statement, leaves the
  posts as they were and is settled once, with \<^verbatim>\<open>Nack(false, true)\<close>; the step of the loop
  puts its body back on the queue. A decoded Binary delivery gets no URL when its staged
  file is missing or when the upload fails: in both cases it issues the write of \<^verbatim>\<open>failed\<close>
  with a message that is not empty, before it is settled with \<^verbatim>\<open>Nack(false, true)\<close>, and
  the step of the loop puts its body back on the queue; when the write succeeds the row of
  the job is \<^verbatim>\<open>failed\<close> with that message.
\<close>

theorem empty_result_requeued:
  "(json_Unmarshal_Job E pbody = Inr job \<longrightarrow> job_image_urls E w job = [] \<longrightarrow>
      fst (handle_post E w pbody) = Nack False True
      \<and> settles (new_events w (snd (handle_post E w pbody))) = [Nack False True]
      \<and> db_stmts (new_events w (snd (handle_post E w pbody))) = []
      \<and> posts (snd (handle_post E w pbody)) = posts w
      \<and> (\<exists>n. image_processing
              (post_loop_step E (w\<lparr>image_processing := pbody # image_processing w\<rparr>)) =
            take n (image_processing w) @ [pbody] @ drop n (image_processing w)))
   \<and> (json_Unmarshal_BinaryJob E body = Inr b \<longrightarrow> files w (FilePath b) = None \<longrightarrow>
      (\<exists>r. fst (handle_binary E w body) = Nack False True
        \<and> new_events w (snd (handle_binary E w body)) =
            Log (''Processing binary upload job: '' @ JobID b)
              # DbExec (SetProcessing (JobID b)) (db_fault E (tick w))
              # (case db_fault E (tick w) of
                   None \<Rightarrow> []
                 | Some e \<Rightarrow> [Log (''Error updating job status: '' @ e)])
              @ [Stat (FilePath b) True,
                 DbExec (SetFailed (''File not found: '' @ FilePath b) (JobID b)) r,
                 Log (''Error processing binary job: ''
                        @ fmt_verbs E (''File not found: '' @ FilePath b)),
                 Settle (Nack False True)]
        \<and> (r = None \<longrightarrow> binary_uploads w (JobID b) \<noteq> None \<longrightarrow>
             (\<exists>row. binary_uploads (snd (handle_binary E w body)) (JobID b) = Some row
                \<and> status row = ''failed''
                \<and> error_message row = Some (''File not found: '' @ FilePath b))))
      \<and> ''File not found: '' @ FilePath b \<noteq> []
      \<and> (\<exists>n. binary_upload
              (binary_loop_step E (w\<lparr>binary_upload := body # binary_upload w\<rparr>)) =
            take n (binary_upload w) @ [body] @ drop n (binary_upload w)))
   \<and> (json_Unmarshal_BinaryJob E body = Inr b \<longrightarrow> files w (FilePath b) \<noteq> None \<longrightarrow>
      binary_upload_answer E w b = Inl e \<longrightarrow>
      (\<exists>s r.
          fst (handle_binary E w body) = Nack False True
          \<and> new_events w (snd (handle_binary E w body)) =
              (Log (''Processing binary upload job: '' @ JobID b)
                # DbExec (SetProcessing (JobID b)) (db_fault E (tick w))
                # (case db_fault E (tick w) of
                     None \<Rightarrow> []
                   | Some e \<Rightarrow> [Log (''Error updating job status: '' @ e)]))
                @ [Stat (FilePath b) False, Log s,
                   Upload (binary_upload_path E w b)
                     (Inl e),
                   Log (fmt_verbs E (''Error uploading to Cloudinary: ''
                          @ ''error uploading to Cloudinary: '' @ e)),
                   DbExec (SetFailed (''Error uploading to Cloudinary: ''
                             @ ''error uploading to Cloudinary: '' @ e) (JobID b)) r]
                @ (if binary_upload_path E w b
                        \<noteq> FilePath b
                   then [Remove (binary_upload_path E w b)]
                   else [])
                @ [Log (''Error processing binary job: ''
                          @ fmt_verbs E (''Error uploading to Cloudinary: ''
                              @ ''error uploading to Cloudinary: '' @ e)),
                   Settle (Nack False True)]
          \<and> (r = None \<longrightarrow> binary_uploads w (JobID b) \<noteq> None \<longrightarrow>
               (\<exists>row. binary_uploads (snd (handle_binary E w body)) (JobID b) = Some row
                  \<and> status row = ''failed''
                  \<and> error_message row = Some (''Error uploading to Cloudinary: ''
                             @ ''error uploading to Cloudinary: '' @ e))))
      \<and> ''Error uploading to Cloudinary: '' @ ''error uploading to Cloudinary: '' @ e \<noteq> []
      \<and> (\<exists>n. binary_upload
              (binary_loop_step E (w\<lparr>binary_upload := body # binary_upload w\<rparr>)) =
            take n (binary_upload w) @ [body] @ drop n (binary_upload w)))"
proof (intro conjI impI)
  assume dec: "json_Unmarshal_Job E pbody = Inr job" and emp: "job_image_urls E w job = []"
  show "fst (handle_post E w pbody) = Nack False True"
    and "settles (new_events w (snd (handle_post E w pbody))) = [Nack False True]"
    and "db_stmts (new_events w (snd (handle_post E w pbody))) = []"
    and "posts (snd (handle_post E w pbody)) = posts w"
    using handle_post_none [OF dec emp] by simp_all
  show "\<exists>n. image_processing
              (post_loop_step E (w\<lparr>image_processing := pbody # image_processing w\<rparr>)) =
            take n (image_processing w) @ [pbody] @ drop n (image_processing w)"
    using handle_post_none(1) [OF dec emp] by (rule post_loop_step_requeued)
next
  assume dec: "json_Unmarshal_BinaryJob E body = Inr b" and miss: "files w (FilePath b) = None"
  show "\<exists>r. fst (handle_binary E w body) = Nack False True
        \<and> new_events w (snd (handle_binary E w body)) =
            Log (''Processing binary upload job: '' @ JobID b)
              # DbExec (SetProcessing (JobID b)) (db_fault E (tick w))
              # (case db_fault E (tick w) of
                   None \<Rightarrow> []
                 | Some e \<Rightarrow> [Log (''Error updating job status: '' @ e)])
              @ [Stat (FilePath b) True,
                 DbExec (SetFailed (''File not found: '' @ FilePath b) (JobID b)) r,
                 Log (''Error processing binary job: ''
                        @ fmt_verbs E (''File not found: '' @ FilePath b)),
                 Settle (Nack False True)]
        \<and> (r = None \<longrightarrow> binary_uploads w (JobID b) \<noteq> None \<longrightarrow>
             (\<exists>row. binary_uploads (snd (handle_binary E w body)) (JobID b) = Some row
                \<and> status row = ''failed''
                \<and> error_message row = Some (''File not found: '' @ FilePath b)))"
    using dec miss by (rule handle_binary_missing_events)
  show "''File not found: '' @ FilePath b \<noteq> []"
    by simp
  have "fst (handle_binary E w body) = Nack False True"
    using handle_binary_missing_events [OF dec miss] by (elim exE conjE)
  then show "\<exists>n. binary_upload
              (binary_loop_step E (w\<lparr>binary_upload := body # binary_upload w\<rparr>)) =
            take n (binary_upload w) @ [body] @ drop n (binary_upload w)"
    by (rule binary_loop_step_requeued)
next
  assume dec: "json_Unmarshal_BinaryJob E body = Inr b" and pres: "files w (FilePath b) \<noteq> None"
    and ans: "binary_upload_answer E w b = Inl e"
  show "\<exists>s r.
          fst (handle_binary E w body) = Nack False True
          \<and> new_events w (snd (handle_binary E w body)) =
              (Log (''Processing binary upload job: '' @ JobID b)
                # DbExec (SetProcessing (JobID b)) (db_fault E (tick w))
                # (case db_fault E (tick w) of
                     None \<Rightarrow> []
                   | Some e \<Rightarrow> [Log (''Error updating job status: '' @ e)]))
                @ [Stat (FilePath b) False, Log s,
                   Upload (binary_upload_path E w b)
                     (Inl e),
                   Log (fmt_verbs E (''Error uploading to Cloudinary: ''
                          @ ''error uploading to Cloudinary: '' @ e)),
                   DbExec (SetFailed (''Error uploading to Cloudinary: ''
                             @ ''error uploading to Cloudinary: '' @ e) (JobID b)) r]
                @ (if binary_upload_path E w b
                        \<noteq> FilePath b
                   then [Remove (binary_upload_path E w b)]
                   else [])
                @ [Log (''Error processing binary job: ''
                          @ fmt_verbs E (''Error uploading to Cloudinary: ''
                              @ ''error uploading to Cloudinary: '' @ e)),
                   Settle (Nack False True)]
          \<and> (r = None \<longrightarrow> binary_uploads w (JobID b) \<noteq> None \<longrightarrow>
               (\<exists>row. binary_uploads (snd (handle_binary E w body)) (JobID b) = Some row
                  \<and> status row = ''failed''
                  \<and> error_message row = Some (''Error uploading to Cloudinary: ''
                             @ ''error uploading to Cloudinary: '' @ e)))"
    using dec pres ans by (rule handle_binary_failed_events)
  show "''Error uploading to Cloudinary: '' @ ''error uploading to Cloudinary: '' @ e \<noteq> []"
    by simp
  have "fst (handle_binary E w body) = Nack False True"
    using handle_binary_failed_events [OF dec pres ans] by (elim exE conjE)
  then show "\<exists>n. binary_upload
              (binary_loop_step E (w\<lparr>binary_upload := body # binary_upload w\<rparr>)) =
            take n (binary_upload w) @ [body] @ drop n (binary_upload w)"
    by (rule binary_loop_step_requeued)
qed

theorem empty_result_requeued_witness:
  "json_Unmarshal_Job env_cld_down ''post1'' = Inr job1
   \<and> job_image_urls env_cld_down world0 job1 = []
   \<and> fst (handle_post env_cld_down world0 ''post1'') = Nack False True
   \<and> settles (new_events world0 (snd (handle_post env_cld_down world0 ''post1''))) =
       [Nack False True]
   \<and> json_Unmarshal_BinaryJob env_cld_down ''bin1'' = Inr bjob1
   \<and> files world0 (FilePath bjob1) \<noteq> None
   \<and> binary_upload_answer env_cld_down world0 bjob1 = Inl ''timeout''
   \<and> fst (handle_binary env_cld_down world0 ''bin1'') = Nack False True
   \<and> json_Unmarshal_BinaryJob env0 ''bin1'' = Inr bjob1
   \<and> files (world0\<lparr>files := Map.empty\<rparr>) (FilePath bjob1) = None
   \<and> fst (handle_binary env0 (world0\<lparr>files := Map.empty\<rparr>) ''bin1'') = Nack False True"
  using empty_result_requeued
    [where E = env_cld_down and pbody = "''post1''" and job = job1 and w = world0
       and body = "''bin1''" and b = bjob1 and e = "''timeout''"]
    empty_result_requeued
    [where E = env0 and body = "''bin1''" and b = bjob1
       and w = "world0\<lparr>files := Map.empty\<rparr>"]
  by (simp add: run_decode run_world0 run_binary_answer run_job_image_urls)

text \<open>
  C4. A delivery whose body does not decode is negatively acknowledged without requeue,
  on both queues: one step of the loop logs the error, settles the delivery once with
  \<^verbatim>\<open>Nack(false, false)\<close>, and leaves the queue without the body; neither the tables nor the
  files change.
\<close>

theorem malformed_envelope_dropped:
  "(json_Unmarshal_Job E body = Inl e \<longrightarrow> image_processing w = body # rest \<longrightarrow>
      image_processing (post_loop_step E w) = rest
      \<and> new_events w (post_loop_step E w) =
          [Log (''Error decoding message: '' @ e), Settle (Nack False False)]
      \<and> posts (post_loop_step E w) = posts w
      \<and> binary_uploads (post_loop_step E w) = binary_uploads w
      \<and> files (post_loop_step E w) = files w)
   \<and> (json_Unmarshal_BinaryJob E body = Inl e \<longrightarrow> binary_upload w = body # rest \<longrightarrow>
      binary_upload (binary_loop_step E w) = rest
      \<and> new_events w (binary_loop_step E w) =
          [Log (''Error decoding binary job message: '' @ e), Settle (Nack False False)]
      \<and> posts (binary_loop_step E w) = posts w
      \<and> binary_uploads (binary_loop_step E w) = binary_uploads w
      \<and> files (binary_loop_step E w) = files w)"
  by (simp add: post_loop_step_def binary_loop_step_def handle_post_def handle_binary_def
        broker_settle_def new_events_def)

theorem malformed_envelope_dropped_witness:
  "json_Unmarshal_Job env0 ''{'' = Inl ''invalid character''
   \<and> image_processing (world0\<lparr>image_processing := [''{'', ''post1'']\<rparr>) = ''{'' # [''post1'']
   \<and> image_processing (post_loop_step env0 (world0\<lparr>image_processing := [''{'', ''post1'']\<rparr>))
       = [''post1'']
   \<and> json_Unmarshal_BinaryJob env0 ''{'' = Inl ''invalid character''
   \<and> binary_upload (world0\<lparr>binary_upload := [''{'', ''bin1'']\<rparr>) = ''{'' # [''bin1'']
   \<and> binary_upload (binary_loop_step env0 (world0\<lparr>binary_upload := [''{'', ''bin1'']\<rparr>))
       = [''bin1'']"
  using malformed_envelope_dropped
          [of env0 "''{''" "''invalid character''"
              "world0\<lparr>image_processing := [''{'', ''post1'']\<rparr>" "[''post1'']"]
        malformed_envelope_dropped
          [of env0 "''{''" "''invalid character''"
              "world0\<lparr>binary_upload := [''{'', ''bin1'']\<rparr>" "[''bin1'']"]
  by (simp add: env0_def)



text \<open>
  C7. A decoded Post delivery checks the staged inputs one after the other in the order of
  \<^verbatim>\<open>file_paths\<close>, each exactly once. The URLs its loop collects are those of the inputs
  whose round returned one, in the order of the inputs, the others left out; they are the
  URLs of the successful uploads in the order in which the uploads were made, and when
  there is one at least, the one statement of the delivery stores exactly this sequence,
  joined by commas.
\<close>

theorem post_inputs_in_order:
  "json_Unmarshal_Job E pbody = Inr job \<longrightarrow>
     stat_paths (new_events w (snd (handle_post E w pbody))) = FilePaths job
     \<and> map fst (job_outcomes E w job) = FilePaths job
     \<and> job_image_urls E w job = List.map_filter snd (job_outcomes E w job)
     \<and> uploaded_urls (new_events w (snd (handle_post E w pbody))) = job_image_urls E w job
     \<and> (job_image_urls E w job \<noteq> [] \<longrightarrow>
          (\<exists>r. db_stmts (new_events w (snd (handle_post E w pbody))) =
              [(UpsertPostImages (PostID job) (Title job) (Todo job)
                  (strings_Join (job_image_urls E w job) '',''), r)]
           \<and> settles (new_events w (snd (handle_post E w pbody))) =
              [case r of None \<Rightarrow> Ack False | Some e \<Rightarrow> Nack False True]))"
  by (intro conjI impI handle_post_projections job_outcomes_paths job_image_urls_outcomes
        handle_post_done_stmts; assumption)

theorem post_inputs_in_order_witness:
  "json_Unmarshal_Job env0 ''post1'' = Inr job1
   \<and> stat_paths (new_events world0 (snd (handle_post env0 world0 ''post1''))) =
       [''/tmp/a.webp'', ''/tmp/gone.png'', ''/tmp/b.webp'']
   \<and> job_outcomes env0 world0 job1 =
       [(''/tmp/a.webp'', Some ''https://cdn/tmp/a.webp''), (''/tmp/gone.png'', None),
        (''/tmp/b.webp'', Some ''https://cdn/tmp/b.webp'')]
   \<and> uploaded_urls (new_events world0 (snd (handle_post env0 world0 ''post1''))) =
       [''https://cdn/tmp/a.webp'', ''https://cdn/tmp/b.webp'']
   \<and> job_image_urls env0 world0 job1 \<noteq> []
   \<and> (\<exists>r. db_stmts (new_events world0 (snd (handle_post env0 world0 ''post1''))) =
          [(UpsertPostImages ''p1'' ''t'' []
              ''https://cdn/tmp/a.webp,https://cdn/tmp/b.webp'', r)])"
  using post_inputs_in_order [where E = env0 and pbody = "''post1''" and job = job1
      and w = world0]
  by (auto simp: run_decode run_job_image_urls run_job_outcomes run_jobs)

text \<open>
  C10. The decoder of \<^verbatim>\<open>compressImage\<close> is chosen by the extension alone: the JPEG decoder
  for \<^verbatim>\<open>.jpg\<close> and \<^verbatim>\<open>.jpeg\<close>, the PNG decoder for \<^verbatim>\<open>.png\<close>, and for any other extension
  the error \<^verbatim>\<open>unsupported image format\<close> followed by the extension. For a staged file that
  is there, \<^verbatim>\<open>compressImage\<close> passes the lowercased extension of the path to that choice
  and returns its error without touching anything. So an input with another extension is
  uploaded as it was staged, path and bytes, in a round of a Post job as in a Binary
  delivery. The path the binary producer stages for a content type that gives \<^verbatim>\<open>.webp\<close> has
  the lowercased extension \<^verbatim>\<open>.webp\<close>.
\<close>

theorem transcoder_dispatches_on_extension:
  "(ext = ''.jpg'' \<or> ext = ''.jpeg'' \<longrightarrow>
      decode_by_ext E ext content =
        (case jpeg_Decode E content of
           Inl e \<Rightarrow> Inl (''error decoding JPEG: '' @ e)
         | Inr img \<Rightarrow> Inr img))
   \<and> (ext = ''.png'' \<longrightarrow>
      decode_by_ext E ext content =
        (case png_Decode E content of
           Inl e \<Rightarrow> Inl (''error decoding PNG: '' @ e)
         | Inr img \<Rightarrow> Inr img))
   \<and> (ext \<noteq> ''.jpg'' \<longrightarrow> ext \<noteq> ''.jpeg'' \<longrightarrow> ext \<noteq> ''.png'' \<longrightarrow>
      decode_by_ext E ext content = Inl (''unsupported image format: '' @ ext))
   \<and> (files w p = Some content \<longrightarrow>
      decode_by_ext E (strings_ToLower (filepath_Ext p)) content = Inl e \<longrightarrow>
      compressImage E w p = (Inl e, w))
   \<and> (files w p = Some content \<longrightarrow>
      strings_ToLower (filepath_Ext p) \<noteq> ''.jpg'' \<longrightarrow>
      strings_ToLower (filepath_Ext p) \<noteq> ''.jpeg'' \<longrightarrow>
      strings_ToLower (filepath_Ext p) \<noteq> ''.png'' \<longrightarrow>
      compressImage E w p =
        (Inl (''unsupported image format: '' @ strings_ToLower (filepath_Ext p)), w)
      \<and> (\<exists>t evs. list_all quiet evs
        \<and> new_events w (snd (process_file E w p)) =
            Stat p False
              # Log (''Error compressing image '' @ p @ '': ''
                     @ ''unsupported image format: '' @ strings_ToLower (filepath_Ext p))
              # Upload p (cld_Upload E t p (Some content)) # evs
        \<and> fst (process_file E w p) =
            (case cld_Upload E t p (Some content) of Inl x \<Rightarrow> None | Inr u \<Rightarrow> Some u)))
   \<and> (json_Unmarshal_BinaryJob E body = Inr b \<longrightarrow> files w (FilePath b) = Some content \<longrightarrow>
      strings_ToLower (filepath_Ext (FilePath b)) \<noteq> ''.jpg'' \<longrightarrow>
      strings_ToLower (filepath_Ext (FilePath b)) \<noteq> ''.jpeg'' \<longrightarrow>
      strings_ToLower (filepath_Ext (FilePath b)) \<noteq> ''.png'' \<longrightarrow>
      (\<exists>t. binary_upload_answer E w b = cld_Upload E t (FilePath b) (Some content)
        \<and> (case cld_Upload E t (FilePath b) (Some content) of
             Inr u \<Rightarrow>
               (\<exists>s r qs.
                  fst (handle_binary E w body) = Ack False
                  \<and> list_all quiet qs
                  \<and> new_events w (snd (handle_binary E w body)) =
                      (Log (''Processing binary upload job: '' @ JobID b)
                        # DbExec (SetProcessing (JobID b)) (db_fault E (tick w))
                        # (case db_fault E (tick w) of
                             None \<Rightarrow> []
                           | Some e \<Rightarrow> [Log (''Error updating job status: '' @ e)]))
                        @ [Stat (FilePath b) False, Log s,
                           Upload (FilePath b) (Inr u),
                           Log (''Uploaded to Cloudinary: '' @ u),
                           DbExec (SetCompleted u (JobID b)) r]
                        @ qs
                        @ [Settle (Ack False),
                           Log (''Binary upload job processed and acknowledged: '' @ JobID b)])
           | Inl x \<Rightarrow>
               (\<exists>s r.
                  fst (handle_binary E w body) = Nack False True
                  \<and> new_events w (snd (handle_binary E w body)) =
                      (Log (''Processing binary upload job: '' @ JobID b)
                        # DbExec (SetProcessing (JobID b)) (db_fault E (tick w))
                        # (case db_fault E (tick w) of
                             None \<Rightarrow> []
                           | Some e \<Rightarrow> [Log (''Error updating job status: '' @ e)]))
                        @ [Stat (FilePath b) False, Log s,
                           Upload (FilePath b) (Inl x),
                           Log (fmt_verbs E (''Error uploading to Cloudinary: ''
                                  @ ''error uploading to Cloudinary: '' @ x)),
                           DbExec (SetFailed (''Error uploading to Cloudinary: ''
                                     @ ''error uploading to Cloudinary: '' @ x) (JobID b)) r,
                           Log (''Error processing binary job: ''
                                  @ fmt_verbs E (''Error uploading to Cloudinary: ''
                                      @ ''error uploading to Cloudinary: '' @ x)),
                           Settle (Nack False True)]))))
   \<and> (binary_ext ct = ''.webp'' \<longrightarrow>
      strings_ToLower (filepath_Ext (filepath_Join tmpDir (jobID @ binary_ext ct))) = ''.webp'')"
proof (intro conjI impI)
  assume "ext = ''.jpg'' \<or> ext = ''.jpeg''"
  then show "decode_by_ext E ext content =
        (case jpeg_Decode E content of
           Inl e \<Rightarrow> Inl (''error decoding JPEG: '' @ e)
         | Inr img \<Rightarrow> Inr img)"
    by (auto simp: decode_by_ext_def)
next
  assume "ext = ''.png''"
  then show "decode_by_ext E ext content =
        (case png_Decode E content of
           Inl e \<Rightarrow> Inl (''error decoding PNG: '' @ e)
         | Inr img \<Rightarrow> Inr img)"
    by (simp add: decode_by_ext_def)
qed (rule decode_by_ext_unsupported compressImage_decode_failed compressImage_unsupported
       process_file_unsupported handle_binary_unsupported staged_webp_ext; assumption)+

theorem transcoder_dispatches_on_extension_witness:
  "decode_by_ext env0 ''.jpg'' ''A'' = Inr (Image ''A'')
   \<and> decode_by_ext env0 ''.png'' ''A'' = Inr (Image ''A'')
   \<and> decode_by_ext env0 ''.webp'' ''A'' = Inl ''unsupported image format: .webp''
   \<and> files world0 ''/tmp/a.webp'' = Some ''A''
   \<and> strings_ToLower (filepath_Ext ''/tmp/a.webp'') = ''.webp''
   \<and> compressImage env0 world0 ''/tmp/a.webp'' =
       (Inl ''unsupported image format: .webp'', world0)
   \<and> fst (process_file env0 world0 ''/tmp/a.webp'') = Some ''https://cdn/tmp/a.webp''
   \<and> json_Unmarshal_BinaryJob env0 ''bin1'' = Inr bjob1
   \<and> files world0 (FilePath bjob1) = Some ''J''
   \<and> strings_ToLower (filepath_Ext (FilePath bjob1)) = ''.webp''
   \<and> fst (handle_binary env0 world0 ''bin1'') = Ack False
   \<and> binary_ext ''image/webp'' = ''.webp''
   \<and> strings_ToLower (filepath_Ext (filepath_Join tmpDir (''u0'' @ binary_ext ''image/webp'')))
       = ''.webp''"
  using transcoder_dispatches_on_extension
    [where E = env0 and ext = "''.jpg''" and content = "''A''"]
    transcoder_dispatches_on_extension
    [where E = env0 and ext = "''.png''" and content = "''A''"]
    transcoder_dispatches_on_extension
    [where E = env0 and ext = "''.webp''" and content = "''A''" and w = world0
       and p = "''/tmp/a.webp''" and e = "''unsupported image format: .webp''"
       and ct = "''image/webp''" and jobID = "''u0''"]
    transcoder_dispatches_on_extension
    [where E = env0 and w = world0 and body = "''bin1''" and b = bjob1 and content = "''J''"]
  by (auto simp: run_decode run_world0(1) run_compress run_ext run_binary_ext)


end
